(* ===== verification/Motors_Prelude.thy ===== *)
theory Motors_Prelude
  imports Complex_Main "HOL-Library.Word"
begin

text \<open>
  Shared vocabulary of the motor-output development. The source computes in
  single-precision \<open>float\<close>; the model computes in exact \<^typ>\<open>real\<close>, so
  rounding and the IEEE special values (infinities, NaN) are outside the model.
  The comparison helpers of \<open>AP_Math\<close> (\<open>constrain_float\<close>, \<open>is_zero\<close>,
  \<open>is_positive\<close>, \<open>is_equal\<close>) are kept with their \<open>FLT_EPSILON\<close> thresholds,
  since the control logic branches on them. The low-pass filter of the
  \<open>Filter\<close> library is the first-order update \<open>y + \<alpha> (x - y)\<close> with
  \<open>\<alpha> = dt / (dt + \<tau>)\<close>. The lemmas here (bounds and monotonicity of
  \<open>constrain_float\<close>, the bounded step towards a target, the low-pass filter
  staying between its input and its output) carry the component proofs.
\<close>

named_theorems clamp_rules "bounds and monotonicity facts of constrain_float"

type_synonym float = real

definition FLT_EPSILON :: real where
  "FLT_EPSILON = 1 / 8388608"

definition constrain_float :: "float \<Rightarrow> float \<Rightarrow> float \<Rightarrow> float" where
  "constrain_float amt low high = (if amt < low then low else if amt > high then high else amt)"

definition is_zero :: "float \<Rightarrow> bool" where
  "is_zero x \<longleftrightarrow> \<bar>x\<bar> < FLT_EPSILON"

definition is_positive :: "float \<Rightarrow> bool" where
  "is_positive x \<longleftrightarrow> FLT_EPSILON \<le> x"

definition is_equal :: "float \<Rightarrow> float \<Rightarrow> bool" where
  "is_equal a b \<longleftrightarrow> \<bar>a - b\<bar> < FLT_EPSILON"

definition lowpass_apply :: "float \<Rightarrow> float \<Rightarrow> float \<Rightarrow> float \<Rightarrow> float" where
  "lowpass_apply tau y sample dt = y + (dt / (dt + tau)) * (sample - y)"

text \<open>A float converted to an integer type: C truncates towards zero.\<close>

definition float_to_int :: "float \<Rightarrow> int" where
  "float_to_int x = (if 0 \<le> x then \<lfloor>x\<rfloor> else \<lceil>x\<rceil>)"

lemma float_to_int_of_int [simp]: "float_to_int (of_int n) = n"
  by (simp add: float_to_int_def)

lemma float_to_int_of_nat [simp]: "float_to_int (of_nat n) = int n"
  using float_to_int_of_int [of "int n"] by simp

lemma float_to_int_numeral [simp]: "float_to_int (numeral n) = numeral n"
  using float_to_int_of_int [of "numeral n"] by simp

lemma float_to_int_01 [simp]: "float_to_int 0 = 0" "float_to_int 1 = 1"
  using float_to_int_of_int [of 0] float_to_int_of_int [of 1] by simp_all

lemma FLT_EPSILON_pos [simp]: "0 < FLT_EPSILON"
  by (simp add: FLT_EPSILON_def)

lemma constrain_float_ge_low [clamp_rules]:
  "low \<le> high \<Longrightarrow> low \<le> constrain_float x low high"
  by (simp add: constrain_float_def)

lemma constrain_float_le_high [clamp_rules]:
  "low \<le> high \<Longrightarrow> constrain_float x low high \<le> high"
  by (simp add: constrain_float_def)

lemma constrain_float_id [clamp_rules]:
  "low \<le> x \<Longrightarrow> x \<le> high \<Longrightarrow> constrain_float x low high = x"
  by (simp add: constrain_float_def)

lemma constrain_float_mono [clamp_rules]:
  "x \<le> y \<Longrightarrow> low \<le> high \<Longrightarrow> constrain_float x low high \<le> constrain_float y low high"
  by (simp add: constrain_float_def)

lemma constrain_float_le_input:
  "low \<le> x \<Longrightarrow> constrain_float x low high \<le> x"
  by (simp add: constrain_float_def)

lemma constrain_float_ge_input:
  "x \<le> high \<Longrightarrow> x \<le> constrain_float x low high"
  by (simp add: constrain_float_def)

lemma constrain_float_cases:
  "constrain_float x low high = low \<or> constrain_float x low high = high \<or> constrain_float x low high = x"
  by (simp add: constrain_float_def)

text \<open>
  A bounded step towards a target, \<open>x + constrain_float (t - x) (-d) u\<close>, lands
  between \<open>x\<close> and \<open>t\<close> when both rates are non-negative: it never overshoots.
\<close>

lemma step_toward_between:
  assumes "0 \<le> d" "0 \<le> u"
  shows "min x t \<le> x + constrain_float (t - x) (- d) u \<and> x + constrain_float (t - x) (- d) u \<le> max x t"
  using assms by (auto simp: constrain_float_def)

lemma step_toward_in_range:
  assumes "0 \<le> d" "0 \<le> u" "lo \<le> x" "x \<le> hi" "lo \<le> t" "t \<le> hi"
  shows "lo \<le> x + constrain_float (t - x) (- d) u \<and> x + constrain_float (t - x) (- d) u \<le> hi"
  using step_toward_between [OF assms(1,2), of x t] assms(3-6) by linarith

lemma lowpass_alpha_bounds:
  fixes dt tau :: real
  assumes "0 < dt" "0 \<le> tau"
  shows "0 < dt / (dt + tau) \<and> dt / (dt + tau) \<le> 1"
  using assms by (auto simp: divide_le_eq)

lemma convex_step_between:
  fixes a x y :: real
  assumes "0 \<le> a" "a \<le> 1"
  shows "min y x \<le> y + a * (x - y) \<and> y + a * (x - y) \<le> max y x"
proof (cases "y \<le> x")
  case True
  have "a * (x - y) \<le> x - y"
    using True assms by (simp add: mult_left_le_one_le)
  moreover have "0 \<le> a * (x - y)"
    using True assms by simp
  ultimately show ?thesis using True by simp
next
  case False
  have "a * (y - x) \<le> y - x"
    using False assms by (simp add: mult_left_le_one_le)
  moreover have "0 \<le> a * (y - x)"
    using False assms by simp
  ultimately show ?thesis using False by (simp add: right_diff_distrib)
qed

lemma lowpass_apply_between:
  assumes "0 < dt" "0 \<le> tau"
  shows "min y x \<le> lowpass_apply tau y x dt \<and> lowpass_apply tau y x dt \<le> max y x"
  using convex_step_between [of "dt / (dt + tau)" y x] lowpass_alpha_bounds [OF assms]
  by (simp add: lowpass_apply_def)

lemma lowpass_apply_nonneg:
  assumes "0 \<le> dt" "0 \<le> tau" "0 \<le> y" "0 \<le> x"
  shows "0 \<le> lowpass_apply tau y x dt"
proof (cases "dt = 0")
  case True
  then show ?thesis using assms(3) by (simp add: lowpass_apply_def)
next
  case False
  then have "0 < dt" using assms(1) by simp
  then show ?thesis
    using lowpass_apply_between [OF _ assms(2), of dt y x] assms(3,4) by (meson min.boundedI order_trans)
qed

text \<open>A search with a predicate that never holds finds nothing.\<close>

lemma find_never [simp]: "find (\<lambda>_. False) xs = None"
  by (induction xs) simp_all

text \<open>A machine-word loop counter below a bound that fits the word does not wrap.\<close>

lemma unat_inc_below:
  fixes i :: "'a::len word"
  assumes "unat i < n" "n < 2 ^ LENGTH('a)"
  shows "unat (i + 1) = Suc (unat i)"
  using assms by (simp add: unat_word_ariths(1))

text \<open>A fold whose every step keeps a view of the state keeps that view.\<close>

lemma foldl_invariant_view:
  "(\<And>s i. g (f s i) = g s) \<Longrightarrow> g (foldl f s xs) = g s"
  by (induction xs arbitrary: s) simp_all

end
