(* ===== verification/Motors_State.thy ===== *)
theory Motors_State
  imports Motors_Prelude
begin

text \<open>
  The data of \<open>AP_MotorsMulticopter\<close>: its enumerations as datatypes, its
  parameters (the \<open>var_info\<close> table, with the defaults it declares) as the
  records \<open>motor_params\<close> and \<open>thr_lin_params\<close>, and its runtime members
  as the record \<open>motors_state\<close>. Motor arrays indexed by motor number
  (\<open>_actuator[]\<close>, \<open>motor_enabled[]\<close>) are functions from the index. The
  outputs the class sends to the servo/ESC driver, the logger and the parameter
  store are recorded, in order, as a list of \<open>output_event\<close>s. The battery
  monitor is read through \<open>battery_monitor\<close>, one reading per battery
  instance.
\<close>

datatype spool_state = SHUT_DOWN | GROUND_IDLE | SPOOLING_UP | THROTTLE_UNLIMITED | SPOOLING_DOWN

datatype desired_spool_state = DESIRED_SHUT_DOWN | DESIRED_GROUND_IDLE | DESIRED_THROTTLE_UNLIMITED

datatype pwm_type = NORMAL | ONESHOT | ONESHOT125 | BRUSHED | DSHOT150 | DSHOT300 | DSHOT600
  | DSHOT1200 | PWM_RANGE | PWM_ANGLE

datatype hover_learn = HOVER_LEARN_DISABLED | HOVER_LEARN_ONLY | HOVER_LEARN_AND_SAVE

datatype srv_function = K_boost_throttle | K_roll_out | K_pitch_out | K_yaw_out | K_thrust_out
  | K_throttleRight | K_throttleLeft

datatype output_event =
    Rc_write nat int
  | Set_output_scaled srv_function float
  | Set_output_pwm srv_function int
  | Set_esc_scaling int int
  | Save_param_throttle_hover float
  | Save_param_pwm int int
  | Log_motbatt nat float float float float float "8 word"

record limit_flags =
  roll :: bool
  pitch :: bool
  yaw :: bool
  throttle_lower :: bool
  throttle_upper :: bool

record thr_lin_params =
  curve_expo :: float
  spin_min :: float
  spin_max :: float
  batt_voltage_max :: float
  batt_voltage_min :: float
  batt_idx :: nat
  lift_max :: float
  batt_voltage_filt :: float

record motor_params =
  yaw_headroom :: int
  pwm_type :: pwm_type
  pwm_min :: int
  pwm_max :: int
  pwm_min_configured :: bool
  pwm_max_configured :: bool
  spin_arm :: float
  batt_current_max :: float
  batt_current_time_constant :: float
  throttle_hover :: float
  throttle_hover_learn :: hover_learn
  disarm_disable_pwm :: bool
  yaw_servo_angle_max_deg :: int
  spool_up_time :: float
  boost_scale :: float
  slew_up_time :: float
  slew_dn_time :: float
  safe_time :: float
  options :: int
  spool_down_time :: float

record batt_reading =
  voltage :: float
  current_amps :: "float option"
  resistance :: float

type_synonym battery_monitor = "nat \<Rightarrow> batt_reading"

record motors_state =
  params :: motor_params
  thr_lin :: thr_lin_params
  armed :: bool
  interlock :: bool
  spoolup_block :: bool
  dt_s :: float
  throttle_in :: float
  throttle_filter :: float
  throttle_filter_tc :: float
  throttle_slew :: "(float \<times> nat) list"
  throttle_slew_rate :: float
  throttle_slew_filter :: float
  throttle_slew_filter_tc :: float
  spool_desired :: desired_spool_state
  spool_state :: spool_state
  spin_up_ratio :: float
  throttle_thrust_max :: float
  disarm_safe_timer :: float
  thrust_boost :: bool
  thrust_balanced :: bool
  thrust_boost_ratio :: float
  throttle_limit :: float
  throttle_avg_max :: float
  throttle_out :: float
  roll_in_ff :: float
  pitch_in_ff :: float
  yaw_in_ff :: float
  actuator :: "nat \<Rightarrow> float"
  motor_enabled :: "nat \<Rightarrow> bool"
  motor_mask_override :: "32 word"
  limit :: limit_flags
  external_limits :: limit_flags
  outputs :: "output_event list"

definition AP_MOTORS_MAX_NUM_MOTORS :: nat where
  "AP_MOTORS_MAX_NUM_MOTORS = 32"

definition AP_MOTORS_THST_HOVER_MIN :: float where
  "AP_MOTORS_THST_HOVER_MIN = 0.125"

definition AP_MOTORS_THST_HOVER_MAX :: float where
  "AP_MOTORS_THST_HOVER_MAX = 0.6875"

definition AP_MOTORS_THST_HOVER_TC :: float where
  "AP_MOTORS_THST_HOVER_TC = 10"

definition default_thr_lin :: thr_lin_params where
  "default_thr_lin = \<lparr>curve_expo = 0.65, spin_min = 0.15, spin_max = 0.95,
     batt_voltage_max = 0, batt_voltage_min = 0, batt_idx = 0, lift_max = 1,
     batt_voltage_filt = 1\<rparr>"

definition default_params :: motor_params where
  "default_params = \<lparr>yaw_headroom = 200, pwm_type = NORMAL, pwm_min = 1000, pwm_max = 2000,
     pwm_min_configured = False, pwm_max_configured = False, spin_arm = 0.1,
     batt_current_max = 0, batt_current_time_constant = 5, throttle_hover = 0.35,
     throttle_hover_learn = HOVER_LEARN_AND_SAVE, disarm_disable_pwm = False,
     yaw_servo_angle_max_deg = 30, spool_up_time = 0.5, boost_scale = 0,
     slew_up_time = 0, slew_dn_time = 0, safe_time = 1, options = 0,
     spool_down_time = 0\<rparr>"

definition all_limits :: "bool \<Rightarrow> limit_flags" where
  "all_limits b = \<lparr>roll = b, pitch = b, yaw = b, throttle_lower = b, throttle_upper = b\<rparr>"

definition motors_init :: "nat \<Rightarrow> motors_state" where
  "motors_init speed_hz = \<lparr>params = default_params, thr_lin = default_thr_lin,
     armed = False, interlock = False, spoolup_block = False,
     dt_s = 1 / real speed_hz, throttle_in = 0, throttle_filter = 0, throttle_filter_tc = 0,
     throttle_slew = [], throttle_slew_rate = 0, throttle_slew_filter = 0,
     throttle_slew_filter_tc = 0,
     spool_desired = DESIRED_SHUT_DOWN, spool_state = SHUT_DOWN, spin_up_ratio = 0,
     throttle_thrust_max = 0, disarm_safe_timer = 0, thrust_boost = False,
     thrust_balanced = True, thrust_boost_ratio = 0, throttle_limit = 1,
     throttle_avg_max = 0, throttle_out = 0, roll_in_ff = 0, pitch_in_ff = 0, yaw_in_ff = 0,
     actuator = (\<lambda>_. 0), motor_enabled = (\<lambda>_. False), motor_mask_override = 0,
     limit = all_limits True, external_limits = all_limits False, outputs = []\<rparr>"

definition get_throttle :: "motors_state \<Rightarrow> float" where
  "get_throttle s = constrain_float (throttle_filter s) 0 1"

definition get_throttle_hover :: "motors_state \<Rightarrow> float" where
  "get_throttle_hover s =
     constrain_float (throttle_hover (params s)) AP_MOTORS_THST_HOVER_MIN AP_MOTORS_THST_HOVER_MAX"

definition get_pwm_output_min :: "motors_state \<Rightarrow> int" where
  "get_pwm_output_min s = pwm_min (params s)"

definition get_pwm_output_max :: "motors_state \<Rightarrow> int" where
  "get_pwm_output_max s = pwm_max (params s)"

definition set_desired_spool_state :: "desired_spool_state \<Rightarrow> motors_state \<Rightarrow> motors_state" where
  "set_desired_spool_state d s = s\<lparr>spool_desired := d\<rparr>"

definition emit :: "output_event \<Rightarrow> motors_state \<Rightarrow> motors_state" where
  "emit e s = s\<lparr>outputs := outputs s @ [e]\<rparr>"

definition witness_battery :: battery_monitor where
  "witness_battery = (\<lambda>_. \<lparr>voltage = 16, current_amps = Some 10, resistance = 0.01\<rparr>)"

lemma get_throttle_bounds: "0 \<le> get_throttle s \<and> get_throttle s \<le> 1"
  by (simp add: get_throttle_def clamp_rules)

lemma get_throttle_hover_bounds:
  "AP_MOTORS_THST_HOVER_MIN \<le> get_throttle_hover s \<and> get_throttle_hover s \<le> AP_MOTORS_THST_HOVER_MAX"
  unfolding get_throttle_hover_def
  by (intro conjI constrain_float_ge_low constrain_float_le_high)
    (simp_all add: AP_MOTORS_THST_HOVER_MIN_def AP_MOTORS_THST_HOVER_MAX_def)

lemma get_throttle_hover_unit: "0 < get_throttle_hover s \<and> get_throttle_hover s < 1"
  using get_throttle_hover_bounds [of s]
  by (simp add: AP_MOTORS_THST_HOVER_MIN_def AP_MOTORS_THST_HOVER_MAX_def)

end
