(* ===== verification/Current_Limiter.thy ===== *)
theory Current_Limiter
  imports Motors_State
begin

text \<open>
  \<open>AP_MotorsMulticopter::get_current_limit_max_throttle\<close>: the dynamic
  ceiling on throttle derived from battery-current headroom. It is not a pure
  getter: every call integrates \<open>_throttle_limit\<close> one step, so the model
  returns the ceiling together with the updated state. The battery monitor is
  read at \<open>thr_lin.batt_idx\<close>; \<open>current_amps\<close> returning \<open>false\<close> is
  \<open>None\<close>. A build without \<open>AP_BATTERY_ENABLED\<close> (which returns 1) is not
  modelled.
\<close>

definition current_limit_reset :: "motors_state \<Rightarrow> float \<times> motors_state" where
  "current_limit_reset s = (1, s\<lparr>throttle_limit := 1\<rparr>)"

definition get_current_limit_max_throttle :: "battery_monitor \<Rightarrow> motors_state \<Rightarrow> float \<times> motors_state" where
  "get_current_limit_max_throttle bm s =
     (let b = bm (batt_idx (thr_lin s)); p = params s in
      if batt_current_max p \<le> 0 \<or> \<not> armed s then current_limit_reset s
      else (case current_amps b of
        None \<Rightarrow> current_limit_reset s
      | Some batt_current \<Rightarrow>
          (if is_zero (resistance b) then current_limit_reset s
           else
             (let cur_max = min (batt_current_max p)
                    (batt_current + (voltage b - batt_voltage_min (thr_lin s)) / resistance b);
                  ratio = batt_current / cur_max;
                  thr_lim = constrain_float
                         (throttle_limit s + (dt_s s / (dt_s s + batt_current_time_constant p)) * (1 - ratio))
                         0.2 1
              in (get_throttle_hover s + (1 - get_throttle_hover s) * thr_lim, s\<lparr>throttle_limit := thr_lim\<rparr>)))))"

text \<open>The integration step on its own, as a function of the measured current.\<close>

definition current_limit_step :: "float \<Rightarrow> float \<Rightarrow> float \<Rightarrow> float \<Rightarrow> float \<Rightarrow> float" where
  "current_limit_step alpha thr_lim cmax k i = constrain_float (thr_lim + alpha * (1 - i / min cmax (i + k))) 0.2 1"

definition sag_witness_state :: motors_state where
  "sag_witness_state = (motors_init 10)\<lparr>armed := True, throttle_limit := 0.5,
     params := default_params\<lparr>batt_current_max := 60, batt_current_time_constant := 0.9\<rparr>,
     thr_lin := default_thr_lin\<lparr>batt_voltage_min := 13.2\<rparr>\<rparr>"

definition sag_battery :: "float \<Rightarrow> battery_monitor" where
  "sag_battery i = (\<lambda>_. \<lparr>voltage = 16, current_amps = Some i, resistance = 0.01\<rparr>)"

text \<open>
  A battery drawing \<open>i\<close> amps above \<open>MOT_BAT_CURR_MAX\<close> with enough voltage headroom that the
  headroom term of the ceiling does not bind, and the decay of \<open>_throttle_limit\<close> per call it causes.
\<close>

definition overcurrent :: "battery_monitor \<Rightarrow> float \<Rightarrow> motors_state \<Rightarrow> bool" where
  "overcurrent bm i s \<longleftrightarrow> armed s \<and> 0 < batt_current_max (params s) \<and>
     current_amps (bm (batt_idx (thr_lin s))) = Some i \<and> \<not> is_zero (resistance (bm (batt_idx (thr_lin s)))) \<and>
     batt_current_max (params s) < i \<and>
     batt_current_max (params s) \<le> i + (voltage (bm (batt_idx (thr_lin s))) - batt_voltage_min (thr_lin s))
                                       / resistance (bm (batt_idx (thr_lin s)))"

definition overcurrent_decay :: "float \<Rightarrow> motors_state \<Rightarrow> float" where
  "overcurrent_decay i s = dt_s s / (dt_s s + batt_current_time_constant (params s)) *
     (i / batt_current_max (params s) - 1)"

lemma get_current_limit_max_throttle_frame:
  "snd (get_current_limit_max_throttle bm s) = s\<lparr>throttle_limit := throttle_limit (snd (get_current_limit_max_throttle bm s))\<rparr>"
  by (simp add: get_current_limit_max_throttle_def current_limit_reset_def Let_def
      split: option.splits)

lemma constrain_float_limit_range:
  "0.2 \<le> constrain_float x 0.2 1 \<and> constrain_float x 0.2 1 \<le> (1::real)"
  by (intro conjI constrain_float_ge_low constrain_float_le_high) simp_all

lemma get_current_limit_max_throttle_cases:
  "get_current_limit_max_throttle bm s = current_limit_reset s \<or>
   (\<exists>lim. 0.2 \<le> lim \<and> lim \<le> 1 \<and>
      get_current_limit_max_throttle bm s =
        (get_throttle_hover s + (1 - get_throttle_hover s) * lim, s\<lparr>throttle_limit := lim\<rparr>))"
  unfolding get_current_limit_max_throttle_def Let_def
  using constrain_float_limit_range by (auto split: option.splits)

lemma convex_hover_bounds:
  fixes h t :: real
  assumes "0 < h" "h < 1" "0 \<le> t" "t \<le> 1"
  shows "h \<le> h + (1 - h) * t \<and> h + (1 - h) * t \<le> 1"
proof -
  have "(1 - h) * t \<le> 1 - h"
    using assms by (simp add: mult_left_le)
  moreover have "0 \<le> (1 - h) * t"
    using assms by simp
  ultimately show ?thesis by linarith
qed

lemma get_current_limit_max_throttle_bounds:
  "get_throttle_hover s \<le> fst (get_current_limit_max_throttle bm s) \<and>
   fst (get_current_limit_max_throttle bm s) \<le> 1 \<and>
   0.2 \<le> throttle_limit (snd (get_current_limit_max_throttle bm s)) \<and>
   throttle_limit (snd (get_current_limit_max_throttle bm s)) \<le> 1"
  using get_current_limit_max_throttle_cases [of bm s]
proof
  assume "get_current_limit_max_throttle bm s = current_limit_reset s"
  then show ?thesis
    using get_throttle_hover_unit [of s] by (simp add: current_limit_reset_def)
next
  assume "\<exists>lim. 0.2 \<le> lim \<and> lim \<le> 1 \<and> get_current_limit_max_throttle bm s =
      (get_throttle_hover s + (1 - get_throttle_hover s) * lim, s\<lparr>throttle_limit := lim\<rparr>)"
  then obtain lim where lim: "0.2 \<le> lim" "lim \<le> 1"
    and eq: "get_current_limit_max_throttle bm s =
      (get_throttle_hover s + (1 - get_throttle_hover s) * lim, s\<lparr>throttle_limit := lim\<rparr>)"
    by blast
  have "0 \<le> lim" using lim by simp
  then show ?thesis
    using convex_hover_bounds [of "get_throttle_hover s" lim] get_throttle_hover_unit [of s] lim
    by (simp add: eq)
qed

lemma get_current_limit_max_throttle_unit:
  "0 < fst (get_current_limit_max_throttle bm s) \<and> fst (get_current_limit_max_throttle bm s) \<le> 1"
  using get_current_limit_max_throttle_bounds [of s bm] get_throttle_hover_unit [of s] by linarith

lemma div_min_eq_max:
  fixes i a b :: real
  assumes "0 < a" "0 < b" "0 \<le> i"
  shows "i / min a b = max (i / a) (i / b)"
proof (cases "a \<le> b")
  case True
  have "i / b \<le> i / a" using assms True by (intro divide_left_mono) auto
  then show ?thesis using True by (auto simp: min_def max_def)
next
  case False
  have "i / a \<le> i / b" using assms False by (intro divide_left_mono) auto
  then show ?thesis using False by (auto simp: min_def max_def)
qed

lemma current_ratio_mono:
  fixes cm k curA curB :: real
  assumes "0 < cm" "0 \<le> k" "0 \<le> curA" "curA \<le> curB" "0 < curA + k"
  shows "curA / min cm (curA + k) \<le> curB / min cm (curB + k)"
proof -
  have p2: "0 < curB + k" using assms by linarith
  have a: "curA / cm \<le> curB / cm" using assms by (simp add: divide_right_mono)
  have "curA * (curB + k) \<le> curB * (curA + k)"
    using assms by (simp add: algebra_simps mult_right_mono)
  then have b: "curA / (curA + k) \<le> curB / (curB + k)"
    using assms(5) p2 by (simp add: field_simps)
  show ?thesis
    using div_min_eq_max [OF assms(1,5,3)] div_min_eq_max [OF assms(1) p2] a b assms by auto
qed

lemma current_limit_step_antimono:
  fixes alpha lim cm k curA curB :: real
  assumes "0 \<le> alpha" "0 < cm" "0 \<le> k" "0 \<le> curA" "curA \<le> curB" "0 < curA + k"
  shows "current_limit_step alpha lim cm k curB \<le> current_limit_step alpha lim cm k curA"
proof -
  have "alpha * (1 - curB / min cm (curB + k)) \<le> alpha * (1 - curA / min cm (curA + k))"
    using current_ratio_mono [OF assms(2-6)] assms(1) by (simp add: mult_left_mono)
  then show ?thesis unfolding current_limit_step_def
    by (intro constrain_float_mono) auto
qed

lemma current_limit_step_mono_sag:
  fixes alpha lim cm k curA curB :: real
  assumes "0 \<le> alpha" "k \<le> 0" "0 < curA + k" "curA \<le> curB" "curB + k \<le> cm"
  shows "current_limit_step alpha lim cm k curA \<le> current_limit_step alpha lim cm k curB"
proof -
  have pA: "0 < curA + k" and pB: "0 < curB + k" using assms(3,4) by linarith+
  have mins: "min cm (curA + k) = curA + k" "min cm (curB + k) = curB + k" using assms(4,5) by simp_all
  have "curB * (curA + k) \<le> curA * (curB + k)"
    using mult_right_mono_neg [OF assms(4,2)] by (simp add: algebra_simps)
  then have "curB / (curB + k) \<le> curA / (curA + k)"
    using pA pB by (simp add: divide_le_eq le_divide_eq mult.commute)
  then have "alpha * (1 - curA / min cm (curA + k)) \<le> alpha * (1 - curB / min cm (curB + k))"
    using assms(1) mins by (simp add: mult_left_mono)
  then show ?thesis unfolding current_limit_step_def
    by (intro constrain_float_mono) auto
qed

lemma get_current_limit_max_throttle_active:
  assumes "0 < batt_current_max (params s)" "armed s"
    "current_amps (bm (batt_idx (thr_lin s))) = Some i" "\<not> is_zero (resistance (bm (batt_idx (thr_lin s))))"
  shows "get_current_limit_max_throttle bm s =
    (let lim = current_limit_step (dt_s s / (dt_s s + batt_current_time_constant (params s))) (throttle_limit s)
                 (batt_current_max (params s))
                 ((voltage (bm (batt_idx (thr_lin s))) - batt_voltage_min (thr_lin s)) / resistance (bm (batt_idx (thr_lin s)))) i
     in (get_throttle_hover s + (1 - get_throttle_hover s) * lim, s\<lparr>throttle_limit := lim\<rparr>))"
  using assms by (simp add: get_current_limit_max_throttle_def current_limit_step_def Let_def add_divide_distrib)

text \<open>
  C9. The current limiter's ceiling does not increase with the measured battery
  current (specification property 8), for two readings that differ only in the
  current, when the battery voltage is at or above \<open>MOT_BAT_VOLT_MIN\<close>, the
  resistance estimate is positive and the current headroom is positive.
\<close>
theorem current_limit_monotone_in_current:
  assumes "0 < batt_current_max (params s)" "armed s" "0 \<le> dt_s s" "0 \<le> batt_current_time_constant (params s)"
    "bm1 (batt_idx (thr_lin s)) = \<lparr>voltage = v, current_amps = Some curA, resistance = r\<rparr>"
    "bm2 (batt_idx (thr_lin s)) = \<lparr>voltage = v, current_amps = Some curB, resistance = r\<rparr>"
    "FLT_EPSILON \<le> r" "batt_voltage_min (thr_lin s) \<le> v" "0 \<le> curA" "curA \<le> curB"
    "0 < curA + (v - batt_voltage_min (thr_lin s)) / r"
  shows "fst (get_current_limit_max_throttle bm2 s) \<le> fst (get_current_limit_max_throttle bm1 s)"
proof -
  let ?a = "dt_s s / (dt_s s + batt_current_time_constant (params s))"
  let ?k = "(v - batt_voltage_min (thr_lin s)) / r"
  have nz: "\<not> is_zero r" using assms(7) by (simp add: is_zero_def)
  have a: "0 \<le> ?a" using assms(3,4) by simp
  have r: "0 < r" using assms(7) FLT_EPSILON_pos by linarith
  have k: "0 \<le> ?k" using r assms(8) by (simp add: divide_nonneg_pos)
  have step: "current_limit_step ?a (throttle_limit s) (batt_current_max (params s)) ?k curB
      \<le> current_limit_step ?a (throttle_limit s) (batt_current_max (params s)) ?k curA"
    using current_limit_step_antimono [OF a assms(1) k assms(9,10,11)] .
  have h: "0 \<le> 1 - get_throttle_hover s" using get_throttle_hover_unit [of s] by simp
  show ?thesis
    using get_current_limit_max_throttle_active [of s bm1 curA] get_current_limit_max_throttle_active [of s bm2 curB]
      assms(1,2,5,6) nz mult_left_mono [OF step h]
    by (simp add: Let_def)
qed

theorem current_limit_monotone_in_current_witness:
  "fst (get_current_limit_max_throttle (sag_battery 40) sag_witness_state)
     \<le> fst (get_current_limit_max_throttle (sag_battery 30) sag_witness_state)"
proof -
  have e: "batt_idx (thr_lin sag_witness_state) = 0" "dt_s sag_witness_state = 0.1"
    "batt_current_max (params sag_witness_state) = 60" "armed sag_witness_state"
    "batt_current_time_constant (params sag_witness_state) = 0.9"
    "batt_voltage_min (thr_lin sag_witness_state) = 13.2"
    by (simp_all add: sag_witness_state_def motors_init_def default_thr_lin_def)
  show ?thesis
    by (rule current_limit_monotone_in_current [where v = 16 and r = "0.01" and curA = 30 and curB = 40])
      (simp_all add: e sag_battery_def FLT_EPSILON_def)
qed

text \<open>
  C10. Below \<open>MOT_BAT_VOLT_MIN\<close> the ceiling is monotone the wrong way: for two
  readings that differ only in the current, with the voltage at or below the
  minimum and the voltage-sag term \<open>i + (v - v_min)/R\<close> positive and binding
  (below \<open>MOT_BAT_CURR_MAX\<close>), the higher current never gives the lower
  ceiling, because that term shrinks the headroom less than the current grows.
  In the witness, at 13.0 V against a 13.2 V minimum, drawing 40 A yields a
  strictly higher ceiling than drawing 30 A.
\<close>
theorem current_limit_relaxes_under_voltage_sag:
  assumes "0 < batt_current_max (params s)" "armed s" "0 \<le> dt_s s" "0 \<le> batt_current_time_constant (params s)"
    "bm1 (batt_idx (thr_lin s)) = \<lparr>voltage = v, current_amps = Some curA, resistance = r\<rparr>"
    "bm2 (batt_idx (thr_lin s)) = \<lparr>voltage = v, current_amps = Some curB, resistance = r\<rparr>"
    "FLT_EPSILON \<le> r" "v \<le> batt_voltage_min (thr_lin s)" "curA \<le> curB"
    "0 < curA + (v - batt_voltage_min (thr_lin s)) / r"
    "curB + (v - batt_voltage_min (thr_lin s)) / r \<le> batt_current_max (params s)"
  shows "fst (get_current_limit_max_throttle bm1 s) \<le> fst (get_current_limit_max_throttle bm2 s)"
proof -
  let ?a = "dt_s s / (dt_s s + batt_current_time_constant (params s))"
  let ?k = "(v - batt_voltage_min (thr_lin s)) / r"
  have nz: "\<not> is_zero r" using assms(7) by (simp add: is_zero_def)
  have a: "0 \<le> ?a" using assms(3,4) by simp
  have r: "0 < r" using assms(7) FLT_EPSILON_pos by linarith
  have k: "?k \<le> 0" using r assms(8) by (simp add: divide_nonpos_pos)
  have step: "current_limit_step ?a (throttle_limit s) (batt_current_max (params s)) ?k curA
      \<le> current_limit_step ?a (throttle_limit s) (batt_current_max (params s)) ?k curB"
    using current_limit_step_mono_sag [OF a k assms(10,9,11)] .
  have h: "0 \<le> 1 - get_throttle_hover s" using get_throttle_hover_unit [of s] by simp
  show ?thesis
    using get_current_limit_max_throttle_active [of s bm1 curA] get_current_limit_max_throttle_active [of s bm2 curB]
      assms(1,2,5,6) nz mult_left_mono [OF step h]
    by (simp add: Let_def)
qed

theorem current_limit_relaxes_under_voltage_sag_witness:
  "fst (get_current_limit_max_throttle (\<lambda>_. \<lparr>voltage = 13, current_amps = Some 30, resistance = 0.01\<rparr>) sag_witness_state)
   \<le> fst (get_current_limit_max_throttle (\<lambda>_. \<lparr>voltage = 13, current_amps = Some 40, resistance = 0.01\<rparr>) sag_witness_state) \<and>
   fst (get_current_limit_max_throttle (\<lambda>_. \<lparr>voltage = 13, current_amps = Some 30, resistance = 0.01\<rparr>) sag_witness_state)
   < fst (get_current_limit_max_throttle (\<lambda>_. \<lparr>voltage = 13, current_amps = Some 40, resistance = 0.01\<rparr>) sag_witness_state)"
proof
  have e: "batt_idx (thr_lin sag_witness_state) = 0" "dt_s sag_witness_state = 0.1"
    "batt_current_max (params sag_witness_state) = 60" "armed sag_witness_state"
    "batt_current_time_constant (params sag_witness_state) = 0.9"
    "batt_voltage_min (thr_lin sag_witness_state) = 13.2"
    by (simp_all add: sag_witness_state_def motors_init_def default_thr_lin_def)
  show "fst (get_current_limit_max_throttle (\<lambda>_. \<lparr>voltage = 13, current_amps = Some 30, resistance = 0.01\<rparr>) sag_witness_state)
     \<le> fst (get_current_limit_max_throttle (\<lambda>_. \<lparr>voltage = 13, current_amps = Some 40, resistance = 0.01\<rparr>) sag_witness_state)"
    by (rule current_limit_relaxes_under_voltage_sag [where v = 13 and r = "0.01" and curA = 30 and curB = 40])
      (simp_all add: e FLT_EPSILON_def)
next
  show "fst (get_current_limit_max_throttle (\<lambda>_. \<lparr>voltage = 13, current_amps = Some 30, resistance = 0.01\<rparr>) sag_witness_state)
     < fst (get_current_limit_max_throttle (\<lambda>_. \<lparr>voltage = 13, current_amps = Some 40, resistance = 0.01\<rparr>) sag_witness_state)"
    by (simp add: get_current_limit_max_throttle_def sag_witness_state_def motors_init_def default_thr_lin_def
        default_params_def is_zero_def FLT_EPSILON_def get_throttle_hover_def constrain_float_def
        AP_MOTORS_THST_HOVER_MIN_def AP_MOTORS_THST_HOVER_MAX_def)
qed

subsection \<open>Sustained over-current\<close>

lemma overcurrent_step:
  assumes "overcurrent bm i s"
  shows "get_current_limit_max_throttle bm s =
           (get_throttle_hover s + (1 - get_throttle_hover s) * constrain_float (throttle_limit s - overcurrent_decay i s) 0.2 1,
            s\<lparr>throttle_limit := constrain_float (throttle_limit s - overcurrent_decay i s) 0.2 1\<rparr>)"
proof -
  have m: "min (batt_current_max (params s)) (i + (voltage (bm (batt_idx (thr_lin s))) - batt_voltage_min (thr_lin s))
                                       / resistance (bm (batt_idx (thr_lin s)))) = batt_current_max (params s)"
    using assms by (simp add: overcurrent_def)
  have e: "t + a * (1 - r) = t - a * (r - 1)" for t a r :: real
    by (simp add: algebra_simps)
  have "throttle_limit s + dt_s s / (dt_s s + batt_current_time_constant (params s)) * (1 - i / batt_current_max (params s))
        = throttle_limit s - overcurrent_decay i s"
    unfolding overcurrent_decay_def by (rule e)
  then show ?thesis
    using assms m by (simp add: get_current_limit_max_throttle_def overcurrent_def Let_def)
qed

lemma overcurrent_decay_pos:
  "overcurrent bm i s \<Longrightarrow> 0 < dt_s s \<Longrightarrow> 0 \<le> batt_current_time_constant (params s) \<Longrightarrow>
   0 < overcurrent_decay i s"
  by (simp add: overcurrent_def overcurrent_decay_def)

lemma overcurrent_keep:
  "overcurrent bm i (s\<lparr>throttle_limit := l\<rparr>) = overcurrent bm i s"
  "overcurrent_decay i (s\<lparr>throttle_limit := l\<rparr>) = overcurrent_decay i s"
  "get_throttle_hover (s\<lparr>throttle_limit := l\<rparr>) = get_throttle_hover s"
  "dt_s (s\<lparr>throttle_limit := l\<rparr>) = dt_s s"
  by (simp_all add: overcurrent_def overcurrent_decay_def get_throttle_hover_def)

lemma overcurrent_iterate:
  assumes "overcurrent bm i s" "0 < overcurrent_decay i s" "0.2 \<le> throttle_limit s" "throttle_limit s \<le> 1"
  shows "overcurrent bm i (((\<lambda>s. snd (get_current_limit_max_throttle bm s)) ^^ n) s) \<and>
         overcurrent_decay i (((\<lambda>s. snd (get_current_limit_max_throttle bm s)) ^^ n) s) = overcurrent_decay i s \<and>
         get_throttle_hover (((\<lambda>s. snd (get_current_limit_max_throttle bm s)) ^^ n) s) = get_throttle_hover s \<and>
         throttle_limit (((\<lambda>s. snd (get_current_limit_max_throttle bm s)) ^^ n) s)
           = max 0.2 (throttle_limit s - real n * overcurrent_decay i s)"
  using assms
proof (induction n)
  case 0
  then show ?case by (simp add: overcurrent_def)
next
  case (Suc n)
  let ?t = "((\<lambda>s. snd (get_current_limit_max_throttle bm s)) ^^ n) s"
  have o: "overcurrent bm i ?t" and d: "overcurrent_decay i ?t = overcurrent_decay i s"
    and h: "get_throttle_hover ?t = get_throttle_hover s"
    and l: "throttle_limit ?t = max 0.2 (throttle_limit s - real n * overcurrent_decay i s)"
    using Suc by simp_all
  have step: "((\<lambda>s. snd (get_current_limit_max_throttle bm s)) ^^ Suc n) s =
      ?t\<lparr>throttle_limit := constrain_float (throttle_limit ?t - overcurrent_decay i ?t) 0.2 1\<rparr>"
    using overcurrent_step [OF o] by simp
  have "constrain_float (max 0.2 (throttle_limit s - real n * overcurrent_decay i s) - overcurrent_decay i s) 0.2 1
        = max 0.2 (throttle_limit s - real (Suc n) * overcurrent_decay i s)"
  proof -
    have nn: "0 \<le> real n * overcurrent_decay i s" using Suc.prems(2) by simp
    then show ?thesis
      using Suc.prems(2,4) by (auto simp: constrain_float_def max_def algebra_simps) (insert nn, linarith)
  qed
  then show ?case
    unfolding step using o d h l by (simp add: overcurrent_keep)
qed

text \<open>
  C28. Sustained over-current (scenario S4 of the specification): while the
  measured current exceeds \<open>MOT_BAT_CURR_MAX\<close> and the voltage headroom does
  not bind, each call of \<open>get_current_limit_max_throttle\<close> lowers
  \<open>_throttle_limit\<close> by the fixed decay \<open>dt/(dt+\<tau>) (i/i_max - 1)\<close> down to
  the floor 0.2, and from \<open>\<lceil>(limit - 0.2) / decay\<rceil>\<close> calls on the
  ceiling returned is \<open>hover + 0.2 (1 - hover)\<close>.
\<close>

theorem current_limit_sustained_overcurrent:
  assumes "overcurrent bm i s" "0 < dt_s s" "0 \<le> batt_current_time_constant (params s)"
    "0.2 \<le> throttle_limit s" "throttle_limit s \<le> 1"
  shows "(\<forall>n. throttle_limit (((\<lambda>s. snd (get_current_limit_max_throttle bm s)) ^^ n) s) =
              max 0.2 (throttle_limit s - real n * overcurrent_decay i s)) \<and>
         (\<forall>n \<ge> nat \<lceil>(throttle_limit s - 0.2) / overcurrent_decay i s\<rceil>.
            fst (get_current_limit_max_throttle bm (((\<lambda>s. snd (get_current_limit_max_throttle bm s)) ^^ n) s)) =
              get_throttle_hover s + (1 - get_throttle_hover s) * 0.2)"
proof -
  have d: "0 < overcurrent_decay i s" using overcurrent_decay_pos [OF assms(1-3)] .
  note it = overcurrent_iterate [OF assms(1) d assms(4,5)]
  have ceil: "get_current_limit_max_throttle bm (((\<lambda>s. snd (get_current_limit_max_throttle bm s)) ^^ n) s) =
              (get_throttle_hover s + (1 - get_throttle_hover s) * 0.2,
               (((\<lambda>s. snd (get_current_limit_max_throttle bm s)) ^^ n) s)\<lparr>throttle_limit := 0.2\<rparr>)"
    if n: "nat \<lceil>(throttle_limit s - 0.2) / overcurrent_decay i s\<rceil> \<le> n" for n
  proof -
    have "(throttle_limit s - 0.2) / overcurrent_decay i s \<le> real n"
      using n by linarith
    then have "throttle_limit s - 0.2 \<le> real n * overcurrent_decay i s"
      using d by (simp add: divide_le_eq)
    then have "throttle_limit (((\<lambda>s. snd (get_current_limit_max_throttle bm s)) ^^ n) s) = 0.2"
      using it [of n] by simp
    then show ?thesis
      using it [of n] d overcurrent_step [of bm i "((\<lambda>s. snd (get_current_limit_max_throttle bm s)) ^^ n) s"]
      by (simp add: constrain_float_def)
  qed
  show ?thesis using it ceil by simp
qed

theorem current_limit_sustained_overcurrent_witness:
  "fst (get_current_limit_max_throttle (sag_battery 70)
     (((\<lambda>s. snd (get_current_limit_max_throttle (sag_battery 70) s)) ^^ 10000)
        ((motors_init 400)\<lparr>armed := True, params := default_params\<lparr>batt_current_max := 60\<rparr>\<rparr>))) = 0.48"
proof -
  define s0 where "s0 = (motors_init 400)\<lparr>armed := True, params := default_params\<lparr>batt_current_max := 60\<rparr>\<rparr>"
  have o: "overcurrent (sag_battery 70) 70 s0"
    by (simp add: s0_def overcurrent_def sag_battery_def motors_init_def default_thr_lin_def is_zero_def FLT_EPSILON_def)
  have h: "0 < dt_s s0" "0 \<le> batt_current_time_constant (params s0)" "0.2 \<le> throttle_limit s0" "throttle_limit s0 \<le> 1"
    by (simp_all add: s0_def motors_init_def default_params_def)
  have "(throttle_limit s0 - 0.2) / overcurrent_decay 70 s0 \<le> 10000"
    by (simp add: s0_def overcurrent_decay_def motors_init_def default_params_def)
  then have n: "nat \<lceil>(throttle_limit s0 - 0.2) / overcurrent_decay 70 s0\<rceil> \<le> 10000"
    by (simp add: nat_le_iff ceiling_le_iff)
  have hov: "get_throttle_hover s0 = 0.35"
    by (simp add: s0_def get_throttle_hover_def constrain_float_def motors_init_def default_params_def
        AP_MOTORS_THST_HOVER_MIN_def AP_MOTORS_THST_HOVER_MAX_def)
  have "fst (get_current_limit_max_throttle (sag_battery 70)
          (((\<lambda>s. snd (get_current_limit_max_throttle (sag_battery 70) s)) ^^ 10000) s0)) =
        get_throttle_hover s0 + (1 - get_throttle_hover s0) * 0.2"
    using conjunct2 [OF current_limit_sustained_overcurrent [OF o h]] n by blast
  then show ?thesis unfolding s0_def [symmetric] using hov by simp
qed

end
