(* ===== verification/Throttle_Filter.thy ===== *)
theory Throttle_Filter
  imports Motors_State
begin

text \<open>
  The pilot-throttle path of \<open>AP_MotorsMulticopter\<close>:
  \<open>update_throttle_filter\<close> (the low-pass filter on \<open>_throttle_in\<close>, forced to 0
  when disarmed and reset to the bound when it leaves \<open>[0,1]\<close>, plus the slew-rate
  telemetry), \<open>update_throttle_hover\<close> (the hover-throttle learner) and
  \<open>save_params_on_disarm\<close>. The derivative filter behind \<open>_throttle_slew\<close>
  belongs to the Filter library: the model keeps its sample buffer (the seven most
  recent \<open>(throttle, micros)\<close> samples, newest first) and takes its
  \<open>slope()\<close> as a parameter \<open>slope\<close>, of which \<open>derivative_slope\<close>
  is the estimator the specification describes; the clock
  \<open>AP_HAL::micros()\<close> is the parameter \<open>now_us\<close>.
\<close>

definition update_throttle_filter ::
  "((float \<times> nat) list \<Rightarrow> float) \<Rightarrow> nat \<Rightarrow> motors_state \<Rightarrow> motors_state" where
  "update_throttle_filter slope now_us s =
     (let last_thr = throttle_filter s;
          new_thr =
            (if armed s then
               (let y0 = lowpass_apply (throttle_filter_tc s) last_thr (throttle_in s) (dt_s s);
                    y1 = (if y0 < 0 then 0 else y0)
                in if y1 > 1 then 1 else y1)
             else 0);
          samples = (if \<not> is_equal last_thr new_thr
                     then take 7 ((new_thr, now_us) # throttle_slew s) else throttle_slew s);
          rate = \<bar>slope samples * 1000000\<bar>;
          rate_filt = lowpass_apply (throttle_slew_filter_tc s) (throttle_slew_filter s) rate (dt_s s)
      in s\<lparr>throttle_filter := new_thr, throttle_slew := samples,
           throttle_slew_filter := rate_filt, throttle_slew_rate := rate_filt\<rparr>)"

text \<open>
  The slope of the throttle samples as the specification (section 4.1) states
  it: the change of the two newest samples over the microseconds between them,
  0 while fewer than two samples are held or they carry the same time.
\<close>

fun derivative_slope :: "(float \<times> nat) list \<Rightarrow> float" where
  "derivative_slope ((y1, t1) # (y0, t0) # _) =
     (if t1 = t0 then 0 else (y1 - y0) / (real t1 - real t0))"
| "derivative_slope _ = 0"

definition update_throttle_hover :: "float \<Rightarrow> motors_state \<Rightarrow> motors_state" where
  "update_throttle_hover dt s =
     (if throttle_hover_learn (params s) \<noteq> HOVER_LEARN_DISABLED then
        s\<lparr>params := (params s)\<lparr>throttle_hover :=
           constrain_float (throttle_hover (params s)
               + (dt / (dt + AP_MOTORS_THST_HOVER_TC)) * (get_throttle s - throttle_hover (params s)))
             AP_MOTORS_THST_HOVER_MIN AP_MOTORS_THST_HOVER_MAX\<rparr>\<rparr>
      else s)"

definition save_params_on_disarm :: "motors_state \<Rightarrow> motors_state" where
  "save_params_on_disarm s =
     (if throttle_hover_learn (params s) = HOVER_LEARN_AND_SAVE
      then emit (Save_param_throttle_hover (throttle_hover (params s))) s else s)"

definition hover_in_range :: "motors_state \<Rightarrow> bool" where
  "hover_in_range s \<longleftrightarrow>
     AP_MOTORS_THST_HOVER_MIN \<le> throttle_hover (params s) \<and> throttle_hover (params s) \<le> AP_MOTORS_THST_HOVER_MAX"

definition filter_witness_state :: motors_state where
  "filter_witness_state = (motors_init 100)\<lparr>armed := True, throttle_in := 0.5, throttle_filter_tc := 0.09\<rparr>"

lemma update_throttle_filter_value:
  "throttle_filter (update_throttle_filter slope now_us s) =
     (if armed s then
        (let y0 = lowpass_apply (throttle_filter_tc s) (throttle_filter s) (throttle_in s) (dt_s s);
             y1 = (if y0 < 0 then 0 else y0)
         in if y1 > 1 then 1 else y1)
      else 0)"
  by (simp add: update_throttle_filter_def Let_def)

lemma update_throttle_filter_frame:
  "spool_state (update_throttle_filter slope now_us s) = spool_state s \<and>
   armed (update_throttle_filter slope now_us s) = armed s \<and>
   params (update_throttle_filter slope now_us s) = params s \<and>
   thr_lin (update_throttle_filter slope now_us s) = thr_lin s \<and>
   actuator (update_throttle_filter slope now_us s) = actuator s"
  by (simp add: update_throttle_filter_def Let_def)

lemma update_throttle_filter_slew_rate:
  assumes "0 \<le> dt_s s" "0 \<le> throttle_slew_filter_tc s" "0 \<le> throttle_slew_filter s"
  shows "throttle_slew_rate (update_throttle_filter slope now_us s) =
           throttle_slew_filter (update_throttle_filter slope now_us s) \<and>
         0 \<le> throttle_slew_filter (update_throttle_filter slope now_us s) \<and>
         dt_s (update_throttle_filter slope now_us s) = dt_s s \<and>
         throttle_slew_filter_tc (update_throttle_filter slope now_us s) = throttle_slew_filter_tc s"
  using lowpass_apply_nonneg [OF assms(1,2,3) abs_ge_zero]
  by (simp add: update_throttle_filter_def Let_def)

text \<open>
  With the specification's estimator, a tick that moves the filtered throttle
  feeds the rate filter the speed of that move in throttle per second, measured
  against the newest earlier sample.
\<close>

lemma update_throttle_filter_derivative_rate:
  assumes "throttle_slew s = (y0, t0) # rest" "t0 \<noteq> now_us"
    and "\<not> is_equal (throttle_filter s) (throttle_filter (update_throttle_filter derivative_slope now_us s))"
  shows "throttle_slew_rate (update_throttle_filter derivative_slope now_us s) =
           lowpass_apply (throttle_slew_filter_tc s) (throttle_slew_filter s)
             (\<bar>throttle_filter (update_throttle_filter derivative_slope now_us s) - y0\<bar>
                / \<bar>real now_us - real t0\<bar> * 1000000) (dt_s s)"
  using assms
  by (simp add: update_throttle_filter_def Let_def abs_mult abs_divide)

lemma update_throttle_hover_frame:
  "spool_state (update_throttle_hover dt s) = spool_state s \<and>
   throttle_filter (update_throttle_hover dt s) = throttle_filter s"
  by (simp add: update_throttle_hover_def)

lemma hover_range_nonempty: "AP_MOTORS_THST_HOVER_MIN \<le> AP_MOTORS_THST_HOVER_MAX"
  by (simp add: AP_MOTORS_THST_HOVER_MIN_def AP_MOTORS_THST_HOVER_MAX_def)

text \<open>
  C11. The filtered throttle stays in \<open>[0,1]\<close>, is 0 after any tick while
  disarmed (specification property 1), and, when armed with input and state in
  \<open>[0,1]\<close>, is the low-pass step itself, between the previous value and the
  input.
\<close>
theorem update_throttle_filter_range:
  "0 \<le> throttle_filter (update_throttle_filter slope now_us s) \<and>
   throttle_filter (update_throttle_filter slope now_us s) \<le> 1 \<and>
   (\<not> armed s \<longrightarrow> throttle_filter (update_throttle_filter slope now_us s) = 0) \<and>
   (armed s \<and> 0 < dt_s s \<and> 0 \<le> throttle_filter_tc s \<and>
    0 \<le> throttle_in s \<and> throttle_in s \<le> 1 \<and> 0 \<le> throttle_filter s \<and> throttle_filter s \<le> 1 \<longrightarrow>
      throttle_filter (update_throttle_filter slope now_us s) =
        lowpass_apply (throttle_filter_tc s) (throttle_filter s) (throttle_in s) (dt_s s) \<and>
      min (throttle_filter s) (throttle_in s) \<le> throttle_filter (update_throttle_filter slope now_us s) \<and>
      throttle_filter (update_throttle_filter slope now_us s) \<le> max (throttle_filter s) (throttle_in s))"
proof -
  have track: "min (throttle_filter s) (throttle_in s)
        \<le> lowpass_apply (throttle_filter_tc s) (throttle_filter s) (throttle_in s) (dt_s s) \<and>
      lowpass_apply (throttle_filter_tc s) (throttle_filter s) (throttle_in s) (dt_s s)
        \<le> max (throttle_filter s) (throttle_in s)"
    if "0 < dt_s s" "0 \<le> throttle_filter_tc s"
    using lowpass_apply_between [OF that] by blast
  show ?thesis
    using track by (auto simp: update_throttle_filter_value Let_def)
qed

theorem update_throttle_filter_range_witness:
  "throttle_filter (update_throttle_filter (\<lambda>_. 0) 0 filter_witness_state) = 0.05 \<and>
   throttle_filter (update_throttle_filter (\<lambda>_. 0) 0 (motors_init 100)) = 0"
proof -
  have h: "armed filter_witness_state \<and> 0 < dt_s filter_witness_state \<and> 0 \<le> throttle_filter_tc filter_witness_state \<and>
    0 \<le> throttle_in filter_witness_state \<and> throttle_in filter_witness_state \<le> 1 \<and>
    0 \<le> throttle_filter filter_witness_state \<and> throttle_filter filter_witness_state \<le> 1"
    by (simp add: filter_witness_state_def motors_init_def)
  have v: "lowpass_apply (throttle_filter_tc filter_witness_state) (throttle_filter filter_witness_state)
      (throttle_in filter_witness_state) (dt_s filter_witness_state) = 0.05"
    by (simp add: filter_witness_state_def motors_init_def lowpass_apply_def)
  have d: "\<not> armed (motors_init 100)" by (simp add: motors_init_def)
  show ?thesis
    using update_throttle_filter_range [of "\<lambda>_. 0" 0 filter_witness_state]
      update_throttle_filter_range [of "\<lambda>_. 0" 0 "motors_init 100"] h v d by simp
qed

lemma update_throttle_hover_value:
  "throttle_hover_learn (params s) \<noteq> HOVER_LEARN_DISABLED \<Longrightarrow>
   throttle_hover (params (update_throttle_hover dt s)) =
     constrain_float (throttle_hover (params s)
        + (dt / (dt + AP_MOTORS_THST_HOVER_TC)) * (get_throttle s - throttle_hover (params s)))
      AP_MOTORS_THST_HOVER_MIN AP_MOTORS_THST_HOVER_MAX"
  by (simp add: update_throttle_hover_def)

text \<open>
  C12. The hover-throttle learner keeps \<open>MOT_THST_HOVER\<close> in
  \<open>[0.125, 0.6875]\<close> (specification property 7): any learning step lands there,
  a value already there stays there, and a disabled learner changes nothing.
\<close>
theorem update_throttle_hover_range:
  "(throttle_hover_learn (params s) \<noteq> HOVER_LEARN_DISABLED \<longrightarrow> hover_in_range (update_throttle_hover dt s)) \<and>
   (hover_in_range s \<longrightarrow> hover_in_range (update_throttle_hover dt s)) \<and>
   (throttle_hover_learn (params s) = HOVER_LEARN_DISABLED \<longrightarrow> update_throttle_hover dt s = s)"
proof -
  have r: "hover_in_range (update_throttle_hover dt s)"
    if "throttle_hover_learn (params s) \<noteq> HOVER_LEARN_DISABLED"
    using that unfolding hover_in_range_def
    by (simp add: update_throttle_hover_value constrain_float_ge_low constrain_float_le_high hover_range_nonempty)
  have d: "update_throttle_hover dt s = s" if "throttle_hover_learn (params s) = HOVER_LEARN_DISABLED"
    using that by (simp add: update_throttle_hover_def)
  show ?thesis using r d by (cases "throttle_hover_learn (params s) = HOVER_LEARN_DISABLED") auto
qed

theorem update_throttle_hover_range_witness:
  "hover_in_range (update_throttle_hover 0.01 ((motors_init 100)\<lparr>throttle_filter := 1\<rparr>)) \<and>
   throttle_hover_learn (params ((motors_init 100)\<lparr>throttle_filter := 1\<rparr>)) \<noteq> HOVER_LEARN_DISABLED"
proof -
  have h: "throttle_hover_learn (params ((motors_init 100)\<lparr>throttle_filter := 1\<rparr>)) \<noteq> HOVER_LEARN_DISABLED"
    by (simp add: motors_init_def default_params_def)
  show ?thesis using update_throttle_hover_range [of "(motors_init 100)\<lparr>throttle_filter := 1\<rparr>" "0.01"] h by blast
qed

lemma clamp_toward_target:
  fixes h t y lo hi :: real
  assumes "lo \<le> h" "h \<le> hi" "min h t \<le> y" "y \<le> max h t"
  shows "\<bar>constrain_float y lo hi - t\<bar> \<le> \<bar>h - t\<bar>"
  using assms by (auto simp: constrain_float_def)

text \<open>
  C13. A learning step never moves the hover estimate away from the current
  throttle: from an estimate in range, its distance to \<open>get_throttle()\<close> does not
  grow.
\<close>
theorem update_throttle_hover_converges:
  assumes "hover_in_range s" "0 \<le> dt"
  shows "\<bar>throttle_hover (params (update_throttle_hover dt s)) - get_throttle s\<bar>
           \<le> \<bar>throttle_hover (params s) - get_throttle s\<bar>"
proof (cases "throttle_hover_learn (params s) = HOVER_LEARN_DISABLED")
  case True
  then show ?thesis by (simp add: update_throttle_hover_def)
next
  case False
  have tc: "0 < AP_MOTORS_THST_HOVER_TC" by (simp add: AP_MOTORS_THST_HOVER_TC_def)
  have step: "min (throttle_hover (params s)) (get_throttle s)
      \<le> throttle_hover (params s) + (dt / (dt + AP_MOTORS_THST_HOVER_TC)) * (get_throttle s - throttle_hover (params s)) \<and>
      throttle_hover (params s) + (dt / (dt + AP_MOTORS_THST_HOVER_TC)) * (get_throttle s - throttle_hover (params s))
      \<le> max (throttle_hover (params s)) (get_throttle s)"
  proof (cases "dt = 0")
    case True then show ?thesis by simp
  next
    case False
    then have "0 < dt" using assms(2) by simp
    then show ?thesis
      using lowpass_apply_between [of dt AP_MOTORS_THST_HOVER_TC "throttle_hover (params s)" "get_throttle s"] tc
      by (simp add: lowpass_apply_def)
  qed
  show ?thesis
    using False clamp_toward_target [OF _ _ conjunct1 [OF step] conjunct2 [OF step]] assms(1)
    by (simp add: update_throttle_hover_value hover_in_range_def)
qed

theorem update_throttle_hover_converges_witness:
  "\<bar>throttle_hover (params (update_throttle_hover 0.01 ((motors_init 100)\<lparr>throttle_filter := 1\<rparr>)))
     - get_throttle ((motors_init 100)\<lparr>throttle_filter := 1\<rparr>)\<bar> \<le> \<bar>0.35 - 1\<bar>"
proof -
  have h: "hover_in_range ((motors_init 100)\<lparr>throttle_filter := 1\<rparr>)"
    by (simp add: hover_in_range_def motors_init_def default_params_def
        AP_MOTORS_THST_HOVER_MIN_def AP_MOTORS_THST_HOVER_MAX_def)
  have v: "throttle_hover (params ((motors_init 100)\<lparr>throttle_filter := 1\<rparr>)) = 0.35"
    "get_throttle ((motors_init 100)\<lparr>throttle_filter := 1\<rparr>) = 1"
    by (simp_all add: motors_init_def default_params_def get_throttle_def constrain_float_def)
  show ?thesis using update_throttle_hover_converges [OF h, of "0.01"] v by simp
qed



end
