(* ===== verification/Spool_Logic.thy ===== *)
theory Spool_Logic
  imports Current_Limiter Throttle_Filter
begin

text \<open>
  The spool state machine, \<open>AP_MotorsMulticopter::output_logic\<close>. One
  definition per part of the source: the disarm safety timer, the forced
  shutdown when disarmed or not interlocked, the floor on \<open>_spool_up_time\<close>,
  and one definition per \<open>case\<close> of the switch on \<open>_spool_state\<close>. The
  cases \<open>SPOOLING_UP\<close>, \<open>THROTTLE_UNLIMITED\<close> and \<open>SPOOLING_DOWN\<close> call
  \<open>get_current_limit_max_throttle\<close>, which steps the current limiter, once
  or twice per tick as the source does; the state is threaded through each call.
\<close>

definition minimum_spool_time :: float where
  "minimum_spool_time = 0.05"

definition spool_down_time_eff :: "motor_params \<Rightarrow> float" where
  "spool_down_time_eff p =
     (if spool_down_time p > minimum_spool_time then spool_down_time p else spool_up_time p)"

definition update_disarm_safe_timer :: "motors_state \<Rightarrow> motors_state" where
  "update_disarm_safe_timer s =
     (if armed s then
        (if disarm_disable_pwm (params s) \<and> disarm_safe_timer s < safe_time (params s)
         then s\<lparr>disarm_safe_timer := disarm_safe_timer s + dt_s s\<rparr>
         else s\<lparr>disarm_safe_timer := safe_time (params s)\<rparr>)
      else s\<lparr>disarm_safe_timer := 0\<rparr>)"

definition force_shutdown :: "motors_state \<Rightarrow> motors_state" where
  "force_shutdown s =
     (if \<not> armed s \<or> \<not> interlock s
      then s\<lparr>spool_desired := DESIRED_SHUT_DOWN, spool_state := SHUT_DOWN\<rparr> else s)"

definition constrain_spool_up_time :: "motors_state \<Rightarrow> motors_state" where
  "constrain_spool_up_time s =
     (if spool_up_time (params s) < minimum_spool_time
      then s\<lparr>params := (params s)\<lparr>spool_up_time := minimum_spool_time\<rparr>\<rparr> else s)"

definition spool_shut_down :: "motors_state \<Rightarrow> motors_state" where
  "spool_shut_down s =
     (let s1 = s\<lparr>limit := all_limits True\<rparr> in
      if spool_desired s \<noteq> DESIRED_SHUT_DOWN \<and> disarm_safe_timer s \<ge> safe_time (params s)
      then s1\<lparr>spool_state := GROUND_IDLE\<rparr>
      else s1\<lparr>spin_up_ratio := 0, throttle_thrust_max := 0, thrust_boost := False,
              thrust_boost_ratio := 0\<rparr>)"

definition ground_idle_target :: "motors_state \<Rightarrow> float" where
  "ground_idle_target s =
     (if spin_min (thr_lin s) > 0 then spin_arm (params s) / spin_min (thr_lin s) else 0)"

definition spool_ground_idle :: "motors_state \<Rightarrow> motors_state" where
  "spool_ground_idle s =
     (let s1 = s\<lparr>limit := all_limits True\<rparr>;
          up_step = dt_s s / spool_up_time (params s);
          down_step = dt_s s / spool_down_time_eff (params s);
          s2 = (case spool_desired s of
                  DESIRED_SHUT_DOWN \<Rightarrow>
                    (let r = spin_up_ratio s - down_step in
                     if r \<le> 0 then s1\<lparr>spin_up_ratio := 0, spool_state := SHUT_DOWN\<rparr>
                     else s1\<lparr>spin_up_ratio := r\<rparr>)
                | DESIRED_THROTTLE_UNLIMITED \<Rightarrow>
                    (let r = spin_up_ratio s + up_step in
                     if r \<ge> 1 then
                       (if \<not> spoolup_block s
                        then s1\<lparr>spin_up_ratio := 1, spool_state := SPOOLING_UP\<rparr>
                        else s1\<lparr>spin_up_ratio := 1\<rparr>)
                     else s1\<lparr>spin_up_ratio := r\<rparr>)
                | DESIRED_GROUND_IDLE \<Rightarrow>
                    s1\<lparr>spin_up_ratio := spin_up_ratio s +
                         constrain_float (ground_idle_target s - spin_up_ratio s) (- down_step) up_step\<rparr>)
      in s2\<lparr>throttle_thrust_max := 0, thrust_boost := False, thrust_boost_ratio := 0\<rparr>)"

definition spool_spooling_up :: "battery_monitor \<Rightarrow> motors_state \<Rightarrow> motors_state" where
  "spool_spooling_up bm s =
     (let step = dt_s s / spool_up_time (params s);
          s1 = s\<lparr>limit := all_limits False\<rparr>
      in if spool_desired s \<noteq> DESIRED_THROTTLE_UNLIMITED then s1\<lparr>spool_state := SPOOLING_DOWN\<rparr>
      else
        (let tmax = throttle_thrust_max s + step;
             s2 = s1\<lparr>spin_up_ratio := 1, throttle_thrust_max := tmax\<rparr>;
             (clim, s3) = get_current_limit_max_throttle bm s2;
             s4 = (if tmax \<ge> min (get_throttle s3) clim then
                     (let (clim2, s5) = get_current_limit_max_throttle bm s3
                      in s5\<lparr>throttle_thrust_max := clim2, spool_state := THROTTLE_UNLIMITED\<rparr>)
                   else if tmax < 0 then s3\<lparr>throttle_thrust_max := 0\<rparr> else s3)
         in s4\<lparr>thrust_boost := False, thrust_boost_ratio := max 0 (thrust_boost_ratio s4 - step)\<rparr>))"

definition spool_throttle_unlimited :: "battery_monitor \<Rightarrow> motors_state \<Rightarrow> motors_state" where
  "spool_throttle_unlimited bm s =
     (let step = dt_s s / spool_up_time (params s);
          s1 = s\<lparr>limit := all_limits False\<rparr>
      in if spool_desired s \<noteq> DESIRED_THROTTLE_UNLIMITED then s1\<lparr>spool_state := SPOOLING_DOWN\<rparr>
      else
        (let (clim, s2) = get_current_limit_max_throttle bm (s1\<lparr>spin_up_ratio := 1\<rparr>)
         in s2\<lparr>throttle_thrust_max := clim,
               thrust_boost_ratio :=
                 (if thrust_boost s \<and> \<not> thrust_balanced s
                  then min 1 (thrust_boost_ratio s + step)
                  else max 0 (thrust_boost_ratio s - step))\<rparr>))"

definition spool_spooling_down :: "battery_monitor \<Rightarrow> motors_state \<Rightarrow> motors_state" where
  "spool_spooling_down bm s =
     (let s1 = s\<lparr>limit := all_limits False\<rparr>
      in if spool_desired s = DESIRED_THROTTLE_UNLIMITED then s1\<lparr>spool_state := SPOOLING_UP\<rparr>
      else
        (let step = dt_s s / spool_down_time_eff (params s);
             t0 = throttle_thrust_max s - step;
             t1 = (if t0 \<le> 0 then 0 else t0);
             s2 = s1\<lparr>spin_up_ratio := 1, throttle_thrust_max := t1\<rparr>;
             (clim, s3) = get_current_limit_max_throttle bm s2;
             s4 = (if t1 \<ge> clim then
                     (let (clim2, s5) = get_current_limit_max_throttle bm s3
                      in s5\<lparr>throttle_thrust_max := clim2\<rparr>)
                   else if is_zero t1 then s3\<lparr>spool_state := GROUND_IDLE\<rparr> else s3)
         in s4\<lparr>thrust_boost_ratio := max 0 (thrust_boost_ratio s4 - step)\<rparr>))"

definition output_logic_prologue :: "motors_state \<Rightarrow> motors_state" where
  "output_logic_prologue s = constrain_spool_up_time (force_shutdown (update_disarm_safe_timer s))"

definition output_logic :: "battery_monitor \<Rightarrow> motors_state \<Rightarrow> motors_state" where
  "output_logic bm s =
     (let s1 = output_logic_prologue s
      in case spool_state s1 of
           SHUT_DOWN \<Rightarrow> spool_shut_down s1
         | GROUND_IDLE \<Rightarrow> spool_ground_idle s1
         | SPOOLING_UP \<Rightarrow> spool_spooling_up bm s1
         | THROTTLE_UNLIMITED \<Rightarrow> spool_throttle_unlimited bm s1
         | SPOOLING_DOWN \<Rightarrow> spool_spooling_down bm s1)"

text \<open>
  The transitions \<open>spool_trans ok d x y\<close> that the specification allows from
  spool state \<open>x\<close> to \<open>y\<close> in one tick, when the vehicle is armed and
  interlocked (\<open>ok\<close>) and the desired spool state is \<open>d\<close>: the abstract
  machine that \<open>output_logic\<close> refines.
\<close>

inductive spool_trans :: "bool \<Rightarrow> desired_spool_state \<Rightarrow> spool_state \<Rightarrow> spool_state \<Rightarrow> bool" where
  forced: "\<not> ok \<Longrightarrow> spool_trans ok d x SHUT_DOWN"
| shut_down_stay: "ok \<Longrightarrow> spool_trans ok d SHUT_DOWN SHUT_DOWN"
| shut_down_idle: "ok \<Longrightarrow> d \<noteq> DESIRED_SHUT_DOWN \<Longrightarrow> spool_trans ok d SHUT_DOWN GROUND_IDLE"
| idle_stay: "ok \<Longrightarrow> spool_trans ok d GROUND_IDLE GROUND_IDLE"
| idle_shut_down: "ok \<Longrightarrow> d = DESIRED_SHUT_DOWN \<Longrightarrow> spool_trans ok d GROUND_IDLE SHUT_DOWN"
| idle_up: "ok \<Longrightarrow> d = DESIRED_THROTTLE_UNLIMITED \<Longrightarrow> spool_trans ok d GROUND_IDLE SPOOLING_UP"
| up_stay: "ok \<Longrightarrow> d = DESIRED_THROTTLE_UNLIMITED \<Longrightarrow> spool_trans ok d SPOOLING_UP SPOOLING_UP"
| up_unlimited: "ok \<Longrightarrow> d = DESIRED_THROTTLE_UNLIMITED \<Longrightarrow> spool_trans ok d SPOOLING_UP THROTTLE_UNLIMITED"
| up_down: "ok \<Longrightarrow> d \<noteq> DESIRED_THROTTLE_UNLIMITED \<Longrightarrow> spool_trans ok d SPOOLING_UP SPOOLING_DOWN"
| unlimited_stay: "ok \<Longrightarrow> d = DESIRED_THROTTLE_UNLIMITED \<Longrightarrow> spool_trans ok d THROTTLE_UNLIMITED THROTTLE_UNLIMITED"
| unlimited_down: "ok \<Longrightarrow> d \<noteq> DESIRED_THROTTLE_UNLIMITED \<Longrightarrow> spool_trans ok d THROTTLE_UNLIMITED SPOOLING_DOWN"
| down_stay: "ok \<Longrightarrow> d \<noteq> DESIRED_THROTTLE_UNLIMITED \<Longrightarrow> spool_trans ok d SPOOLING_DOWN SPOOLING_DOWN"
| down_idle: "ok \<Longrightarrow> d \<noteq> DESIRED_THROTTLE_UNLIMITED \<Longrightarrow> spool_trans ok d SPOOLING_DOWN GROUND_IDLE"
| down_up: "ok \<Longrightarrow> d = DESIRED_THROTTLE_UNLIMITED \<Longrightarrow> spool_trans ok d SPOOLING_DOWN SPOOLING_UP"

definition spin_config_ok :: "motors_state \<Rightarrow> bool" where
  "spin_config_ok s \<longleftrightarrow>
     (0 < spin_min (thr_lin s) \<longrightarrow> 0 \<le> spin_arm (params s) \<and> spin_arm (params s) \<le> spin_min (thr_lin s))"

definition spool_bounds :: "motors_state \<Rightarrow> bool" where
  "spool_bounds s \<longleftrightarrow> 0 \<le> dt_s s \<and> spin_config_ok s \<and>
     0 \<le> spin_up_ratio s \<and> spin_up_ratio s \<le> 1 \<and>
     0 \<le> throttle_thrust_max s \<and> throttle_thrust_max s \<le> 1 \<and>
     0 \<le> thrust_boost_ratio s \<and> thrust_boost_ratio s \<le> 1 \<and>
     0.2 \<le> throttle_limit s \<and> throttle_limit s \<le> 1"

definition spool_rel :: "motors_state \<Rightarrow> bool" where
  "spool_rel s \<longleftrightarrow>
     (spool_state s = SHUT_DOWN \<longrightarrow> spin_up_ratio s = 0 \<and> throttle_thrust_max s = 0) \<and>
     (spool_state s = GROUND_IDLE \<longrightarrow> throttle_thrust_max s < FLT_EPSILON) \<and>
     (spool_state s = SPOOLING_UP \<or> spool_state s = THROTTLE_UNLIMITED \<or> spool_state s = SPOOLING_DOWN
        \<longrightarrow> spin_up_ratio s = 1)"

definition spool_inv :: "motors_state \<Rightarrow> bool" where
  "spool_inv s \<longleftrightarrow> spool_bounds s \<and> spool_rel s"

code_pred spool_trans .

inductive_cases spool_trans_to_unlimited: "spool_trans ok d x THROTTLE_UNLIMITED"
inductive_cases spool_trans_from_shut_down: "spool_trans ok d SHUT_DOWN y"

lemmas spool_inv_defs = spool_inv_def spool_bounds_def spool_rel_def spin_config_ok_def

lemma get_current_limit_max_throttle_result:
  assumes "get_current_limit_max_throttle bm s = (c, s')"
  shows "\<exists>l. s' = s\<lparr>throttle_limit := l\<rparr> \<and> 0.2 \<le> l \<and> l \<le> 1 \<and> 0 < c \<and> c \<le> 1"
proof -
  have "s' = s\<lparr>throttle_limit := throttle_limit s'\<rparr>"
    using get_current_limit_max_throttle_frame [of bm s] assms by simp
  moreover have "0.2 \<le> throttle_limit s' \<and> throttle_limit s' \<le> 1 \<and> 0 < c \<and> c \<le> 1"
    using get_current_limit_max_throttle_bounds [of s bm] get_current_limit_max_throttle_unit [of bm s] assms
    by simp
  ultimately show ?thesis by blast
qed

lemma spool_steps_nonneg:
  assumes "0 \<le> dt_s s" "minimum_spool_time \<le> spool_up_time (params s)"
  shows "0 \<le> dt_s s / spool_up_time (params s) \<and> 0 \<le> dt_s s / spool_down_time_eff (params s)"
  using assms by (simp add: spool_down_time_eff_def minimum_spool_time_def)

lemma spool_shut_down_inv:
  assumes "spool_bounds s" "spool_rel s \<or> spool_desired s = DESIRED_SHUT_DOWN"
    "spool_state s = SHUT_DOWN"
  shows "spool_inv (spool_shut_down s)"
  using assms unfolding spool_shut_down_def Let_def
  by (auto simp: spool_inv_defs)

lemma spool_ground_idle_inv:
  assumes "spool_bounds s" "spool_rel s" "spool_state s = GROUND_IDLE"
    "minimum_spool_time \<le> spool_up_time (params s)"
  shows "spool_inv (spool_ground_idle s)"
proof -
  let ?up = "dt_s s / spool_up_time (params s)"
  let ?dn = "dt_s s / spool_down_time_eff (params s)"
  have st: "0 \<le> ?up" "0 \<le> ?dn"
    using spool_steps_nonneg [of s] assms by (auto simp: spool_bounds_def)
  have tgt: "0 \<le> ground_idle_target s \<and> ground_idle_target s \<le> 1"
    using assms(1) by (auto simp: ground_idle_target_def spool_bounds_def spin_config_ok_def)
  have idle: "0 \<le> spin_up_ratio s + constrain_float (ground_idle_target s - spin_up_ratio s) (- ?dn) ?up \<and>
      spin_up_ratio s + constrain_float (ground_idle_target s - spin_up_ratio s) (- ?dn) ?up \<le> 1"
    using step_toward_in_range [OF st(2) st(1), of 0 "spin_up_ratio s" 1 "ground_idle_target s"] tgt assms(1)
    by (simp add: spool_bounds_def)
  show ?thesis
    using assms st idle unfolding spool_ground_idle_def Let_def
    by (auto simp: spool_inv_defs split: desired_spool_state.splits)
qed

lemma spool_spooling_up_inv:
  assumes "spool_bounds s" "spool_rel s" "spool_state s = SPOOLING_UP"
    "minimum_spool_time \<le> spool_up_time (params s)"
  shows "spool_inv (spool_spooling_up bm s)"
proof -
  have step: "0 \<le> dt_s s / spool_up_time (params s)"
    using spool_steps_nonneg [of s] assms by (auto simp: spool_bounds_def)
  show ?thesis
    using assms step get_throttle_bounds
    unfolding spool_spooling_up_def Let_def
    by (auto simp: spool_inv_defs split: prod.splits dest!: get_current_limit_max_throttle_result)
qed

lemma spool_throttle_unlimited_inv:
  assumes "spool_bounds s" "spool_rel s" "spool_state s = THROTTLE_UNLIMITED"
    "minimum_spool_time \<le> spool_up_time (params s)"
  shows "spool_inv (spool_throttle_unlimited bm s)"
proof -
  have step: "0 \<le> dt_s s / spool_up_time (params s)"
    using spool_steps_nonneg [of s] assms by (auto simp: spool_bounds_def)
  show ?thesis
    using assms step
    unfolding spool_throttle_unlimited_def Let_def
    by (auto simp: spool_inv_defs split: prod.splits dest!: get_current_limit_max_throttle_result)
qed

lemma spool_spooling_down_inv:
  assumes "spool_bounds s" "spool_rel s" "spool_state s = SPOOLING_DOWN"
    "minimum_spool_time \<le> spool_up_time (params s)"
  shows "spool_inv (spool_spooling_down bm s)"
proof -
  have step: "0 \<le> dt_s s / spool_down_time_eff (params s)"
    using spool_steps_nonneg [of s] assms by (auto simp: spool_bounds_def)
  show ?thesis
    using assms step
    unfolding spool_spooling_down_def Let_def
    by (auto simp: spool_inv_defs is_zero_def split: prod.splits dest!: get_current_limit_max_throttle_result)
qed

subsection \<open>The prologue of \<open>output_logic\<close>\<close>

lemma output_logic_prologue_fields:
  "spin_up_ratio (output_logic_prologue s) = spin_up_ratio s \<and>
   throttle_thrust_max (output_logic_prologue s) = throttle_thrust_max s \<and>
   thrust_boost_ratio (output_logic_prologue s) = thrust_boost_ratio s \<and>
   throttle_limit (output_logic_prologue s) = throttle_limit s \<and>
   dt_s (output_logic_prologue s) = dt_s s \<and>
   thr_lin (output_logic_prologue s) = thr_lin s \<and>
   spin_arm (params (output_logic_prologue s)) = spin_arm (params s) \<and>
   armed (output_logic_prologue s) = armed s \<and>
   interlock (output_logic_prologue s) = interlock s \<and>
   spoolup_block (output_logic_prologue s) = spoolup_block s \<and>
   throttle_filter (output_logic_prologue s) = throttle_filter s"
  by (simp add: output_logic_prologue_def constrain_spool_up_time_def force_shutdown_def
      update_disarm_safe_timer_def)

lemma output_logic_prologue_spool:
  "(armed s \<and> interlock s \<longrightarrow>
      spool_state (output_logic_prologue s) = spool_state s \<and>
      spool_desired (output_logic_prologue s) = spool_desired s) \<and>
   (\<not> (armed s \<and> interlock s) \<longrightarrow>
      spool_state (output_logic_prologue s) = SHUT_DOWN \<and>
      spool_desired (output_logic_prologue s) = DESIRED_SHUT_DOWN)"
  by (simp add: output_logic_prologue_def constrain_spool_up_time_def force_shutdown_def
      update_disarm_safe_timer_def)

lemma output_logic_prologue_spool_up_time:
  "minimum_spool_time \<le> spool_up_time (params (output_logic_prologue s))"
  by (simp add: output_logic_prologue_def constrain_spool_up_time_def)

lemma output_logic_prologue_bounds:
  "spool_bounds s \<Longrightarrow> spool_bounds (output_logic_prologue s)"
  using output_logic_prologue_fields [of s]
  by (simp add: spool_bounds_def spin_config_ok_def)

lemma output_logic_prologue_rel:
  assumes "spool_rel s"
  shows "spool_rel (output_logic_prologue s) \<or>
         spool_desired (output_logic_prologue s) = DESIRED_SHUT_DOWN"
  using assms output_logic_prologue_fields [of s] output_logic_prologue_spool [of s]
  by (cases "armed s \<and> interlock s") (simp_all add: spool_rel_def)

subsection \<open>The invariant is kept by every tick\<close>

lemma output_logic_inv:
  assumes "spool_inv s"
  shows "spool_inv (output_logic bm s)"
proof -
  let ?s1 = "output_logic_prologue s"
  have b: "spool_bounds ?s1" and m: "minimum_spool_time \<le> spool_up_time (params ?s1)"
    using assms output_logic_prologue_bounds output_logic_prologue_spool_up_time
    by (auto simp: spool_inv_def)
  have r: "spool_rel ?s1 \<or> spool_desired ?s1 = DESIRED_SHUT_DOWN"
    using assms output_logic_prologue_rel by (simp add: spool_inv_def)
  have r': "spool_state ?s1 \<noteq> SHUT_DOWN \<Longrightarrow> spool_rel ?s1"
    using r output_logic_prologue_spool [of s] output_logic_prologue_fields [of s] assms
    by (cases "armed s \<and> interlock s") (auto simp: spool_inv_def spool_rel_def)
  show ?thesis
  proof (cases "spool_state ?s1")
    case SHUT_DOWN
    then show ?thesis using spool_shut_down_inv [OF b r] by (simp add: output_logic_def)
  next
    case GROUND_IDLE
    then show ?thesis using spool_ground_idle_inv [OF b r' _ m] by (simp add: output_logic_def)
  next
    case SPOOLING_UP
    then show ?thesis using spool_spooling_up_inv [OF b r' _ m] by (simp add: output_logic_def)
  next
    case THROTTLE_UNLIMITED
    then show ?thesis using spool_throttle_unlimited_inv [OF b r' _ m] by (simp add: output_logic_def)
  next
    case SPOOLING_DOWN
    then show ?thesis using spool_spooling_down_inv [OF b r' _ m] by (simp add: output_logic_def)
  qed
qed

subsection \<open>Each case takes only transitions of the abstract machine\<close>

lemma spool_shut_down_trans:
  "spool_state s = SHUT_DOWN \<Longrightarrow>
   spool_trans True (spool_desired s) SHUT_DOWN (spool_state (spool_shut_down s))"
  by (auto simp: spool_shut_down_def Let_def intro: spool_trans.intros)

lemma spool_ground_idle_trans:
  "spool_state s = GROUND_IDLE \<Longrightarrow>
   spool_trans True (spool_desired s) GROUND_IDLE (spool_state (spool_ground_idle s))"
  by (auto simp: spool_ground_idle_def Let_def intro: spool_trans.intros
      split: desired_spool_state.splits)

lemma spool_spooling_up_trans:
  "spool_state s = SPOOLING_UP \<Longrightarrow>
   spool_trans True (spool_desired s) SPOOLING_UP (spool_state (spool_spooling_up bm s))"
  unfolding spool_spooling_up_def Let_def
  by (auto intro: spool_trans.intros split: prod.splits dest!: get_current_limit_max_throttle_result)

lemma spool_throttle_unlimited_trans:
  "spool_state s = THROTTLE_UNLIMITED \<Longrightarrow>
   spool_trans True (spool_desired s) THROTTLE_UNLIMITED (spool_state (spool_throttle_unlimited bm s))"
  unfolding spool_throttle_unlimited_def Let_def
  by (auto intro: spool_trans.intros split: prod.splits dest!: get_current_limit_max_throttle_result)

lemma spool_spooling_down_trans:
  "spool_state s = SPOOLING_DOWN \<Longrightarrow>
   spool_trans True (spool_desired s) SPOOLING_DOWN (spool_state (spool_spooling_down bm s))"
  unfolding spool_spooling_down_def Let_def
  by (auto intro: spool_trans.intros split: prod.splits dest!: get_current_limit_max_throttle_result)

lemma spool_shut_down_forced:
  "spool_desired s = DESIRED_SHUT_DOWN \<Longrightarrow>
   spool_shut_down s = s\<lparr>limit := all_limits True, spin_up_ratio := 0, throttle_thrust_max := 0,
     thrust_boost := False, thrust_boost_ratio := 0\<rparr>"
  by (simp add: spool_shut_down_def)

lemma output_logic_forced:
  assumes "\<not> (armed s \<and> interlock s)"
  shows "output_logic bm s = spool_shut_down (output_logic_prologue s)"
  using assms output_logic_prologue_spool [of s] by (simp add: output_logic_def)

text \<open>
  C1. Every tick of \<open>output_logic\<close> moves the spool state along a transition
  of the specification's spool state machine: forced to \<open>SHUT_DOWN\<close> when
  disarmed or not interlocked, and otherwise only the transitions that the
  desired spool state permits (no state is skipped, e.g. \<open>SHUT_DOWN\<close> never
  reaches \<open>THROTTLE_UNLIMITED\<close> in one tick).
\<close>

theorem output_logic_refines_spool_machine:
  "spool_trans (armed s \<and> interlock s) (spool_desired s) (spool_state s) (spool_state (output_logic bm s))"
proof (cases "armed s \<and> interlock s")
  case True
  let ?s1 = "output_logic_prologue s"
  have eq: "spool_state ?s1 = spool_state s" "spool_desired ?s1 = spool_desired s"
    using True output_logic_prologue_spool [of s] by simp_all
  show ?thesis
  proof (cases "spool_state s")
    case SHUT_DOWN
    then show ?thesis using True eq spool_shut_down_trans [of ?s1] by (simp add: output_logic_def)
  next
    case GROUND_IDLE
    then show ?thesis using True eq spool_ground_idle_trans [of ?s1] by (simp add: output_logic_def)
  next
    case SPOOLING_UP
    then show ?thesis using True eq spool_spooling_up_trans [of ?s1 bm] by (simp add: output_logic_def)
  next
    case THROTTLE_UNLIMITED
    then show ?thesis using True eq spool_throttle_unlimited_trans [of ?s1 bm] by (simp add: output_logic_def)
  next
    case SPOOLING_DOWN
    then show ?thesis using True eq spool_spooling_down_trans [of ?s1 bm] by (simp add: output_logic_def)
  qed
next
  case False
  then have "spool_state (output_logic bm s) = SHUT_DOWN"
    using output_logic_prologue_spool [of s] by (simp add: output_logic_forced spool_shut_down_forced)
  with False show ?thesis by (simp add: spool_trans.forced)
qed

theorem output_logic_refines_spool_machine_witness:
  "spool_trans False DESIRED_SHUT_DOWN SHUT_DOWN (spool_state (output_logic witness_battery (motors_init 400)))"
  using output_logic_refines_spool_machine [of "motors_init 400" witness_battery]
  by (simp add: motors_init_def)

lemma spool_trans_ok_to_shut_down:
  "spool_trans True d x SHUT_DOWN \<Longrightarrow> x = SHUT_DOWN \<or> x = GROUND_IDLE"
  by (auto elim: spool_trans.cases)

lemma spool_ground_idle_to_shut_down:
  "spool_state s = GROUND_IDLE \<Longrightarrow> spool_state (spool_ground_idle s) = SHUT_DOWN \<Longrightarrow>
   spin_up_ratio (spool_ground_idle s) = 0 \<and> throttle_thrust_max (spool_ground_idle s) = 0"
  by (auto simp: spool_ground_idle_def Let_def split: desired_spool_state.splits if_splits)

lemma spool_shut_down_to_shut_down:
  "spool_state s = SHUT_DOWN \<Longrightarrow> spool_state (spool_shut_down s) = SHUT_DOWN \<Longrightarrow>
   spin_up_ratio (spool_shut_down s) = 0 \<and> throttle_thrust_max (spool_shut_down s) = 0"
  by (auto simp: spool_shut_down_def Let_def split: if_splits)

text \<open>
  C2. Whatever state a tick starts from, if \<open>output_logic\<close> leaves the motors
  in \<open>SHUT_DOWN\<close> then the spin-up ratio and the thrust ceiling are both zero.
\<close>

theorem output_logic_shut_down_rest:
  assumes "spool_state (output_logic bm s) = SHUT_DOWN"
  shows "spin_up_ratio (output_logic bm s) = 0 \<and> throttle_thrust_max (output_logic bm s) = 0"
proof -
  let ?s1 = "output_logic_prologue s"
  show ?thesis
  proof (cases "spool_state ?s1")
    case SHUT_DOWN
    then show ?thesis using assms spool_shut_down_to_shut_down [of ?s1] by (simp add: output_logic_def)
  next
    case GROUND_IDLE
    then show ?thesis using assms spool_ground_idle_to_shut_down [of ?s1] by (simp add: output_logic_def)
  next
    case SPOOLING_UP
    then show ?thesis
      using assms spool_spooling_up_trans [of ?s1 bm] spool_trans_ok_to_shut_down
      by (fastforce simp: output_logic_def)
  next
    case THROTTLE_UNLIMITED
    then show ?thesis
      using assms spool_throttle_unlimited_trans [of ?s1 bm] spool_trans_ok_to_shut_down
      by (fastforce simp: output_logic_def)
  next
    case SPOOLING_DOWN
    then show ?thesis
      using assms spool_spooling_down_trans [of ?s1 bm] spool_trans_ok_to_shut_down
      by (fastforce simp: output_logic_def)
  qed
qed

theorem output_logic_shut_down_rest_witness:
  "spool_state (output_logic witness_battery (motors_init 400)) = SHUT_DOWN \<and>
   spin_up_ratio (output_logic witness_battery (motors_init 400)) = 0 \<and>
   throttle_thrust_max (output_logic witness_battery (motors_init 400)) = 0"
proof -
  have h: "spool_state (output_logic witness_battery (motors_init 400)) = SHUT_DOWN"
    by (simp add: output_logic_def output_logic_prologue_def constrain_spool_up_time_def
        force_shutdown_def update_disarm_safe_timer_def motors_init_def spool_shut_down_def
        default_params_def minimum_spool_time_def)
  show ?thesis using output_logic_shut_down_rest [OF h] h by simp
qed

text \<open>
  C3. A tick on a disarmed or non-interlocked vehicle shuts the motors down at
  once (scenario S2 of the specification): spool state and desired state
  \<open>SHUT_DOWN\<close>, every limit flag set, spin-up ratio, thrust ceiling and boost
  ramp zero.
\<close>

theorem output_logic_disarmed:
  assumes "\<not> armed s \<or> \<not> interlock s"
  shows "spool_state (output_logic bm s) = SHUT_DOWN \<and>
         spool_desired (output_logic bm s) = DESIRED_SHUT_DOWN \<and>
         limit (output_logic bm s) = all_limits True \<and>
         spin_up_ratio (output_logic bm s) = 0 \<and> throttle_thrust_max (output_logic bm s) = 0 \<and>
         thrust_boost (output_logic bm s) = False \<and> thrust_boost_ratio (output_logic bm s) = 0"
  using assms output_logic_prologue_spool [of s]
  by (simp add: output_logic_forced spool_shut_down_forced)

theorem output_logic_disarmed_witness:
  "\<not> armed (motors_init 400) \<and>
   spool_state (output_logic witness_battery (motors_init 400)) = SHUT_DOWN \<and>
   limit (output_logic witness_battery (motors_init 400)) = all_limits True"
  using output_logic_disarmed [of "motors_init 400" witness_battery] by (simp add: motors_init_def)

end
