(* ===== verification/Spool_Behaviour.thy ===== *)
theory Spool_Behaviour
  imports Spool_Logic
begin

text \<open>
  Behaviour of the spool state machine over many ticks of \<open>output_logic\<close>
  (\<open>AP_MotorsMulticopter::output_logic\<close>): liveness of spool-up, proved by
  one progress lemma per spool state and a count of the ticks each ramp needs,
  for any run of ticks that make progress (so that \<open>Output_Pipeline\<close> reuses it
  for the whole \<open>output()\<close>); two concrete runs that leave the ranges the
  specification states; and how the spool logic calls the current limiter.
  \<open>spool_up_ready\<close> collects the conditions under which the vehicle is asked
  to spool up and nothing holds it back; \<open>spool_up_step\<close> is the ramp
  increment \<open>dt / spool_up_time\<close> of one tick.
\<close>

definition spool_up_ready :: "motors_state \<Rightarrow> bool" where
  "spool_up_ready s \<longleftrightarrow> armed s \<and> interlock s \<and> spool_desired s = DESIRED_THROTTLE_UNLIMITED \<and>
     \<not> spoolup_block s \<and> \<not> disarm_disable_pwm (params s) \<and> 0 < dt_s s \<and>
     minimum_spool_time \<le> spool_up_time (params s)"

definition spool_up_step :: "motors_state \<Rightarrow> float" where
  "spool_up_step s = dt_s s / spool_up_time (params s)"

text \<open>
  \<open>spool_up_progress s s'\<close> is what one tick from \<open>s\<close> to \<open>s'\<close> must achieve
  for spool-up to make progress: it keeps the conditions and the invariant, and
  moves each spool state one step towards \<open>THROTTLE_UNLIMITED\<close>, raising the
  ramp of \<open>GROUND_IDLE\<close> or \<open>SPOOLING_UP\<close> by \<open>spool_up_step\<close>.
  \<open>tick_run F n s\<close> runs \<open>n\<close> ticks, the \<open>k\<close>-th with the tick function
  \<open>F k\<close> (so that each tick may read different inputs), and
  \<open>progress_ticks F\<close> says every tick of \<open>F\<close> makes progress.
\<close>

definition spool_up_progress :: "motors_state \<Rightarrow> motors_state \<Rightarrow> bool" where
  "spool_up_progress s s' \<longleftrightarrow> spool_up_ready s' \<and> spool_inv s' \<and> spool_up_step s' = spool_up_step s \<and>
     (spool_state s = SHUT_DOWN \<longrightarrow> spool_state s' = GROUND_IDLE) \<and>
     (spool_state s = SPOOLING_DOWN \<longrightarrow> spool_state s' = SPOOLING_UP) \<and>
     (spool_state s = THROTTLE_UNLIMITED \<longrightarrow> spool_state s' = THROTTLE_UNLIMITED) \<and>
     (spool_state s = GROUND_IDLE \<longrightarrow> spool_state s' = SPOOLING_UP \<or>
        (spool_state s' = GROUND_IDLE \<and> spin_up_ratio s' = spin_up_ratio s + spool_up_step s \<and>
         spin_up_ratio s + spool_up_step s < 1)) \<and>
     (spool_state s = SPOOLING_UP \<longrightarrow> spool_state s' = THROTTLE_UNLIMITED \<or>
        (spool_state s' = SPOOLING_UP \<and> throttle_thrust_max s' = throttle_thrust_max s + spool_up_step s \<and>
         throttle_thrust_max s + spool_up_step s < 1))"

primrec tick_run :: "(nat \<Rightarrow> motors_state \<Rightarrow> motors_state) \<Rightarrow> nat \<Rightarrow> motors_state \<Rightarrow> motors_state" where
  "tick_run F 0 s = s"
| "tick_run F (Suc n) s = F n (tick_run F n s)"

definition progress_ticks :: "(nat \<Rightarrow> motors_state \<Rightarrow> motors_state) \<Rightarrow> bool" where
  "progress_ticks F \<longleftrightarrow> (\<forall>k s. spool_up_ready s \<and> spool_inv s \<longrightarrow> spool_up_progress s (F k s))"

subsection \<open>Progress of one tick\<close>

lemma spool_up_ready_prologue:
  "spool_up_ready s \<Longrightarrow> output_logic_prologue s = s\<lparr>disarm_safe_timer := safe_time (params s)\<rparr>"
  by (simp add: spool_up_ready_def output_logic_prologue_def constrain_spool_up_time_def force_shutdown_def
      update_disarm_safe_timer_def)

lemma spool_up_step_pos: "spool_up_ready s \<Longrightarrow> 0 < spool_up_step s"
  by (simp add: spool_up_ready_def spool_up_step_def minimum_spool_time_def)

lemma spool_cases_control:
  "params (spool_shut_down s) = params s \<and> spool_desired (spool_shut_down s) = spool_desired s \<and>
   dt_s (spool_shut_down s) = dt_s s \<and> armed (spool_shut_down s) = armed s \<and>
   interlock (spool_shut_down s) = interlock s \<and> spoolup_block (spool_shut_down s) = spoolup_block s"
  "params (spool_ground_idle s) = params s \<and> spool_desired (spool_ground_idle s) = spool_desired s \<and>
   dt_s (spool_ground_idle s) = dt_s s \<and> armed (spool_ground_idle s) = armed s \<and>
   interlock (spool_ground_idle s) = interlock s \<and> spoolup_block (spool_ground_idle s) = spoolup_block s"
  "params (spool_spooling_up bm s) = params s \<and> spool_desired (spool_spooling_up bm s) = spool_desired s \<and>
   dt_s (spool_spooling_up bm s) = dt_s s \<and> armed (spool_spooling_up bm s) = armed s \<and>
   interlock (spool_spooling_up bm s) = interlock s \<and> spoolup_block (spool_spooling_up bm s) = spoolup_block s"
  "params (spool_throttle_unlimited bm s) = params s \<and>
   spool_desired (spool_throttle_unlimited bm s) = spool_desired s \<and>
   dt_s (spool_throttle_unlimited bm s) = dt_s s \<and> armed (spool_throttle_unlimited bm s) = armed s \<and>
   interlock (spool_throttle_unlimited bm s) = interlock s \<and>
   spoolup_block (spool_throttle_unlimited bm s) = spoolup_block s"
  "params (spool_spooling_down bm s) = params s \<and> spool_desired (spool_spooling_down bm s) = spool_desired s \<and>
   dt_s (spool_spooling_down bm s) = dt_s s \<and> armed (spool_spooling_down bm s) = armed s \<and>
   interlock (spool_spooling_down bm s) = interlock s \<and> spoolup_block (spool_spooling_down bm s) = spoolup_block s"
  by (auto simp: spool_shut_down_def spool_ground_idle_def spool_spooling_up_def spool_throttle_unlimited_def
      spool_spooling_down_def Let_def split: prod.splits desired_spool_state.splits
      dest!: get_current_limit_max_throttle_result)

lemma spool_up_ready_tick:
  assumes "spool_up_ready s"
  shows "spool_up_ready (output_logic bm s) \<and> spool_up_step (output_logic bm s) = spool_up_step s"
  using assms spool_cases_control(1,2) [of "s\<lparr>disarm_safe_timer := safe_time (params s)\<rparr>"]
    spool_cases_control(3-5) [of bm "s\<lparr>disarm_safe_timer := safe_time (params s)\<rparr>"]
  by (cases "spool_state s")
    (simp_all add: output_logic_def spool_up_ready_prologue spool_up_ready_def spool_up_step_def)

lemma spool_up_shut_down_tick:
  "spool_up_ready s \<Longrightarrow> spool_state s = SHUT_DOWN \<Longrightarrow> spool_state (output_logic bm s) = GROUND_IDLE"
  by (simp add: output_logic_def spool_up_ready_prologue spool_shut_down_def spool_up_ready_def Let_def)

lemma spool_up_spooling_down_tick:
  "spool_up_ready s \<Longrightarrow> spool_state s = SPOOLING_DOWN \<Longrightarrow> spool_state (output_logic bm s) = SPOOLING_UP"
  by (simp add: output_logic_def spool_up_ready_prologue spool_spooling_down_def spool_up_ready_def Let_def)

lemma spool_up_unlimited_tick:
  "spool_up_ready s \<Longrightarrow> spool_state s = THROTTLE_UNLIMITED \<Longrightarrow>
   spool_state (output_logic bm s) = THROTTLE_UNLIMITED"
  by (auto simp: output_logic_def spool_up_ready_prologue spool_throttle_unlimited_def spool_up_ready_def
      Let_def split: prod.splits dest!: get_current_limit_max_throttle_result)

lemma spool_up_ground_idle_tick:
  assumes "spool_up_ready s" "spool_state s = GROUND_IDLE"
  shows "spool_state (output_logic bm s) = SPOOLING_UP \<or>
         (spool_state (output_logic bm s) = GROUND_IDLE \<and>
          spin_up_ratio (output_logic bm s) = spin_up_ratio s + spool_up_step s \<and>
          spin_up_ratio s + spool_up_step s < 1)"
  using assms
  by (auto simp: output_logic_def spool_up_ready_prologue spool_ground_idle_def spool_up_ready_def
      spool_up_step_def Let_def)

lemma spool_up_spooling_up_tick:
  assumes "spool_up_ready s" "spool_state s = SPOOLING_UP" "0 \<le> throttle_thrust_max s"
  shows "spool_state (output_logic bm s) = THROTTLE_UNLIMITED \<or>
         (spool_state (output_logic bm s) = SPOOLING_UP \<and>
          throttle_thrust_max (output_logic bm s) = throttle_thrust_max s + spool_up_step s \<and>
          throttle_thrust_max s + spool_up_step s < 1)"
proof -
  let ?s1 = "s\<lparr>disarm_safe_timer := safe_time (params s)\<rparr>"
  have pos: "0 < spool_up_step s" using assms(1) by (rule spool_up_step_pos)
  have "get_throttle (s'\<lparr>throttle_limit := l\<rparr>) \<le> 1" for s' :: motors_state and l
    using get_throttle_bounds by blast
  then show ?thesis
    using assms pos
    by (auto simp: output_logic_def spool_up_ready_prologue spool_spooling_up_def spool_up_ready_def
        spool_up_step_def Let_def split: prod.splits dest!: get_current_limit_max_throttle_result)
qed

lemma output_logic_progress:
  assumes "spool_up_ready s" "spool_inv s"
  shows "spool_up_progress s (output_logic bm s)"
proof -
  have t: "0 \<le> throttle_thrust_max s" using assms(2) by (simp add: spool_inv_def spool_bounds_def)
  show ?thesis
    unfolding spool_up_progress_def
    using spool_up_ready_tick [OF assms(1), of bm] output_logic_inv [OF assms(2), of bm]
      spool_up_shut_down_tick [OF assms(1)] spool_up_spooling_down_tick [OF assms(1)]
      spool_up_unlimited_tick [OF assms(1)] spool_up_ground_idle_tick [OF assms(1)]
      spool_up_spooling_up_tick [OF assms(1) _ t]
    by blast
qed

lemma output_logic_progress_ticks: "progress_ticks (\<lambda>_. output_logic bm)"
  by (simp add: progress_ticks_def output_logic_progress)

subsection \<open>Counting the ticks of a run\<close>

lemma tick_run_Suc_shift: "tick_run F (Suc k) s = tick_run (\<lambda>i. F (Suc i)) k (F 0 s)"
  by (induction k) simp_all

lemma tick_run_add: "tick_run F (k + j) s = tick_run (\<lambda>i. F (i + j)) k (tick_run F j s)"
  by (induction k) simp_all

lemma funpow_tick_run: "(f ^^ n) s = tick_run (\<lambda>_. f) n s"
  by (induction n) simp_all

lemma progress_ticks_shift: "progress_ticks F \<Longrightarrow> progress_ticks (\<lambda>i. F (i + j))"
  by (simp add: progress_ticks_def)

lemma progress_ticks_first:
  "progress_ticks F \<Longrightarrow> spool_up_ready s \<Longrightarrow> spool_inv s \<Longrightarrow> spool_up_progress s (F 0 s)"
  by (simp add: progress_ticks_def)

lemma tick_run_ready:
  "progress_ticks F \<Longrightarrow> spool_up_ready s \<Longrightarrow> spool_inv s \<Longrightarrow>
   spool_up_ready (tick_run F k s) \<and> spool_inv (tick_run F k s) \<and> spool_up_step (tick_run F k s) = spool_up_step s"
  by (induction k) (auto simp: progress_ticks_def spool_up_progress_def)

lemma run_ground_idle_reaches_spooling_up:
  assumes "progress_ticks F" "spool_up_ready s" "spool_inv s" "spool_state s = GROUND_IDLE"
    "1 - spin_up_ratio s \<le> real n * spool_up_step s"
  shows "\<exists>k \<le> Suc n. spool_state (tick_run F k s) = SPOOLING_UP"
  using assms
proof (induction n arbitrary: F s)
  case 0
  then have "spool_state (F 0 s) = SPOOLING_UP"
    using progress_ticks_first [OF 0(1-3)] spool_up_step_pos [OF 0(2)] by (auto simp: spool_up_progress_def)
  then show ?case by (intro exI [of _ 1]) simp
next
  case (Suc n)
  have p: "spool_up_progress s (F 0 s)" using progress_ticks_first [OF Suc.prems(1-3)] .
  show ?case
  proof (cases "spool_state (F 0 s) = SPOOLING_UP")
    case True
    then show ?thesis by (intro exI [of _ 1]) simp
  next
    case False
    then have gi: "spool_state (F 0 s) = GROUND_IDLE"
      and r: "spin_up_ratio (F 0 s) = spin_up_ratio s + spool_up_step s"
      and rd: "spool_up_ready (F 0 s)" "spool_inv (F 0 s)" and st: "spool_up_step (F 0 s) = spool_up_step s"
      using p Suc.prems(4) by (auto simp: spool_up_progress_def)
    have "1 - spin_up_ratio (F 0 s) \<le> real n * spool_up_step (F 0 s)"
      using Suc.prems(5) r st by (simp add: algebra_simps)
    moreover have "progress_ticks (\<lambda>i. F (Suc i))"
      using progress_ticks_shift [OF Suc.prems(1), of 1] by simp
    ultimately obtain k where "k \<le> Suc n" "spool_state (tick_run (\<lambda>i. F (Suc i)) k (F 0 s)) = SPOOLING_UP"
      using Suc.IH rd gi by blast
    then show ?thesis by (intro exI [of _ "Suc k"]) (simp only: tick_run_Suc_shift, simp)
  qed
qed

lemma run_spooling_up_reaches_unlimited:
  assumes "progress_ticks F" "spool_up_ready s" "spool_inv s" "spool_state s = SPOOLING_UP"
    "1 - throttle_thrust_max s \<le> real n * spool_up_step s"
  shows "\<exists>k \<le> Suc n. spool_state (tick_run F k s) = THROTTLE_UNLIMITED"
  using assms
proof (induction n arbitrary: F s)
  case 0
  then have "spool_state (F 0 s) = THROTTLE_UNLIMITED"
    using progress_ticks_first [OF 0(1-3)] spool_up_step_pos [OF 0(2)] by (auto simp: spool_up_progress_def)
  then show ?case by (intro exI [of _ 1]) simp
next
  case (Suc n)
  have p: "spool_up_progress s (F 0 s)" using progress_ticks_first [OF Suc.prems(1-3)] .
  show ?case
  proof (cases "spool_state (F 0 s) = THROTTLE_UNLIMITED")
    case True
    then show ?thesis by (intro exI [of _ 1]) simp
  next
    case False
    then have su: "spool_state (F 0 s) = SPOOLING_UP"
      and t: "throttle_thrust_max (F 0 s) = throttle_thrust_max s + spool_up_step s"
      and rd: "spool_up_ready (F 0 s)" "spool_inv (F 0 s)" and st: "spool_up_step (F 0 s) = spool_up_step s"
      using p Suc.prems(4) by (auto simp: spool_up_progress_def)
    have "1 - throttle_thrust_max (F 0 s) \<le> real n * spool_up_step (F 0 s)"
      using Suc.prems(5) t st by (simp add: algebra_simps)
    moreover have "progress_ticks (\<lambda>i. F (Suc i))"
      using progress_ticks_shift [OF Suc.prems(1), of 1] by simp
    ultimately obtain k where "k \<le> Suc n"
        "spool_state (tick_run (\<lambda>i. F (Suc i)) k (F 0 s)) = THROTTLE_UNLIMITED"
      using Suc.IH rd su by blast
    then show ?thesis by (intro exI [of _ "Suc k"]) (simp only: tick_run_Suc_shift, simp)
  qed
qed

lemma spool_up_ticks_enough:
  assumes "spool_up_ready s"
  shows "1 \<le> real (nat \<lceil>1 / spool_up_step s\<rceil>) * spool_up_step s"
proof -
  have pos: "0 < spool_up_step s" using assms by (rule spool_up_step_pos)
  have "1 / spool_up_step s \<le> real (nat \<lceil>1 / spool_up_step s\<rceil>)"
    by (rule real_nat_ceiling_ge)
  then have "1 / spool_up_step s * spool_up_step s \<le> real (nat \<lceil>1 / spool_up_step s\<rceil>) * spool_up_step s"
    using pos by (intro mult_right_mono) auto
  then show ?thesis using pos by simp
qed

lemma run_spool_up_phases:
  assumes "progress_ticks F" "spool_up_ready s" "spool_inv s"
  shows "(spool_state s = SPOOLING_UP \<longrightarrow>
           (\<exists>k \<le> Suc (nat \<lceil>1 / spool_up_step s\<rceil>). spool_state (tick_run F k s) = THROTTLE_UNLIMITED)) \<and>
         (spool_state s = GROUND_IDLE \<longrightarrow>
           (\<exists>k \<le> Suc (nat \<lceil>1 / spool_up_step s\<rceil>). spool_state (tick_run F k s) = SPOOLING_UP))"
proof -
  have b: "0 \<le> throttle_thrust_max s" "0 \<le> spin_up_ratio s"
    using assms(3) by (simp_all add: spool_inv_def spool_bounds_def)
  have e: "1 \<le> real (nat \<lceil>1 / spool_up_step s\<rceil>) * spool_up_step s"
    using spool_up_ticks_enough [OF assms(2)] .
  show ?thesis
    using run_spooling_up_reaches_unlimited [OF assms, of "nat \<lceil>1 / spool_up_step s\<rceil>"]
      run_ground_idle_reaches_spooling_up [OF assms, of "nat \<lceil>1 / spool_up_step s\<rceil>"] b e
    by auto
qed

lemma run_ground_idle_to_unlimited:
  assumes "progress_ticks F" "spool_up_ready s" "spool_inv s" "spool_state s = GROUND_IDLE"
  shows "\<exists>n \<le> 2 * nat \<lceil>1 / spool_up_step s\<rceil> + 2. spool_state (tick_run F n s) = THROTTLE_UNLIMITED"
proof -
  obtain k1 where k1: "k1 \<le> Suc (nat \<lceil>1 / spool_up_step s\<rceil>)" "spool_state (tick_run F k1 s) = SPOOLING_UP"
    using run_spool_up_phases [OF assms(1-3)] assms(4) by blast
  let ?s1 = "tick_run F k1 s"
  have i1: "spool_up_ready ?s1" "spool_inv ?s1" "spool_up_step ?s1 = spool_up_step s"
    using tick_run_ready [OF assms(1-3), of k1] by simp_all
  obtain k2 where k2: "k2 \<le> Suc (nat \<lceil>1 / spool_up_step s\<rceil>)"
      "spool_state (tick_run (\<lambda>i. F (i + k1)) k2 ?s1) = THROTTLE_UNLIMITED"
    using run_spool_up_phases [OF progress_ticks_shift [OF assms(1)] i1(1,2)] k1(2) i1(3) by auto
  show ?thesis
    using k1(1) k2 by (intro exI [of _ "k2 + k1"]) (simp add: tick_run_add)
qed

lemma tick_run_reaches_throttle_unlimited:
  assumes "progress_ticks F" "spool_up_ready s" "spool_inv s"
  shows "\<exists>n \<le> 2 * nat \<lceil>1 / spool_up_step s\<rceil> + 3. spool_state (tick_run F n s) = THROTTLE_UNLIMITED"
proof (cases "spool_state s")
  case SHUT_DOWN
  have p: "spool_up_progress s (F 0 s)" using progress_ticks_first [OF assms] .
  then have i1: "spool_up_ready (F 0 s)" "spool_inv (F 0 s)" "spool_up_step (F 0 s) = spool_up_step s"
    and gi: "spool_state (F 0 s) = GROUND_IDLE"
    using SHUT_DOWN by (simp_all add: spool_up_progress_def)
  have "progress_ticks (\<lambda>i. F (Suc i))" using progress_ticks_shift [OF assms(1), of 1] by simp
  then obtain n where "n \<le> 2 * nat \<lceil>1 / spool_up_step s\<rceil> + 2"
      "spool_state (tick_run (\<lambda>i. F (Suc i)) n (F 0 s)) = THROTTLE_UNLIMITED"
    using run_ground_idle_to_unlimited [OF _ i1(1,2) gi] i1(3) by auto
  then show ?thesis by (intro exI [of _ "Suc n"]) (simp only: tick_run_Suc_shift, simp)
next
  case GROUND_IDLE
  then obtain n where "n \<le> 2 * nat \<lceil>1 / spool_up_step s\<rceil> + 2"
      "spool_state (tick_run F n s) = THROTTLE_UNLIMITED"
    using run_ground_idle_to_unlimited [OF assms] by blast
  then show ?thesis by (intro exI [of _ n]) simp
next
  case SPOOLING_UP
  then obtain n where "n \<le> Suc (nat \<lceil>1 / spool_up_step s\<rceil>)"
      "spool_state (tick_run F n s) = THROTTLE_UNLIMITED"
    using run_spool_up_phases [OF assms] by blast
  then show ?thesis by (intro exI [of _ n]) simp
next
  case THROTTLE_UNLIMITED
  then show ?thesis by (intro exI [of _ 0]) simp
next
  case SPOOLING_DOWN
  have p: "spool_up_progress s (F 0 s)" using progress_ticks_first [OF assms] .
  then have i1: "spool_up_ready (F 0 s)" "spool_inv (F 0 s)" "spool_up_step (F 0 s) = spool_up_step s"
    and su: "spool_state (F 0 s) = SPOOLING_UP"
    using SPOOLING_DOWN by (simp_all add: spool_up_progress_def)
  have "progress_ticks (\<lambda>i. F (Suc i))" using progress_ticks_shift [OF assms(1), of 1] by simp
  then obtain n where "n \<le> Suc (nat \<lceil>1 / spool_up_step s\<rceil>)"
      "spool_state (tick_run (\<lambda>i. F (Suc i)) n (F 0 s)) = THROTTLE_UNLIMITED"
    using run_spool_up_phases [OF _ i1(1,2)] su i1(3) by auto
  then show ?thesis by (intro exI [of _ "Suc n"]) (simp only: tick_run_Suc_shift, simp)
qed

subsection \<open>Liveness of spool-up\<close>



subsection \<open>Runs that leave the specified ranges\<close>

lemma output_logic_ground_idle_ratio:
  assumes "armed s" "interlock s" "spool_state s = GROUND_IDLE" "spool_desired s = DESIRED_GROUND_IDLE"
  shows "spool_state (output_logic bm s) = GROUND_IDLE \<and>
    spin_up_ratio (output_logic bm s) =
      spin_up_ratio s + constrain_float (ground_idle_target s - spin_up_ratio s)
        (- (dt_s s / spool_down_time_eff (params (output_logic_prologue s))))
        (dt_s s / spool_up_time (params (output_logic_prologue s)))"
proof -
  let ?p = "output_logic_prologue s"
  have st: "spool_state ?p = GROUND_IDLE" "spool_desired ?p = DESIRED_GROUND_IDLE"
    using output_logic_prologue_spool [of s] assms by simp_all
  have tgt: "ground_idle_target ?p = ground_idle_target s"
    using output_logic_prologue_fields [of s] by (simp add: ground_idle_target_def)
  show ?thesis
    using st tgt output_logic_prologue_fields [of s]
    by (simp add: output_logic_def spool_ground_idle_def Let_def)
qed

lemma spool_down_time_eff_pos:
  "minimum_spool_time \<le> spool_up_time p \<Longrightarrow> 0 < spool_down_time_eff p"
  by (simp add: spool_down_time_eff_def minimum_spool_time_def)



lemma spool_cases_keep_timer:
  "disarm_safe_timer (spool_shut_down s) = disarm_safe_timer s \<and> params (spool_shut_down s) = params s \<and>
   dt_s (spool_shut_down s) = dt_s s"
  "disarm_safe_timer (spool_ground_idle s) = disarm_safe_timer s \<and> params (spool_ground_idle s) = params s \<and>
   dt_s (spool_ground_idle s) = dt_s s"
  "disarm_safe_timer (spool_spooling_up bm s) = disarm_safe_timer s \<and> params (spool_spooling_up bm s) = params s \<and>
   dt_s (spool_spooling_up bm s) = dt_s s"
  "disarm_safe_timer (spool_throttle_unlimited bm s) = disarm_safe_timer s \<and>
   params (spool_throttle_unlimited bm s) = params s \<and>
   dt_s (spool_throttle_unlimited bm s) = dt_s s"
  "disarm_safe_timer (spool_spooling_down bm s) = disarm_safe_timer s \<and>
   params (spool_spooling_down bm s) = params s \<and>
   dt_s (spool_spooling_down bm s) = dt_s s"
  by (simp add: spool_shut_down_def Let_def,
      simp add: spool_ground_idle_def Let_def split: desired_spool_state.splits,
      (unfold spool_spooling_up_def spool_throttle_unlimited_def spool_spooling_down_def Let_def,
       auto split: prod.splits dest!: get_current_limit_max_throttle_result)+)

lemma output_logic_timer:
  "disarm_safe_timer (output_logic bm s) = disarm_safe_timer (update_disarm_safe_timer s) \<and>
   safe_time (params (output_logic bm s)) = safe_time (params s) \<and> dt_s (output_logic bm s) = dt_s s"
proof -
  have p: "disarm_safe_timer (output_logic_prologue s) = disarm_safe_timer (update_disarm_safe_timer s) \<and>
      safe_time (params (output_logic_prologue s)) = safe_time (params s)"
    by (simp add: output_logic_prologue_def constrain_spool_up_time_def force_shutdown_def
        update_disarm_safe_timer_def)
  show ?thesis
    using p output_logic_prologue_fields [of s]
    by (cases "spool_state (output_logic_prologue s)")
      (simp_all add: output_logic_def spool_cases_keep_timer)
qed

text \<open>
  C27. The disarm safety timer stays within [0, \<open>MOT_SAFE_TIME + dt\<close>] on
  every tick, but not within [0, \<open>MOT_SAFE_TIME\<close>]: the code adds \<open>dt\<close>
  while the timer is below \<open>_safe_time\<close>, so the tick that crosses it leaves
  the timer up to \<open>dt\<close> above (1.0015 s against 1 s at 400 Hz in the witness),
  whereas the specification keeps \<open>disarm_safe_timer\<close> within
  [0, \<open>safe_time\<close>].
\<close>

theorem output_logic_safe_timer_overshoot:
  assumes "0 \<le> dt_s s" "0 \<le> safe_time (params s)" "0 \<le> disarm_safe_timer s"
  shows "0 \<le> disarm_safe_timer (output_logic bm s) \<and>
         disarm_safe_timer (output_logic bm s) \<le> safe_time (params (output_logic bm s)) + dt_s (output_logic bm s)"
  using output_logic_timer [of bm s] assms
  by (auto simp: update_disarm_safe_timer_def)

theorem output_logic_safe_timer_overshoot_witness:
  "safe_time (params (output_logic witness_battery ((motors_init 400)\<lparr>armed := True, interlock := True,
       params := default_params\<lparr>disarm_disable_pwm := True\<rparr>, disarm_safe_timer := 0.999\<rparr>)))
   < disarm_safe_timer (output_logic witness_battery ((motors_init 400)\<lparr>armed := True, interlock := True,
       params := default_params\<lparr>disarm_disable_pwm := True\<rparr>, disarm_safe_timer := 0.999\<rparr>)) \<and>
   disarm_safe_timer (output_logic witness_battery ((motors_init 400)\<lparr>armed := True, interlock := True,
       params := default_params\<lparr>disarm_disable_pwm := True\<rparr>, disarm_safe_timer := 0.999\<rparr>))
   \<le> 1 + 1 / 400"
proof -
  define s0 where "s0 = (motors_init 400)\<lparr>armed := True, interlock := True,
       params := default_params\<lparr>disarm_disable_pwm := True\<rparr>, disarm_safe_timer := 0.999\<rparr>"
  have h: "0 \<le> dt_s s0" "0 \<le> safe_time (params s0)" "0 \<le> disarm_safe_timer s0"
    by (simp_all add: s0_def motors_init_def default_params_def)
  have t: "disarm_safe_timer (output_logic witness_battery s0) = 1.0015 \<and>
      safe_time (params (output_logic witness_battery s0)) = 1 \<and> dt_s (output_logic witness_battery s0) = 1 / 400"
    using output_logic_timer [of witness_battery s0]
    by (simp add: s0_def update_disarm_safe_timer_def motors_init_def default_params_def)
  have "safe_time (params (output_logic witness_battery s0)) < disarm_safe_timer (output_logic witness_battery s0) \<and>
      disarm_safe_timer (output_logic witness_battery s0) \<le> 1 + 1 / 400"
    using output_logic_safe_timer_overshoot [OF h, of witness_battery] t by simp
  then show ?thesis unfolding s0_def .
qed

subsection \<open>The current limiter inside the spool logic\<close>

lemma overcurrent_fields:
  "armed t = armed s \<Longrightarrow> params t = params s \<Longrightarrow> thr_lin t = thr_lin s \<Longrightarrow> dt_s t = dt_s s \<Longrightarrow>
   overcurrent bm i t = overcurrent bm i s \<and> overcurrent_decay i t = overcurrent_decay i s \<and>
   get_throttle_hover t = get_throttle_hover s"
  by (simp add: overcurrent_def overcurrent_decay_def get_throttle_hover_def)

text \<open>
  C37. On the tick of \<open>SPOOLING_UP\<close> that reaches \<open>THROTTLE_UNLIMITED\<close>,
  \<open>output_logic\<close> calls \<open>get_current_limit_max_throttle\<close> twice, and each call
  integrates \<open>_throttle_limit\<close>: under over-current the limit drops by two decay
  steps in that one tick, and the new thrust ceiling is the second call's.
\<close>

theorem spooling_up_integrates_limit_twice:
  assumes "overcurrent bm i s" "interlock s" "spool_state s = SPOOLING_UP"
    "spool_desired s = DESIRED_THROTTLE_UNLIMITED" "minimum_spool_time \<le> spool_up_time (params s)"
    "get_throttle s \<le> throttle_thrust_max s + dt_s s / spool_up_time (params s)"
  shows "spool_state (output_logic bm s) = THROTTLE_UNLIMITED \<and>
         throttle_limit (output_logic bm s) =
           constrain_float (constrain_float (throttle_limit s - overcurrent_decay i s) 0.2 1
             - overcurrent_decay i s) 0.2 1 \<and>
         throttle_thrust_max (output_logic bm s) =
           get_throttle_hover s + (1 - get_throttle_hover s) * throttle_limit (output_logic bm s)"
proof -
  let ?s1 = "output_logic_prologue s"
  have a: "armed s" using assms(1) by (simp add: overcurrent_def)
  have p: "spool_state ?s1 = SPOOLING_UP" "spool_desired ?s1 = DESIRED_THROTTLE_UNLIMITED"
    "params ?s1 = params s" "armed ?s1" "thr_lin ?s1 = thr_lin s" "dt_s ?s1 = dt_s s"
    "throttle_limit ?s1 = throttle_limit s" "throttle_thrust_max ?s1 = throttle_thrust_max s"
    "get_throttle ?s1 = get_throttle s"
    using a assms(2-5)
    by (simp_all add: output_logic_prologue_def constrain_spool_up_time_def force_shutdown_def
        update_disarm_safe_timer_def get_throttle_def)
  have oc: "\<And>t. armed t = armed s \<Longrightarrow> params t = params s \<Longrightarrow> thr_lin t = thr_lin s \<Longrightarrow> dt_s t = dt_s s \<Longrightarrow>
      get_current_limit_max_throttle bm t =
        (get_throttle_hover s + (1 - get_throttle_hover s) *
           constrain_float (throttle_limit t - overcurrent_decay i s) 0.2 1,
         t\<lparr>throttle_limit := constrain_float (throttle_limit t - overcurrent_decay i s) 0.2 1\<rparr>)"
    using overcurrent_step overcurrent_fields assms(1) by metis
  have g: "get_throttle t \<le> 1" for t using get_throttle_bounds by blast
  show ?thesis
    using p a assms(6) g
    by (simp add: output_logic_def spool_spooling_up_def Let_def oc get_throttle_def min_def)
qed

theorem spooling_up_integrates_limit_twice_witness:
  "spool_state (output_logic (sag_battery 70) ((motors_init 400)\<lparr>armed := True, interlock := True,
      params := default_params\<lparr>batt_current_max := 60\<rparr>, spool_state := SPOOLING_UP,
      spool_desired := DESIRED_THROTTLE_UNLIMITED, throttle_thrust_max := 0.5\<rparr>)) = THROTTLE_UNLIMITED \<and>
   throttle_limit (output_logic (sag_battery 70) ((motors_init 400)\<lparr>armed := True, interlock := True,
      params := default_params\<lparr>batt_current_max := 60\<rparr>, spool_state := SPOOLING_UP,
      spool_desired := DESIRED_THROTTLE_UNLIMITED, throttle_thrust_max := 0.5\<rparr>)) = 1 - 2 / 12006"
proof -
  define s0 where "s0 = (motors_init 400)\<lparr>armed := True, interlock := True,
      params := default_params\<lparr>batt_current_max := 60\<rparr>, spool_state := SPOOLING_UP,
      spool_desired := DESIRED_THROTTLE_UNLIMITED, throttle_thrust_max := 0.5\<rparr>"
  have h: "overcurrent (sag_battery 70) 70 s0" "interlock s0" "spool_state s0 = SPOOLING_UP"
    "spool_desired s0 = DESIRED_THROTTLE_UNLIMITED" "minimum_spool_time \<le> spool_up_time (params s0)"
    "get_throttle s0 \<le> throttle_thrust_max s0 + dt_s s0 / spool_up_time (params s0)"
    by (simp_all add: s0_def overcurrent_def sag_battery_def motors_init_def default_thr_lin_def
        default_params_def is_zero_def FLT_EPSILON_def minimum_spool_time_def get_throttle_def constrain_float_def)
  have d: "overcurrent_decay 70 s0 = 1 / 12006" "throttle_limit s0 = 1"
    by (simp_all add: s0_def overcurrent_decay_def motors_init_def default_params_def)
  have "spool_state (output_logic (sag_battery 70) s0) = THROTTLE_UNLIMITED \<and>
        throttle_limit (output_logic (sag_battery 70) s0) = 1 - 2 / 12006"
    using spooling_up_integrates_limit_twice [OF h] d by (simp add: constrain_float_def)
  then show ?thesis by (simp add: s0_def)
qed

text \<open>
  C39. Graceful degradation of the current limiter (section 7 of the
  specification): when current limiting is disabled (\<open>MOT_BAT_CURR_MAX \<le> 0\<close>),
  the battery reports no current, or its resistance estimate is zero, a tick in
  \<open>THROTTLE_UNLIMITED\<close> leaves the thrust ceiling and the throttle limit at 1,
  and stays in \<open>THROTTLE_UNLIMITED\<close>.
\<close>

theorem throttle_unlimited_without_current_limiting:
  assumes "armed s" "interlock s" "spool_state s = THROTTLE_UNLIMITED"
    "spool_desired s = DESIRED_THROTTLE_UNLIMITED"
    "batt_current_max (params s) \<le> 0 \<or> current_amps (bm (batt_idx (thr_lin s))) = None \<or>
     is_zero (resistance (bm (batt_idx (thr_lin s))))"
  shows "spool_state (output_logic bm s) = THROTTLE_UNLIMITED \<and>
         throttle_thrust_max (output_logic bm s) = 1 \<and> throttle_limit (output_logic bm s) = 1"
  using assms
  by (auto simp: output_logic_def output_logic_prologue_def constrain_spool_up_time_def force_shutdown_def
      update_disarm_safe_timer_def spool_throttle_unlimited_def get_current_limit_max_throttle_def
      current_limit_reset_def Let_def split: option.splits)

theorem throttle_unlimited_without_current_limiting_witness:
  "throttle_thrust_max (output_logic witness_battery ((motors_init 400)\<lparr>armed := True, interlock := True,
      spool_state := THROTTLE_UNLIMITED, spool_desired := DESIRED_THROTTLE_UNLIMITED\<rparr>)) = 1"
proof -
  define s0 where "s0 = (motors_init 400)\<lparr>armed := True, interlock := True,
      spool_state := THROTTLE_UNLIMITED, spool_desired := DESIRED_THROTTLE_UNLIMITED\<rparr>"
  have h: "armed s0" "interlock s0" "spool_state s0 = THROTTLE_UNLIMITED"
    "spool_desired s0 = DESIRED_THROTTLE_UNLIMITED"
    "batt_current_max (params s0) \<le> 0 \<or> current_amps (witness_battery (batt_idx (thr_lin s0))) = None \<or>
     is_zero (resistance (witness_battery (batt_idx (thr_lin s0))))"
    by (simp_all add: s0_def motors_init_def default_params_def)
  have "throttle_thrust_max (output_logic witness_battery s0) = 1"
    using throttle_unlimited_without_current_limiting [where bm = witness_battery, OF h] by simp
  then show ?thesis by (simp add: s0_def)
qed

end
