(* ===== verification/Thrust_Linearizer.thy ===== *)
theory Thrust_Linearizer
  imports Motors_State
begin

text \<open>
  The thrust linearizer \<open>thr_lin\<close>, whose code is not part of this repository:
  modelled from section 4.2 of the specification. The battery voltage at
  \<open>batt_idx\<close> is low-pass filtered; \<open>lift_max\<close> is that voltage (the raw
  reading when bit 0 of \<open>MOT_OPTIONS\<close> is set), clamped to
  \<open>[MOT_BAT_VOLT_MIN, MOT_BAT_VOLT_MAX]\<close> and normalised by the maximum, or 1
  when compensation is disabled (\<open>MOT_BAT_VOLT_MAX \<le> 0\<close>). Commanded thrust is
  divided by \<open>lift_max\<close>, passed through the two-term curve
  \<open>(1 - expo) x + expo x\<^sup>2\<close> and mapped into \<open>[spin_min, spin_max]\<close>;
  \<open>actuator_to_thrust\<close> inverts the curve (the positive root of the quadratic),
  and \<open>get_compensation_gain\<close> is \<open>1 / lift_max\<close>, so that
  \<open>AP_MotorsMulticopter::get_thrust\<close> (which is in the repository) divides it
  back out.
\<close>

definition thrust_curve :: "float \<Rightarrow> float \<Rightarrow> float" where
  "thrust_curve expo x = (1 - expo) * x + expo * x\<^sup>2"

definition update_lift_max_from_batt_voltage ::
  "battery_monitor \<Rightarrow> float \<Rightarrow> motors_state \<Rightarrow> motors_state" where
  "update_lift_max_from_batt_voltage bm tau s =
     (let lin = thr_lin s; v = voltage (bm (batt_idx lin)) in
      if batt_voltage_max lin \<le> 0 then s\<lparr>thr_lin := lin\<lparr>lift_max := 1\<rparr>\<rparr>
      else
        (let filt = lowpass_apply tau (batt_voltage_filt lin) v (dt_s s);
             src = (if bit (options (params s)) 0 then v else filt);
             lm = constrain_float src (batt_voltage_min lin) (batt_voltage_max lin) / batt_voltage_max lin
         in s\<lparr>thr_lin := lin\<lparr>batt_voltage_filt := filt, lift_max := lm\<rparr>\<rparr>))"

definition thrust_to_actuator :: "thr_lin_params \<Rightarrow> float \<Rightarrow> float" where
  "thrust_to_actuator lin thrust =
     spin_min lin + thrust_curve (curve_expo lin) (thrust / lift_max lin) * (spin_max lin - spin_min lin)"

definition actuator_to_thrust :: "thr_lin_params \<Rightarrow> float \<Rightarrow> float" where
  "actuator_to_thrust lin act =
     (let e = curve_expo lin; y = (act - spin_min lin) / (spin_max lin - spin_min lin) in
      if e = 0 then y else ((e - 1) + sqrt ((1 - e)\<^sup>2 + 4 * e * y)) / (2 * e))"

definition get_compensation_gain :: "thr_lin_params \<Rightarrow> float" where
  "get_compensation_gain lin = 1 / lift_max lin"

definition get_thrust :: "motors_state \<Rightarrow> nat \<Rightarrow> float option" where
  "get_thrust s motor_num =
     (if motor_num \<ge> AP_MOTORS_MAX_NUM_MOTORS \<or> \<not> motor_enabled s motor_num then None
      else
        (let act = constrain_float (actuator s motor_num) (spin_min (thr_lin s)) (spin_max (thr_lin s))
         in Some (actuator_to_thrust (thr_lin s) act / get_compensation_gain (thr_lin s))))"

definition sag_thr_lin :: thr_lin_params where
  "sag_thr_lin = default_thr_lin\<lparr>batt_voltage_max := 16.8, batt_voltage_min := 13.2, batt_voltage_filt := 14.4\<rparr>"

definition roundtrip_witness_state :: motors_state where
  "roundtrip_witness_state = (motors_init 400)\<lparr>motor_enabled := (\<lambda>i. i = 0),
     actuator := (\<lambda>_. thrust_to_actuator default_thr_lin 0.5)\<rparr>"

lemma thrust_curve_range:
  assumes "- 1 \<le> e" "e \<le> 1" "0 \<le> x" "x \<le> 1"
  shows "0 \<le> thrust_curve e x \<and> thrust_curve e x \<le> 1"
proof -
  have xx: "x\<^sup>2 \<le> x" "0 \<le> x\<^sup>2" using assms(3,4) by (simp_all add: power2_eq_square mult_left_le)
  have eq: "thrust_curve e x = x + e * (x\<^sup>2 - x)" by (simp add: thrust_curve_def algebra_simps)
  show ?thesis
  proof (cases "0 \<le> e")
    case True
    have "e * (x\<^sup>2 - x) \<le> 0" using True xx by (simp add: mult_nonneg_nonpos)
    moreover have "- x \<le> e * (x\<^sup>2 - x)"
    proof -
      have "e * (x - x\<^sup>2) \<le> 1 * (x - x\<^sup>2)" using True assms(2) xx by (intro mult_right_mono) auto
      also have "\<dots> \<le> x" using xx by simp
      finally show ?thesis by (simp add: algebra_simps)
    qed
    ultimately show ?thesis using eq assms(3,4) by simp
  next
    case False
    have "0 \<le> e * (x\<^sup>2 - x)" using False xx by (simp add: mult_nonpos_nonpos)
    moreover have "e * (x\<^sup>2 - x) \<le> x - x\<^sup>2"
    proof -
      have "(- e) * (x - x\<^sup>2) \<le> 1 * (x - x\<^sup>2)" using False assms(1) xx by (intro mult_right_mono) auto
      then show ?thesis by (simp add: algebra_simps)
    qed
    moreover have "2 * x - x\<^sup>2 \<le> 1"
    proof -
      have "0 \<le> (1 - x)\<^sup>2" by simp
      then show ?thesis by (simp add: power2_eq_square algebra_simps)
    qed
    ultimately show ?thesis using eq assms(3) by simp
  qed
qed

lemma thrust_curve_inverse:
  assumes "- 1 \<le> e" "e \<le> 1" "0 \<le> x" "x \<le> 1" "e \<noteq> 0"
  shows "((e - 1) + sqrt ((1 - e)\<^sup>2 + 4 * e * thrust_curve e x)) / (2 * e) = x"
proof -
  have sq: "(1 - e)\<^sup>2 + 4 * e * thrust_curve e x = ((1 - e) + 2 * e * x)\<^sup>2"
    by (simp add: thrust_curve_def power2_eq_square algebra_simps)
  have nn: "0 \<le> (1 - e) + 2 * e * x"
  proof (cases "0 \<le> e")
    case True then show ?thesis using assms by simp
  next
    case False
    have "e * x \<ge> e * 1" using False assms(4) by (intro mult_left_mono_neg) auto
    then show ?thesis using assms(1) by simp
  qed
  have "sqrt ((1 - e)\<^sup>2 + 4 * e * thrust_curve e x) = (1 - e) + 2 * e * x"
    using sq nn by simp
  then show ?thesis using assms(5) by (simp add: field_simps)
qed

lemma actuator_to_thrust_inverse:
  assumes "spin_min lin < spin_max lin" "- 1 \<le> curve_expo lin" "curve_expo lin \<le> 1" "0 \<le> x" "x \<le> 1"
  shows "actuator_to_thrust lin (spin_min lin + thrust_curve (curve_expo lin) x * (spin_max lin - spin_min lin)) = x"
proof -
  have y: "(spin_min lin + thrust_curve (curve_expo lin) x * (spin_max lin - spin_min lin) - spin_min lin)
      / (spin_max lin - spin_min lin) = thrust_curve (curve_expo lin) x"
    using assms(1) by simp
  show ?thesis
    using thrust_curve_inverse [OF assms(2-5)] y
    by (cases "curve_expo lin = 0") (simp_all add: actuator_to_thrust_def Let_def thrust_curve_def)
qed

lemma thrust_to_actuator_range:
  assumes "spin_min lin \<le> spin_max lin" "- 1 \<le> curve_expo lin" "curve_expo lin \<le> 1"
    "0 \<le> t / lift_max lin" "t / lift_max lin \<le> 1"
  shows "spin_min lin \<le> thrust_to_actuator lin t \<and> thrust_to_actuator lin t \<le> spin_max lin"
proof -
  let ?c = "thrust_curve (curve_expo lin) (t / lift_max lin)"
  have c: "0 \<le> ?c" "?c \<le> 1" using thrust_curve_range [OF assms(2-5)] by auto
  have d: "0 \<le> spin_max lin - spin_min lin" using assms(1) by simp
  have "?c * (spin_max lin - spin_min lin) \<le> spin_max lin - spin_min lin"
    using c d by (simp add: mult_left_le_one_le)
  moreover have "0 \<le> ?c * (spin_max lin - spin_min lin)" using c d by simp
  ultimately show ?thesis by (simp add: thrust_to_actuator_def)
qed

text \<open>
  C18. Round trip of the linearisation (specification property 6): for an enabled
  motor whose actuator was set from a thrust \<open>t\<close> in \<open>[0, lift_max]\<close> by
  \<open>thrust_to_actuator\<close>, \<open>get_thrust\<close> returns exactly \<open>t\<close>, for any
  curve exponent in \<open>[-1,1]\<close> and \<open>spin_min < spin_max\<close>.
\<close>
theorem get_thrust_roundtrip:
  assumes "n < AP_MOTORS_MAX_NUM_MOTORS" "motor_enabled s n"
    "spin_min (thr_lin s) < spin_max (thr_lin s)"
    "- 1 \<le> curve_expo (thr_lin s)" "curve_expo (thr_lin s) \<le> 1"
    "0 < lift_max (thr_lin s)" "0 \<le> t" "t \<le> lift_max (thr_lin s)"
    "actuator s n = thrust_to_actuator (thr_lin s) t"
  shows "get_thrust s n = Some t"
proof -
  let ?lin = "thr_lin s"
  have x: "0 \<le> t / lift_max ?lin" "t / lift_max ?lin \<le> 1" using assms(6-8) by simp_all
  have r: "spin_min ?lin \<le> thrust_to_actuator ?lin t \<and> thrust_to_actuator ?lin t \<le> spin_max ?lin"
    using thrust_to_actuator_range [OF _ assms(4,5) x] assms(3) by simp
  have inv: "actuator_to_thrust ?lin (thrust_to_actuator ?lin t) = t / lift_max ?lin"
    using actuator_to_thrust_inverse [OF assms(3-5) x] by (simp add: thrust_to_actuator_def)
  show ?thesis
    using assms(1,2,6,9) r inv
    by (simp add: get_thrust_def constrain_float_id get_compensation_gain_def)
qed

theorem get_thrust_roundtrip_witness: "get_thrust roundtrip_witness_state 0 = Some 0.5"
proof -
  have h: "0 < AP_MOTORS_MAX_NUM_MOTORS" "motor_enabled roundtrip_witness_state 0"
    "spin_min (thr_lin roundtrip_witness_state) < spin_max (thr_lin roundtrip_witness_state)"
    "- 1 \<le> curve_expo (thr_lin roundtrip_witness_state)" "curve_expo (thr_lin roundtrip_witness_state) \<le> 1"
    "0 < lift_max (thr_lin roundtrip_witness_state)" "0 \<le> (0.5::real)"
    "0.5 \<le> lift_max (thr_lin roundtrip_witness_state)"
    "actuator roundtrip_witness_state 0 = thrust_to_actuator (thr_lin roundtrip_witness_state) 0.5"
    by (simp_all add: roundtrip_witness_state_def motors_init_def default_thr_lin_def AP_MOTORS_MAX_NUM_MOTORS_def)
  show ?thesis by (rule get_thrust_roundtrip [OF h])
qed

text \<open>
  With voltage compensation enabled and \<open>0 < MOT_BAT_VOLT_MIN \<le> MOT_BAT_VOLT_MAX\<close>,
  the updated \<open>lift_max\<close> lies in \<open>[V_min / V_max, 1]\<close>; scenario S3
  (filtered 14.4 V, range 13.2..16.8 V) gives \<open>lift_max = 14.4 / 16.8\<close>.
\<close>
theorem update_lift_max_range:
  assumes "0 < batt_voltage_max (thr_lin s)" "0 < batt_voltage_min (thr_lin s)"
    "batt_voltage_min (thr_lin s) \<le> batt_voltage_max (thr_lin s)"
  shows "batt_voltage_min (thr_lin s) / batt_voltage_max (thr_lin s)
           \<le> lift_max (thr_lin (update_lift_max_from_batt_voltage bm tau s)) \<and>
         lift_max (thr_lin (update_lift_max_from_batt_voltage bm tau s)) \<le> 1 \<and>
         0 < lift_max (thr_lin (update_lift_max_from_batt_voltage bm tau s))"
proof -
  let ?lin = "thr_lin s"
  have c: "batt_voltage_min ?lin \<le> constrain_float x (batt_voltage_min ?lin) (batt_voltage_max ?lin) \<and>
      constrain_float x (batt_voltage_min ?lin) (batt_voltage_max ?lin) \<le> batt_voltage_max ?lin" for x
    using assms(3) by (simp add: clamp_rules)
  have d: "batt_voltage_min ?lin / batt_voltage_max ?lin \<le> y / batt_voltage_max ?lin \<and>
      y / batt_voltage_max ?lin \<le> 1 \<and> 0 < y / batt_voltage_max ?lin"
    if "batt_voltage_min ?lin \<le> y" "y \<le> batt_voltage_max ?lin" for y
    using that assms by (auto simp: divide_right_mono)
  show ?thesis
    using d [OF conjunct1 [OF c] conjunct2 [OF c]] assms(1)
    by (simp add: update_lift_max_from_batt_voltage_def Let_def)
qed

theorem update_lift_max_range_witness:
  "lift_max (thr_lin (update_lift_max_from_batt_voltage (\<lambda>_. \<lparr>voltage = 14.4, current_amps = None, resistance = 0\<rparr>) 1
      ((motors_init 400)\<lparr>thr_lin := sag_thr_lin\<rparr>))) = 6 / 7 \<and>
   13.2 / 16.8 \<le> lift_max (thr_lin (update_lift_max_from_batt_voltage (\<lambda>_. \<lparr>voltage = 14.4, current_amps = None, resistance = 0\<rparr>) 1
      ((motors_init 400)\<lparr>thr_lin := sag_thr_lin\<rparr>)))"
proof -
  have h: "0 < batt_voltage_max (thr_lin ((motors_init 400)\<lparr>thr_lin := sag_thr_lin\<rparr>))"
    "0 < batt_voltage_min (thr_lin ((motors_init 400)\<lparr>thr_lin := sag_thr_lin\<rparr>))"
    "batt_voltage_min (thr_lin ((motors_init 400)\<lparr>thr_lin := sag_thr_lin\<rparr>))
       \<le> batt_voltage_max (thr_lin ((motors_init 400)\<lparr>thr_lin := sag_thr_lin\<rparr>))"
    by (simp_all add: sag_thr_lin_def)
  have v: "lift_max (thr_lin (update_lift_max_from_batt_voltage (\<lambda>_. \<lparr>voltage = 14.4, current_amps = None, resistance = 0\<rparr>) 1
      ((motors_init 400)\<lparr>thr_lin := sag_thr_lin\<rparr>))) = 6 / 7"
    by (simp add: update_lift_max_from_batt_voltage_def sag_thr_lin_def default_thr_lin_def motors_init_def
        default_params_def lowpass_apply_def constrain_float_def)
  show ?thesis
    using update_lift_max_range [OF h, of "\<lambda>_. \<lparr>voltage = 14.4, current_amps = None, resistance = 0\<rparr>" 1] v
    by (simp add: sag_thr_lin_def)
qed

end
