(* ===== verification/Actuator_Output.thy ===== *)
theory Actuator_Output
  imports Motors_State
begin

unbundle bit_operations_syntax

text \<open>
  The actuator stage of \<open>AP_MotorsMulticopter\<close>: \<open>set_actuator_with_slew\<close>
  (the rising and falling slew limits on one motor's output; the source updates
  its reference argument, the model returns the new value),
  \<open>output_to_pwm\<close>, \<open>actuator_spin_up_to_ground_idle\<close>,
  \<open>get_raw_motor_throttle\<close> (\<open>None\<close> for the \<open>false\<close> return),
  \<open>set_throttle_passthrough_for_esc_calibration\<close> and \<open>output_motor_mask\<close>
  (the loop over the motors as a fold over \<open>[0..<AP_MOTORS_MAX_NUM_MOTORS]\<close>).
  Conversions of a \<open>float\<close> to an integer truncate towards zero, as C does; an
  \<open>int\<close> stored into an \<open>int16_t\<close> wraps to 16 bits, written with
  \<^typ>\<open>16 word\<close>. The frame's \<open>get_roll_factor(i)\<close> is the parameter
  \<open>roll_factor\<close>. The two \<open>for\<close> loops are also given as the code writes them,
  with their \<open>uint8_t\<close> and \<open>uint16_t\<close> counters, and proved to terminate and to
  agree with the fold and list models; \<open>slew_reference\<close> is the slew limiter as
  the specification states it.
\<close>

definition to_int16 :: "int \<Rightarrow> int" where
  "to_int16 x = sint (word_of_int x :: 16 word)"

definition slew_limit_up :: "motors_state \<Rightarrow> float \<Rightarrow> float" where
  "slew_limit_up s actuator_output =
     (if is_positive (slew_up_time (params s))
      then constrain_float (actuator_output + dt_s s / constrain_float (slew_up_time (params s)) 0 0.5) 0 1
      else 1)"

definition slew_limit_dn :: "motors_state \<Rightarrow> float \<Rightarrow> float" where
  "slew_limit_dn s actuator_output =
     (if is_positive (slew_dn_time (params s))
      then constrain_float (actuator_output - dt_s s / constrain_float (slew_dn_time (params s)) 0 0.5) 0 1
      else 0)"

definition set_actuator_with_slew :: "motors_state \<Rightarrow> float \<Rightarrow> float \<Rightarrow> float" where
  "set_actuator_with_slew s actuator_output input =
     constrain_float input (slew_limit_dn s actuator_output) (slew_limit_up s actuator_output)"

definition output_to_pwm :: "motors_state \<Rightarrow> float \<Rightarrow> int" where
  "output_to_pwm s act =
     float_to_int
       (if spool_state s = SHUT_DOWN then
          (if disarm_disable_pwm (params s) \<and> \<not> armed s then 0 else of_int (get_pwm_output_min s))
        else of_int (get_pwm_output_min s)
               + of_int (get_pwm_output_max s - get_pwm_output_min s) * act)"

definition actuator_spin_up_to_ground_idle :: "motors_state \<Rightarrow> float" where
  "actuator_spin_up_to_ground_idle s = constrain_float (spin_up_ratio s) 0 1 * spin_min (thr_lin s)"

definition get_raw_motor_throttle :: "motors_state \<Rightarrow> nat \<Rightarrow> float option" where
  "get_raw_motor_throttle s motor_num =
     (if motor_num \<ge> AP_MOTORS_MAX_NUM_MOTORS \<or> \<not> motor_enabled s motor_num then None
      else Some (constrain_float (actuator s motor_num) 0 1))"

definition set_throttle_passthrough_for_esc_calibration :: "float \<Rightarrow> motors_state \<Rightarrow> motors_state" where
  "set_throttle_passthrough_for_esc_calibration throttle_input s =
     (if armed s then
        (let pwm_out = float_to_int (of_int (get_pwm_output_min s)
                         + constrain_float throttle_input 0 1 * of_int (get_pwm_output_max s - get_pwm_output_min s))
         in s\<lparr>outputs := outputs s
                @ [Rc_write i pwm_out. i \<leftarrow> [0..<AP_MOTORS_MAX_NUM_MOTORS], motor_enabled s i]
                @ [Set_output_pwm K_throttleRight pwm_out, Set_output_pwm K_throttleLeft pwm_out]\<rparr>)
      else s)"

definition mask_motor_actuator :: "(nat \<Rightarrow> float) \<Rightarrow> float \<Rightarrow> float \<Rightarrow> motors_state \<Rightarrow> nat \<Rightarrow> float" where
  "mask_motor_actuator roll_factor thrust rudder_dt s i =
     (if armed s \<and> interlock s
      then set_actuator_with_slew s (actuator s i) (thrust + roll_factor i * rudder_dt * 0.5)
      else 0)"

definition output_motor_mask_step ::
  "(nat \<Rightarrow> float) \<Rightarrow> float \<Rightarrow> 32 word \<Rightarrow> float \<Rightarrow> motors_state \<Rightarrow> nat \<Rightarrow> motors_state" where
  "output_motor_mask_step roll_factor thrust mot_mask rudder_dt s i =
     (if motor_enabled s i \<and> bit mot_mask i then
        (let a = mask_motor_actuator roll_factor thrust rudder_dt s i;
             pwm_lo = to_int16 (get_pwm_output_min s);
             pwm_range = to_int16 (get_pwm_output_max s - pwm_lo);
             pwm_output = to_int16 (float_to_int (of_int pwm_lo + of_int pwm_range * a))
         in s\<lparr>actuator := (actuator s)(i := a), outputs := outputs s @ [Rc_write i pwm_output]\<rparr>)
      else s)"

definition output_motor_mask ::
  "(nat \<Rightarrow> float) \<Rightarrow> float \<Rightarrow> 32 word \<Rightarrow> float \<Rightarrow> motors_state \<Rightarrow> motors_state" where
  "output_motor_mask roll_factor thrust mot_mask rudder_dt s =
     foldl (output_motor_mask_step roll_factor thrust mot_mask rudder_dt)
       (s\<lparr>motor_mask_override := mot_mask\<rparr>) [0..<AP_MOTORS_MAX_NUM_MOTORS]"

definition slew_witness_state :: motors_state where
  "slew_witness_state = (motors_init 100)\<lparr>params := default_params\<lparr>slew_up_time := 0.1\<rparr>\<rparr>"

definition pwm_witness_state :: motors_state where
  "pwm_witness_state = (motors_init 400)\<lparr>armed := True, spool_state := THROTTLE_UNLIMITED\<rparr>"

definition esc_witness_state :: motors_state where
  "esc_witness_state = (motors_init 400)\<lparr>armed := True, motor_enabled := (\<lambda>i. i < 2)\<rparr>"

text \<open>
  The slew limiter as section 4.5 of the specification states it, the reference
  \<open>set_actuator_with_slew\<close> is compared with.
\<close>

definition slew_reference :: "motors_state \<Rightarrow> float \<Rightarrow> float \<Rightarrow> float" where
  "slew_reference s actuator_output input =
     (let U = (if slew_up_time (params s) > 0
               then min 1 (actuator_output + dt_s s / constrain_float (slew_up_time (params s)) 0 0.5) else 1);
          L = (if slew_dn_time (params s) > 0
               then max 0 (actuator_output - dt_s s / constrain_float (slew_dn_time (params s)) 0 0.5) else 0)
      in constrain_float input L U)"

text \<open>
  The two loops over the motor slots as the code writes them, with their counters
  at the C types' widths: the \<open>uint8_t\<close> loop of \<open>output_motor_mask\<close> and the
  \<open>uint16_t\<close> loop of \<open>set_throttle_passthrough_for_esc_calibration\<close> that collects
  the \<open>rc_write\<close> calls. Their termination proofs use that the bound 32 fits the
  counter's width.
\<close>

function output_motor_mask_loop ::
  "(nat \<Rightarrow> float) \<Rightarrow> float \<Rightarrow> 32 word \<Rightarrow> float \<Rightarrow> 8 word \<Rightarrow> motors_state \<Rightarrow> motors_state" where
  "output_motor_mask_loop roll_factor thrust mot_mask rudder_dt i s =
     (if unat i < AP_MOTORS_MAX_NUM_MOTORS
      then output_motor_mask_loop roll_factor thrust mot_mask rudder_dt (i + 1)
             (output_motor_mask_step roll_factor thrust mot_mask rudder_dt s (unat i))
      else s)"
  by pat_completeness auto
termination
  by (relation "measure (\<lambda>(rf, thrust, m, r, i, s). AP_MOTORS_MAX_NUM_MOTORS - unat i)")
    (auto simp: unat_inc_below AP_MOTORS_MAX_NUM_MOTORS_def)

function esc_calibration_rc_loop :: "int \<Rightarrow> (nat \<Rightarrow> bool) \<Rightarrow> 16 word \<Rightarrow> output_event list \<Rightarrow> output_event list" where
  "esc_calibration_rc_loop pwm_out enabled i acc =
     (if unat i < AP_MOTORS_MAX_NUM_MOTORS
      then esc_calibration_rc_loop pwm_out enabled (i + 1)
             (if enabled (unat i) then acc @ [Rc_write (unat i) pwm_out] else acc)
      else acc)"
  by pat_completeness auto
termination
  by (relation "measure (\<lambda>(p, en, i, acc). AP_MOTORS_MAX_NUM_MOTORS - unat i)")
    (auto simp: unat_inc_below AP_MOTORS_MAX_NUM_MOTORS_def)

declare output_motor_mask_loop.simps [simp del] esc_calibration_rc_loop.simps [simp del]

lemma float_to_int_bounds:
  assumes "of_int a \<le> x" "x \<le> of_int b"
  shows "a \<le> float_to_int x \<and> float_to_int x \<le> b"
proof (cases "0 \<le> x")
  case True
  have "a \<le> \<lfloor>x\<rfloor>" using assms(1) by (simp add: le_floor_iff)
  moreover have "\<lfloor>x\<rfloor> \<le> b" using assms(2) by (simp add: floor_le_iff)
  ultimately show ?thesis using True by (simp add: float_to_int_def)
next
  case False
  have "a \<le> \<lceil>x\<rceil>" using assms(1) by (simp add: le_ceiling_iff)
  moreover have "\<lceil>x\<rceil> \<le> b" using assms(2) by (simp add: ceiling_le_iff)
  ultimately show ?thesis using False by (simp add: float_to_int_def)
qed

lemma to_int16_id:
  assumes "- 32768 \<le> x" "x < 32768"
  shows "to_int16 x = x"
  using assms by (simp add: to_int16_def sint_sbintrunc' signed_take_bit_int_eq_self)

lemma slew_time_pos:
  "is_positive t \<Longrightarrow> constrain_float t 0 0.5 = min t 0.5 \<and> 0 < min t (0.5::real)"
  by (auto simp: constrain_float_def is_positive_def FLT_EPSILON_def)

lemma slew_step_nonneg:
  "is_positive t \<Longrightarrow> 0 \<le> dt \<Longrightarrow> 0 \<le> dt / constrain_float t 0 (0.5::real)"
  using slew_time_pos [of t] by (simp add: divide_nonneg_pos)

lemma slew_limits_ordered:
  assumes "0 \<le> dt_s s"
  shows "0 \<le> slew_limit_dn s a \<and> slew_limit_dn s a \<le> slew_limit_up s a \<and> slew_limit_up s a \<le> 1"
proof -
  have m: "constrain_float (a - x) 0 1 \<le> constrain_float (a + y) 0 (1::real)" if "0 \<le> x" "0 \<le> y" for x y
    using that by (intro constrain_float_mono) auto
  show ?thesis
    using m [OF slew_step_nonneg slew_step_nonneg] assms
    unfolding slew_limit_up_def slew_limit_dn_def
    by (auto simp: clamp_rules)
qed

lemma slew_limit_up_rate:
  assumes "0 \<le> dt_s s" "0 \<le> a" "is_positive (slew_up_time (params s))"
  shows "slew_limit_up s a \<le> a + dt_s s / min (slew_up_time (params s)) 0.5"
  using slew_time_pos [OF assms(3)] slew_step_nonneg [OF assms(3,1)] assms
  unfolding slew_limit_up_def by (simp add: constrain_float_le_input)

lemma slew_limit_dn_rate:
  assumes "0 \<le> dt_s s" "a \<le> 1" "is_positive (slew_dn_time (params s))"
  shows "a - dt_s s / min (slew_dn_time (params s)) 0.5 \<le> slew_limit_dn s a"
proof -
  have eq: "constrain_float (slew_dn_time (params s)) 0 0.5 = min (slew_dn_time (params s)) 0.5"
    using slew_time_pos [OF assms(3)] by simp
  have d: "0 \<le> dt_s s / min (slew_dn_time (params s)) 0.5"
    using slew_step_nonneg [OF assms(3,1)] eq by simp
  show ?thesis
    unfolding slew_limit_dn_def eq using assms(2,3) d by (simp add: constrain_float_ge_input)
qed

lemma set_actuator_with_slew_within:
  "0 \<le> dt_s s \<Longrightarrow>
   slew_limit_dn s a \<le> set_actuator_with_slew s a x \<and> set_actuator_with_slew s a x \<le> slew_limit_up s a"
  using slew_limits_ordered [of s a] unfolding set_actuator_with_slew_def by (simp add: clamp_rules)

text \<open>
  C4. \<open>set_actuator_with_slew\<close> always returns a value in \<open>[0,1]\<close> (for a
  non-negative tick), and from a previous output in \<open>[0,1]\<close> a rise is at most
  \<open>dt / min(MOT_SLEW_UP_TIME, 0.5)\<close> and a fall at most
  \<open>dt / min(MOT_SLEW_DN_TIME, 0.5)\<close> when the respective slew time is set
  (specification property 3; scenario S5).
\<close>
theorem set_actuator_with_slew_rate:
  assumes "0 \<le> dt_s s" "0 \<le> a" "a \<le> 1"
  shows "0 \<le> set_actuator_with_slew s a x \<and> set_actuator_with_slew s a x \<le> 1 \<and>
    (is_positive (slew_up_time (params s)) \<longrightarrow>
       set_actuator_with_slew s a x \<le> a + dt_s s / min (slew_up_time (params s)) 0.5) \<and>
    (is_positive (slew_dn_time (params s)) \<longrightarrow>
       a - dt_s s / min (slew_dn_time (params s)) 0.5 \<le> set_actuator_with_slew s a x)"
  using set_actuator_with_slew_within [OF assms(1), of a x] slew_limits_ordered [OF assms(1), of a]
    slew_limit_up_rate [OF assms(1,2)] slew_limit_dn_rate [OF assms(1,3)]
  by fastforce

theorem set_actuator_with_slew_rate_witness:
  "set_actuator_with_slew slew_witness_state 0.2 0.9 = 0.3 \<and>
   set_actuator_with_slew slew_witness_state 0.2 0.9
     \<le> 0.2 + dt_s slew_witness_state / min (slew_up_time (params slew_witness_state)) 0.5"
proof -
  have e: "set_actuator_with_slew slew_witness_state 0.2 0.9 = 0.3"
    by (simp add: set_actuator_with_slew_def slew_limit_up_def slew_limit_dn_def slew_witness_state_def
        motors_init_def default_params_def is_positive_def FLT_EPSILON_def constrain_float_def)
  have p: "is_positive (slew_up_time (params slew_witness_state))"
    by (simp add: slew_witness_state_def is_positive_def FLT_EPSILON_def)
  have "0 \<le> dt_s slew_witness_state"
    by (simp add: slew_witness_state_def motors_init_def)
  then show ?thesis using set_actuator_with_slew_rate [of slew_witness_state "0.2" "0.9"] e p by simp
qed


lemma pwm_interp_bounds:
  fixes a :: real
  assumes "lo \<le> hi" "0 \<le> a" "a \<le> 1"
  shows "of_int lo \<le> of_int lo + of_int (hi - lo) * a \<and> of_int lo + of_int (hi - lo) * a \<le> (of_int hi :: real)"
proof -
  have n: "0 \<le> (of_int (hi - lo) :: real)" using assms(1) by simp
  have "of_int (hi - lo) * a \<le> (of_int (hi - lo) :: real)"
    using n assms(3) by (simp add: mult_left_le)
  moreover have "0 \<le> of_int (hi - lo) * a" using n assms(2) by simp
  ultimately show ?thesis by simp
qed

text \<open>
  C5. For an actuator value in \<open>[0,1]\<close> and \<open>PWM_MIN \<le> PWM_MAX\<close>,
  \<open>output_to_pwm\<close> returns 0 exactly in the safe-disarm case (shut down,
  \<open>MOT_SAFE_DISARM\<close> set, disarmed) and otherwise a value in
  \<open>[PWM_MIN, PWM_MAX]\<close> (specification property 4).
\<close>
theorem output_to_pwm_range:
  assumes "pwm_min (params s) \<le> pwm_max (params s)" "0 \<le> a" "a \<le> 1"
  shows "(spool_state s = SHUT_DOWN \<and> disarm_disable_pwm (params s) \<and> \<not> armed s \<longrightarrow> output_to_pwm s a = 0) \<and>
         (\<not> (spool_state s = SHUT_DOWN \<and> disarm_disable_pwm (params s) \<and> \<not> armed s) \<longrightarrow>
            pwm_min (params s) \<le> output_to_pwm s a \<and> output_to_pwm s a \<le> pwm_max (params s))"
proof -
  have b: "pwm_min (params s) \<le> float_to_int (of_int (pwm_min (params s)) + of_int (pwm_max (params s) - pwm_min (params s)) * a)
         \<and> float_to_int (of_int (pwm_min (params s)) + of_int (pwm_max (params s) - pwm_min (params s)) * a) \<le> pwm_max (params s)"
    using pwm_interp_bounds [OF assms] by (intro float_to_int_bounds) auto
  show ?thesis
    using b assms(1)
    by (auto simp: output_to_pwm_def get_pwm_output_min_def get_pwm_output_max_def float_to_int_def)
qed

theorem output_to_pwm_range_witness:
  "output_to_pwm pwm_witness_state 0.5 = 1500 \<and>
   pwm_min (params pwm_witness_state) \<le> output_to_pwm pwm_witness_state 0.5"
proof -
  have e: "output_to_pwm pwm_witness_state 0.5 = 1500"
    by (simp add: output_to_pwm_def pwm_witness_state_def motors_init_def default_params_def
        get_pwm_output_min_def get_pwm_output_max_def float_to_int_def)
  have h: "pwm_min (params pwm_witness_state) \<le> pwm_max (params pwm_witness_state)"
    by (simp add: pwm_witness_state_def motors_init_def default_params_def)
  have n: "\<not> (spool_state pwm_witness_state = SHUT_DOWN \<and> disarm_disable_pwm (params pwm_witness_state)
      \<and> \<not> armed pwm_witness_state)"
    by (simp add: pwm_witness_state_def)
  show ?thesis using output_to_pwm_range [OF h, of "0.5"] n e by simp
qed

text \<open>
  C6. ESC calibration pass-through, when armed, writes one and the same PWM value,
  within \<open>[PWM_MIN, PWM_MAX]\<close>, to every enabled motor in motor order and then
  to the bicopter right and left throttle channels, and changes nothing else.
\<close>
theorem esc_calibration_outputs:
  assumes "armed s" "pwm_min (params s) \<le> pwm_max (params s)"
  shows "\<exists>p. pwm_min (params s) \<le> p \<and> p \<le> pwm_max (params s) \<and>
    set_throttle_passthrough_for_esc_calibration t s =
      s\<lparr>outputs := outputs s @ [Rc_write i p. i \<leftarrow> [0..<AP_MOTORS_MAX_NUM_MOTORS], motor_enabled s i]
          @ [Set_output_pwm K_throttleRight p, Set_output_pwm K_throttleLeft p]\<rparr>"
proof -
  let ?p = "float_to_int (of_int (get_pwm_output_min s)
      + constrain_float t 0 1 * of_int (get_pwm_output_max s - get_pwm_output_min s))"
  have c: "0 \<le> constrain_float t 0 1 \<and> constrain_float t 0 1 \<le> (1::real)"
    by (simp add: clamp_rules)
  have "pwm_min (params s) \<le> ?p \<and> ?p \<le> pwm_max (params s)"
    using pwm_interp_bounds [OF assms(2), of "constrain_float t 0 1"] c
    by (intro float_to_int_bounds) (auto simp: get_pwm_output_min_def get_pwm_output_max_def mult.commute)
  then show ?thesis
    using assms(1) by (auto simp: set_throttle_passthrough_for_esc_calibration_def Let_def)
qed

theorem esc_calibration_outputs_witness:
  "armed esc_witness_state \<and>
   (\<exists>p. 1000 \<le> p \<and> p \<le> 2000 \<and>
     set_throttle_passthrough_for_esc_calibration 0.5 esc_witness_state =
       esc_witness_state\<lparr>outputs := outputs esc_witness_state
         @ [Rc_write i p. i \<leftarrow> [0..<AP_MOTORS_MAX_NUM_MOTORS], motor_enabled esc_witness_state i]
         @ [Set_output_pwm K_throttleRight p, Set_output_pwm K_throttleLeft p]\<rparr>)"
proof -
  have a: "armed esc_witness_state" by (simp add: esc_witness_state_def)
  have h: "pwm_min (params esc_witness_state) \<le> pwm_max (params esc_witness_state)"
    by (simp add: esc_witness_state_def motors_init_def default_params_def)
  have v: "pwm_min (params esc_witness_state) = 1000" "pwm_max (params esc_witness_state) = 2000"
    by (simp_all add: esc_witness_state_def motors_init_def default_params_def)
  show ?thesis using esc_calibration_outputs [OF a h, of "0.5"] a v by simp
qed

text \<open>
  \<open>get_raw_motor_throttle\<close> fails exactly for a motor number out of range
  or a disabled motor, and otherwise returns the actuator value clamped to
  \<open>[0,1]\<close>.
\<close>
theorem get_raw_motor_throttle_result:
  "(get_raw_motor_throttle s n = None \<longleftrightarrow> AP_MOTORS_MAX_NUM_MOTORS \<le> n \<or> \<not> motor_enabled s n) \<and>
   (get_raw_motor_throttle s n = Some v \<longrightarrow> v = constrain_float (actuator s n) 0 1 \<and> 0 \<le> v \<and> v \<le> 1)"
  by (auto simp: get_raw_motor_throttle_def clamp_rules)

theorem get_raw_motor_throttle_result_witness:
  "get_raw_motor_throttle (esc_witness_state\<lparr>actuator := (\<lambda>_. 1.5)\<rparr>) 1 = Some 1 \<and>
   get_raw_motor_throttle esc_witness_state 5 = None"
proof -
  have "get_raw_motor_throttle (esc_witness_state\<lparr>actuator := (\<lambda>_. 1.5)\<rparr>) 1 = Some 1 \<longrightarrow>
      1 = constrain_float (actuator (esc_witness_state\<lparr>actuator := (\<lambda>_. 1.5)\<rparr>) 1) 0 1 \<and> 0 \<le> (1::real) \<and> (1::real) \<le> 1"
    using get_raw_motor_throttle_result [of "esc_witness_state\<lparr>actuator := (\<lambda>_. 1.5)\<rparr>" 1 1] by blast
  moreover have "get_raw_motor_throttle esc_witness_state 5 = None"
    using get_raw_motor_throttle_result [of esc_witness_state 5 0]
    by (simp add: esc_witness_state_def AP_MOTORS_MAX_NUM_MOTORS_def)
  moreover have "get_raw_motor_throttle (esc_witness_state\<lparr>actuator := (\<lambda>_. 1.5)\<rparr>) 1 = Some 1"
    by (simp add: get_raw_motor_throttle_def esc_witness_state_def AP_MOTORS_MAX_NUM_MOTORS_def constrain_float_def)
  ultimately show ?thesis by blast
qed


lemma output_motor_mask_step_frame:
  "params (output_motor_mask_step rf t m r s i) = params s \<and>
   armed (output_motor_mask_step rf t m r s i) = armed s \<and>
   interlock (output_motor_mask_step rf t m r s i) = interlock s \<and>
   dt_s (output_motor_mask_step rf t m r s i) = dt_s s \<and>
   motor_enabled (output_motor_mask_step rf t m r s i) = motor_enabled s \<and>
   motor_mask_override (output_motor_mask_step rf t m r s i) = motor_mask_override s \<and>
   spool_state (output_motor_mask_step rf t m r s i) = spool_state s"
  by (simp add: output_motor_mask_step_def Let_def)

lemma output_motor_mask_step_actuator:
  "actuator (output_motor_mask_step rf t m r s i) j =
     (if j = i \<and> motor_enabled s i \<and> bit m i then mask_motor_actuator rf t r s i else actuator s j)"
  by (simp add: output_motor_mask_step_def Let_def)

lemma mask_motor_actuator_cong:
  assumes "armed s' = armed s" "interlock s' = interlock s" "params s' = params s" "dt_s s' = dt_s s"
    "actuator s' i = actuator s i"
  shows "mask_motor_actuator rf t r s' i = mask_motor_actuator rf t r s i"
  using assms
  by (simp add: mask_motor_actuator_def set_actuator_with_slew_def slew_limit_up_def slew_limit_dn_def)

lemma output_motor_mask_fold:
  "params (foldl (output_motor_mask_step rf t m r) s [0..<n]) = params s \<and>
   armed (foldl (output_motor_mask_step rf t m r) s [0..<n]) = armed s \<and>
   interlock (foldl (output_motor_mask_step rf t m r) s [0..<n]) = interlock s \<and>
   dt_s (foldl (output_motor_mask_step rf t m r) s [0..<n]) = dt_s s \<and>
   motor_enabled (foldl (output_motor_mask_step rf t m r) s [0..<n]) = motor_enabled s \<and>
   motor_mask_override (foldl (output_motor_mask_step rf t m r) s [0..<n]) = motor_mask_override s \<and>
   (\<forall>j. actuator (foldl (output_motor_mask_step rf t m r) s [0..<n]) j =
      (if j < n \<and> motor_enabled s j \<and> bit m j then mask_motor_actuator rf t r s j else actuator s j))"
proof (induction n)
  case 0
  then show ?case by simp
next
  case (Suc n)
  let ?f = "foldl (output_motor_mask_step rf t m r) s [0..<n]"
  have cong: "mask_motor_actuator rf t r ?f n = mask_motor_actuator rf t r s n"
    using Suc.IH by (intro mask_motor_actuator_cong) auto
  show ?case
    using Suc.IH cong output_motor_mask_step_frame [of rf t m r ?f n]
    by (auto simp: output_motor_mask_step_actuator less_Suc_eq)
qed

lemma output_motor_mask_actuator_at:
  assumes "j < AP_MOTORS_MAX_NUM_MOTORS"
  shows "actuator (output_motor_mask rf t m r s) j =
           (if motor_enabled s j \<and> bit m j then mask_motor_actuator rf t r s j else actuator s j)"
proof -
  let ?s0 = "s\<lparr>motor_mask_override := m\<rparr>"
  have c: "mask_motor_actuator rf t r ?s0 j = mask_motor_actuator rf t r s j"
    by (intro mask_motor_actuator_cong) simp_all
  show ?thesis
    using output_motor_mask_fold [of rf t m r ?s0 AP_MOTORS_MAX_NUM_MOTORS] assms c
    by (simp add: output_motor_mask_def)
qed

text \<open>
  C8. \<open>output_motor_mask\<close> changes the actuator of exactly the enabled motors
  in the mask (to the slewed thrust plus differential rudder thrust when armed and
  interlocked, to 0 otherwise), leaves every other motor's actuator as it was, and
  records the mask as overridden.
\<close>
theorem output_motor_mask_actuators:
  assumes "j < AP_MOTORS_MAX_NUM_MOTORS"
  shows "actuator (output_motor_mask rf t m r s) j =
           (if motor_enabled s j \<and> bit m j then mask_motor_actuator rf t r s j else actuator s j) \<and>
         motor_mask_override (output_motor_mask rf t m r s) = m \<and>
         (\<not> (armed s \<and> interlock s) \<and> motor_enabled s j \<and> bit m j \<longrightarrow>
            actuator (output_motor_mask rf t m r s) j = 0)"
  using output_motor_mask_actuator_at [OF assms, of rf t m r s] output_motor_mask_fold [of rf t m r _ AP_MOTORS_MAX_NUM_MOTORS]
  by (auto simp: output_motor_mask_def mask_motor_actuator_def)

theorem output_motor_mask_actuators_witness:
  "actuator (output_motor_mask (\<lambda>_. 0) 0.5 5 0 esc_witness_state) 0 = 0 \<and>
   actuator (output_motor_mask (\<lambda>_. 0) 0.5 5 0 esc_witness_state) 1 = 0 \<and>
   motor_mask_override (output_motor_mask (\<lambda>_. 0) 0.5 5 0 esc_witness_state) = 5"
proof -
  have j: "0 < AP_MOTORS_MAX_NUM_MOTORS" "1 < AP_MOTORS_MAX_NUM_MOTORS"
    by (simp_all add: AP_MOTORS_MAX_NUM_MOTORS_def)
  have "\<not> (armed esc_witness_state \<and> interlock esc_witness_state)"
    by (simp add: esc_witness_state_def motors_init_def)
  moreover have "motor_enabled esc_witness_state 0" "\<not> bit (5 :: 32 word) 1"
    by (simp_all add: esc_witness_state_def)
  moreover have "actuator esc_witness_state 1 = 0"
    by (simp add: esc_witness_state_def motors_init_def)
  moreover have "bit (5 :: 32 word) 0" by simp
  ultimately show ?thesis
    using output_motor_mask_actuators [OF j(1), of "\<lambda>_. 0" "0.5" 5 0 esc_witness_state]
      output_motor_mask_actuators [OF j(2), of "\<lambda>_. 0" "0.5" 5 0 esc_witness_state]
    by simp
qed

subsection \<open>The loops with machine-word counters\<close>

lemma output_motor_mask_loop_foldl:
  "output_motor_mask_loop rf t m r i s = foldl (output_motor_mask_step rf t m r) s [unat i..<AP_MOTORS_MAX_NUM_MOTORS]"
proof (induction rf t m r i s rule: output_motor_mask_loop.induct)
  case (1 rf t m r i s)
  show ?case
  proof (cases "unat i < AP_MOTORS_MAX_NUM_MOTORS")
    case True
    then have "unat (i + 1) = Suc (unat i)"
      by (rule unat_inc_below) (simp add: AP_MOTORS_MAX_NUM_MOTORS_def)
    then show ?thesis
      using 1 True by (simp add: output_motor_mask_loop.simps [of rf t m r i] upt_conv_Cons)
  next
    case False
    then show ?thesis by (simp add: output_motor_mask_loop.simps [of rf t m r i])
  qed
qed

lemma esc_calibration_rc_loop_filter:
  "esc_calibration_rc_loop p en i acc = acc @ [Rc_write j p. j \<leftarrow> [unat i..<AP_MOTORS_MAX_NUM_MOTORS], en j]"
proof (induction p en i acc rule: esc_calibration_rc_loop.induct)
  case (1 p en i acc)
  show ?case
  proof (cases "unat i < AP_MOTORS_MAX_NUM_MOTORS")
    case True
    then have "unat (i + 1) = Suc (unat i)"
      by (rule unat_inc_below) (simp add: AP_MOTORS_MAX_NUM_MOTORS_def)
    then show ?thesis
      using 1 True by (simp add: esc_calibration_rc_loop.simps [of p en i] upt_conv_Cons)
  next
    case False
    then show ?thesis by (simp add: esc_calibration_rc_loop.simps [of p en i])
  qed
qed



subsection \<open>The slew limiter against the specification\<close>

text \<open>
  C38. The code's slew limiter is the specification's (section 4.5) for an
  actuator within [0, 1] and a non-negative loop period, as long as each slew time
  is either not positive or at least \<open>FLT_EPSILON\<close>: the code tests
  \<open>is_positive\<close> where the specification says \<open>> 0\<close>, and clamps the bounds
  to [0, 1] on both sides where the specification caps one side.
\<close>

theorem set_actuator_with_slew_matches_spec:
  assumes "0 \<le> dt_s s" "0 \<le> a" "a \<le> 1"
    and "slew_up_time (params s) \<le> 0 \<or> FLT_EPSILON \<le> slew_up_time (params s)"
    and "slew_dn_time (params s) \<le> 0 \<or> FLT_EPSILON \<le> slew_dn_time (params s)"
  shows "set_actuator_with_slew s a x = slew_reference s a x"
proof -
  have eps: "0 < FLT_EPSILON" by simp
  have up: "slew_limit_up s a = (if slew_up_time (params s) > 0
               then min 1 (a + dt_s s / constrain_float (slew_up_time (params s)) 0 0.5) else 1)"
  proof (cases "slew_up_time (params s) > 0")
    case True
    then have "FLT_EPSILON \<le> slew_up_time (params s)" using assms(4) by linarith
    moreover have "0 \<le> dt_s s / constrain_float (slew_up_time (params s)) 0 0.5"
      using assms(1) by (simp add: constrain_float_def)
    ultimately show ?thesis
      using True assms(2) by (simp add: slew_limit_up_def is_positive_def constrain_float_def)
  next
    case False
    then have "\<not> FLT_EPSILON \<le> slew_up_time (params s)" using eps by linarith
    then show ?thesis using False by (simp add: slew_limit_up_def is_positive_def)
  qed
  have dn: "slew_limit_dn s a = (if slew_dn_time (params s) > 0
               then max 0 (a - dt_s s / constrain_float (slew_dn_time (params s)) 0 0.5) else 0)"
  proof (cases "slew_dn_time (params s) > 0")
    case True
    then have "FLT_EPSILON \<le> slew_dn_time (params s)" using assms(5) by linarith
    moreover have "0 \<le> dt_s s / constrain_float (slew_dn_time (params s)) 0 0.5"
      using assms(1) by (simp add: constrain_float_def)
    ultimately show ?thesis
      using True assms(3) by (simp add: slew_limit_dn_def is_positive_def constrain_float_def)
  next
    case False
    then have "\<not> FLT_EPSILON \<le> slew_dn_time (params s)" using eps by linarith
    then show ?thesis using False by (simp add: slew_limit_dn_def is_positive_def)
  qed
  show ?thesis by (simp add: set_actuator_with_slew_def slew_reference_def up dn)
qed

theorem set_actuator_with_slew_matches_spec_witness:
  "set_actuator_with_slew slew_witness_state 0.2 0.9 = slew_reference slew_witness_state 0.2 0.9 \<and>
   slew_reference slew_witness_state 0.2 0.9 = 0.3"
proof -
  have h: "0 \<le> dt_s slew_witness_state" "(0::real) \<le> 0.2" "(0.2::real) \<le> 1"
    "slew_up_time (params slew_witness_state) \<le> 0 \<or> FLT_EPSILON \<le> slew_up_time (params slew_witness_state)"
    "slew_dn_time (params slew_witness_state) \<le> 0 \<or> FLT_EPSILON \<le> slew_dn_time (params slew_witness_state)"
    by (simp_all add: slew_witness_state_def motors_init_def default_params_def FLT_EPSILON_def)
  show ?thesis
    using set_actuator_with_slew_matches_spec [OF h, of "0.9"]
    by (simp add: slew_reference_def slew_witness_state_def motors_init_def default_params_def
        constrain_float_def Let_def)
qed

subsection \<open>Masked motors while the spool state is shut down\<close>

text \<open>
  C40. \<open>output_motor_mask\<close> drives the masked motors whenever the vehicle is
  armed and interlocked, whatever the spool state: with no slew limit set, every
  enabled motor in the mask gets its thrust plus differential rudder thrust,
  clamped to [0, 1], at once, also in \<open>SHUT_DOWN\<close> (just after arming,
  before the safety timer has run out; in the witness a thrust of 0.5 reaches
  motor 0 as actuator 0.5 and PWM 1500), whereas the specification says the
  motors get an immediate zero in \<open>SHUT_DOWN\<close>.
\<close>

theorem output_motor_mask_in_shut_down:
  assumes "armed s" "interlock s" "\<not> is_positive (slew_up_time (params s))"
    "\<not> is_positive (slew_dn_time (params s))"
    "j < AP_MOTORS_MAX_NUM_MOTORS" "motor_enabled s j" "bit m j"
  shows "actuator (output_motor_mask rf t m r s) j = constrain_float (t + rf j * r * 0.5) 0 1"
  using output_motor_mask_actuator_at [OF assms(5), of rf t m r s] assms(1-4,6,7)
  by (simp add: mask_motor_actuator_def set_actuator_with_slew_def slew_limit_up_def slew_limit_dn_def)

theorem output_motor_mask_in_shut_down_witness:
  "spool_state ((motors_init 400)\<lparr>armed := True, interlock := True, motor_enabled := (\<lambda>i. i = 0)\<rparr>) = SHUT_DOWN \<and>
   actuator (output_motor_mask (\<lambda>_. 0) 0.5 1 0
     ((motors_init 400)\<lparr>armed := True, interlock := True, motor_enabled := (\<lambda>i. i = 0)\<rparr>)) 0 = 0.5 \<and>
   outputs (output_motor_mask (\<lambda>_. 0) 0.5 1 0
     ((motors_init 400)\<lparr>armed := True, interlock := True, motor_enabled := (\<lambda>i. i = 0)\<rparr>)) = [Rc_write 0 1500]"
proof -
  define s0 where "s0 = (motors_init 400)\<lparr>armed := True, interlock := True, motor_enabled := (\<lambda>i. i = 0)\<rparr>"
  have h: "armed s0" "interlock s0" "\<not> is_positive (slew_up_time (params s0))"
    "\<not> is_positive (slew_dn_time (params s0))" "0 < AP_MOTORS_MAX_NUM_MOTORS" "motor_enabled s0 0"
    "bit (1 :: 32 word) 0"
    by (simp_all add: s0_def motors_init_def default_params_def is_positive_def AP_MOTORS_MAX_NUM_MOTORS_def FLT_EPSILON_def)
  have a: "actuator (output_motor_mask (\<lambda>_. 0) 0.5 1 0 s0) 0 = 0.5"
    using output_motor_mask_in_shut_down [OF h, of "\<lambda>_. 0" "0.5" 0] by (simp add: constrain_float_def)
  have o: "outputs (output_motor_mask (\<lambda>_. 0) 0.5 1 0 s0) = [Rc_write 0 1500]"
    by (simp add: s0_def output_motor_mask_def AP_MOTORS_MAX_NUM_MOTORS_def upt_rec output_motor_mask_step_def
      mask_motor_actuator_def set_actuator_with_slew_def slew_limit_up_def slew_limit_dn_def is_positive_def
      motors_init_def default_params_def constrain_float_def to_int16_def float_to_int_def get_pwm_output_min_def
      get_pwm_output_max_def FLT_EPSILON_def Let_def)
  have "spool_state s0 = SHUT_DOWN" by (simp add: s0_def motors_init_def)
  then show ?thesis using a o unfolding s0_def by simp
qed

end
