(* ===== verification/Arming_Checks.thy ===== *)
theory Arming_Checks
  imports Motors_State
begin

text \<open>
  Pre-arm checks and PWM-range parameter handling of \<open>AP_MotorsMulticopter\<close>:
  \<open>check_mot_pwm_params\<close>, \<open>arming_checks\<close> (its failures as values of
  \<open>arming_error\<close>, \<open>Inl\<close> of the result, and \<open>arming_message\<close> the text the
  source prints into the caller's buffer, with the \<open>MOT_\<close> prefix of a copter
  build), \<open>update_throttle_range\<close> and \<open>convert_pwm_min_max_param\<close>. The
  base class's own checks (\<open>AP_Motors::arming_checks\<close>), the servo-channel
  lookup \<open>SRV_Channels::find_channel(get_motor_function(i))\<close> and
  \<open>SRV_Channels::have_digital_outputs\<close> are parameters of the model.
\<close>

datatype arming_error =
    Base_checks_failed
  | No_motor_function nat
  | Spin_min_too_high float
  | Spin_arm_above_spin_min
  | Pwm_params_invalid

definition check_mot_pwm_params :: "motors_state \<Rightarrow> bool" where
  "check_mot_pwm_params s \<longleftrightarrow> \<not> (pwm_min (params s) < 1 \<or> pwm_min (params s) \<ge> pwm_max (params s))"

definition arming_checks :: "bool \<Rightarrow> (nat \<Rightarrow> bool) \<Rightarrow> motors_state \<Rightarrow> arming_error + unit" where
  "arming_checks base_ok motor_has_channel s =
     (if \<not> base_ok then Inl Base_checks_failed
      else case find (\<lambda>i. motor_enabled s i \<and> \<not> motor_has_channel i) [0..<AP_MOTORS_MAX_NUM_MOTORS] of
        Some i \<Rightarrow> Inl (No_motor_function i)
      | None \<Rightarrow>
          if spin_min (thr_lin s) > 0.3 then Inl (Spin_min_too_high (spin_min (thr_lin s)))
          else if spin_arm (params s) > spin_min (thr_lin s) then Inl Spin_arm_above_spin_min
          else if \<not> check_mot_pwm_params s then Inl Pwm_params_invalid
          else Inr ())"

definition arming_message :: "arming_error \<Rightarrow> string" where
  "arming_message e = (case e of
      Base_checks_failed \<Rightarrow> ''''
    | No_motor_function i \<Rightarrow> ''no SERVOx_FUNCTION set to Motor''
    | Spin_min_too_high v \<Rightarrow> ''MOT_SPIN_MIN too high''
    | Spin_arm_above_spin_min \<Rightarrow> ''MOT_SPIN_ARM > MOT_SPIN_MIN''
    | Pwm_params_invalid \<Rightarrow> ''Check MOT_PWM_MIN and MOT_PWM_MAX'')"

definition update_throttle_range :: "bool \<Rightarrow> motors_state \<Rightarrow> motors_state" where
  "update_throttle_range have_digital_outputs s =
     (let s1 = (if have_digital_outputs \<or> pwm_type (params s) = PWM_RANGE \<or> pwm_type (params s) = PWM_ANGLE
                then s\<lparr>params := (params s)\<lparr>pwm_min := 1000, pwm_max := 2000\<rparr>\<rparr> else s)
      in emit (Set_esc_scaling (get_pwm_output_min s1) (get_pwm_output_max s1)) s1)"

definition convert_pwm_min_max_param :: "int \<Rightarrow> int \<Rightarrow> motors_state \<Rightarrow> motors_state" where
  "convert_pwm_min_max_param radio_min radio_max s =
     (if pwm_min_configured (params s) \<or> pwm_max_configured (params s) then s
      else emit (Save_param_pwm radio_min radio_max)
             (s\<lparr>params := (params s)\<lparr>pwm_min := radio_min, pwm_max := radio_max,
                   pwm_min_configured := True, pwm_max_configured := True\<rparr>\<rparr>))"

definition spin_arm_witness_state :: motors_state where
  "spin_arm_witness_state = (motors_init 400)\<lparr>params := default_params\<lparr>spin_arm := 0.2\<rparr>\<rparr>"

lemma find_motor_None:
  "find (\<lambda>i. motor_enabled s i \<and> \<not> h i) [0..<n] = None \<longleftrightarrow> (\<forall>i < n. motor_enabled s i \<longrightarrow> h i)"
  by (auto simp: find_None_iff)

lemma find_motor_Some:
  "find (\<lambda>i. motor_enabled s i \<and> \<not> h i) [0..<n] = Some j \<Longrightarrow> \<exists>i < n. motor_enabled s i \<and> \<not> h i"
  using find_motor_None [of s h n] by auto

text \<open>
  C14. \<open>arming_checks\<close> passes exactly when the base-class checks pass, every
  enabled motor has an output channel, \<open>MOT_SPIN_MIN \<le> 0.3\<close>,
  \<open>MOT_SPIN_ARM \<le> MOT_SPIN_MIN\<close> and \<open>1 \<le> MOT_PWM_MIN < MOT_PWM_MAX\<close>
  (specification property 5 and its converse).
\<close>
theorem arming_checks_pass_iff:
  "arming_checks base_ok h s = Inr () \<longleftrightarrow>
     base_ok \<and> (\<forall>i < AP_MOTORS_MAX_NUM_MOTORS. motor_enabled s i \<longrightarrow> h i) \<and>
     spin_min (thr_lin s) \<le> 0.3 \<and> spin_arm (params s) \<le> spin_min (thr_lin s) \<and>
     1 \<le> pwm_min (params s) \<and> pwm_min (params s) < pwm_max (params s)"
  by (auto simp: arming_checks_def check_mot_pwm_params_def find_motor_None not_less
      split: option.splits dest: find_motor_Some)

theorem arming_checks_pass_iff_witness:
  "arming_checks True (\<lambda>_. True) (motors_init 400) = Inr ()"
proof -
  have "spin_min (thr_lin (motors_init 400)) \<le> 0.3 \<and>
      spin_arm (params (motors_init 400)) \<le> spin_min (thr_lin (motors_init 400)) \<and>
      1 \<le> pwm_min (params (motors_init 400)) \<and> pwm_min (params (motors_init 400)) < pwm_max (params (motors_init 400))"
    by (simp add: motors_init_def default_params_def default_thr_lin_def)
  then show ?thesis using arming_checks_pass_iff [of True "\<lambda>_. True" "motors_init 400"] by simp
qed

text \<open>
  Scenario S6: with \<open>MOT_SPIN_ARM = 0.2\<close> above \<open>MOT_SPIN_MIN = 0.15\<close>
  (other parameters at their defaults) the arming checks fail with the
  \<open>SPIN_ARM > SPIN_MIN\<close> error and its message.
\<close>
theorem arming_checks_spin_arm_above_spin_min:
  "arming_checks True (\<lambda>_. True) spin_arm_witness_state = Inl Spin_arm_above_spin_min \<and>
   arming_message Spin_arm_above_spin_min = ''MOT_SPIN_ARM > MOT_SPIN_MIN''"
proof -
  have "find (\<lambda>i. motor_enabled spin_arm_witness_state i \<and> \<not> True) [0..<AP_MOTORS_MAX_NUM_MOTORS] = None"
    by (simp add: find_None_iff)
  then show ?thesis
    by (simp add: arming_checks_def spin_arm_witness_state_def motors_init_def default_thr_lin_def
        default_params_def arming_message_def)
qed

text \<open>
  C16. \<open>update_throttle_range\<close> forces the PWM range to 1000..2000 for digital
  outputs and the PWM_RANGE/PWM_ANGLE output types (a range that passes
  \<open>check_mot_pwm_params\<close>), keeps the parameters otherwise, and always sends the
  resulting range to the ESC scaling as its last output.
\<close>
theorem update_throttle_range_digital:
  "outputs (update_throttle_range dig s) =
     outputs s @ [Set_esc_scaling (pwm_min (params (update_throttle_range dig s)))
                                  (pwm_max (params (update_throttle_range dig s)))] \<and>
   (dig \<or> pwm_type (params s) = PWM_RANGE \<or> pwm_type (params s) = PWM_ANGLE \<longrightarrow>
      pwm_min (params (update_throttle_range dig s)) = 1000 \<and>
      pwm_max (params (update_throttle_range dig s)) = 2000 \<and>
      check_mot_pwm_params (update_throttle_range dig s)) \<and>
   (\<not> (dig \<or> pwm_type (params s) = PWM_RANGE \<or> pwm_type (params s) = PWM_ANGLE) \<longrightarrow>
      params (update_throttle_range dig s) = params s)"
  by (simp add: update_throttle_range_def emit_def Let_def get_pwm_output_min_def get_pwm_output_max_def
      check_mot_pwm_params_def)

theorem update_throttle_range_digital_witness:
  "check_mot_pwm_params (update_throttle_range True ((motors_init 400)\<lparr>params := default_params\<lparr>pwm_min := 0\<rparr>\<rparr>))"
  using update_throttle_range_digital [of True "(motors_init 400)\<lparr>params := default_params\<lparr>pwm_min := 0\<rparr>\<rparr>"]
  by simp

text \<open>
  C17. \<open>convert_pwm_min_max_param\<close> converts the radio range only when neither
  PWM parameter is configured, saving both, and a second call changes nothing.
\<close>
theorem convert_pwm_min_max_param_once:
  "convert_pwm_min_max_param a b (convert_pwm_min_max_param a b s) = convert_pwm_min_max_param a b s \<and>
   (\<not> pwm_min_configured (params s) \<and> \<not> pwm_max_configured (params s) \<longrightarrow>
      pwm_min (params (convert_pwm_min_max_param a b s)) = a \<and>
      pwm_max (params (convert_pwm_min_max_param a b s)) = b \<and>
      outputs (convert_pwm_min_max_param a b s) = outputs s @ [Save_param_pwm a b]) \<and>
   (pwm_min_configured (params s) \<or> pwm_max_configured (params s) \<longrightarrow>
      convert_pwm_min_max_param a b s = s)"
  by (simp add: convert_pwm_min_max_param_def emit_def)

theorem convert_pwm_min_max_param_once_witness:
  "pwm_min (params (convert_pwm_min_max_param 1100 1900 (motors_init 400))) = 1100 \<and>
   outputs (convert_pwm_min_max_param 1100 1900 (motors_init 400)) = [Save_param_pwm 1100 1900]"
proof -
  have "\<not> pwm_min_configured (params (motors_init 400)) \<and> \<not> pwm_max_configured (params (motors_init 400))"
    "outputs (motors_init 400) = []"
    by (simp_all add: motors_init_def default_params_def)
  then show ?thesis using convert_pwm_min_max_param_once [of 1100 1900 "motors_init 400"] by simp
qed

end
