(* ===== verification/Param_Table.thy ===== *)
theory Param_Table
  imports Motors_State
begin

text \<open>
  The parameter table \<open>AP_MotorsMulticopter::var_info\<close>: one \<open>group_info\<close>
  entry per \<open>AP_GROUPINFO\<close> line, with its name (without the build's prefix),
  its group index, the member it stores, its default and the documented range or
  values of its \<open>@Range\<close>, \<open>@Values\<close> or \<open>@Bitmask\<close> comment; the
  store of a float into a member (\<open>param_set\<close>) and the constructor's
  \<open>AP_Param::setup_object_defaults(this, var_info)\<close>. The lemmas show the table
  well formed for \<open>AP_Param\<close>, reading and writing a member round-trip, the
  defaults it declares lie in their documented ranges but for two, and loading it
  yields the constructor state \<open>default_params\<close>, \<open>default_thr_lin\<close>.
\<close>

datatype param_field = F_yaw_headroom | F_curve_expo | F_spin_max | F_batt_voltage_max
  | F_batt_voltage_min | F_batt_current_max | F_pwm_type | F_pwm_min | F_pwm_max | F_spin_min
  | F_spin_arm | F_batt_current_time_constant | F_throttle_hover | F_throttle_hover_learn
  | F_disarm_disable_pwm | F_yaw_servo_angle_max_deg | F_spool_up_time | F_boost_scale
  | F_batt_idx | F_slew_up_time | F_slew_dn_time | F_safe_time | F_options | F_spool_down_time

datatype param_frame = ALL_FRAMES | FRAME_TRICOPTER

datatype param_doc = Doc_range float float | Doc_values "float list" | Doc_bitmask nat | Doc_none

record group_info =
  gi_name :: string
  gi_idx :: nat
  gi_field :: param_field
  gi_default :: float
  gi_frame :: param_frame
  gi_doc :: param_doc

definition AP_MOTORS_PARAM_PREFIX :: "bool \<Rightarrow> string" where
  "AP_MOTORS_PARAM_PREFIX is_plane = (if is_plane then ''Q_M_'' else ''MOT_'')"

definition AP_MAX_NAME_SIZE :: nat where
  "AP_MAX_NAME_SIZE = 16"

definition AP_GROUPINFO :: "string \<Rightarrow> nat \<Rightarrow> param_field \<Rightarrow> float \<Rightarrow> param_doc \<Rightarrow> group_info" where
  "AP_GROUPINFO n i f d doc = \<lparr>gi_name = n, gi_idx = i, gi_field = f, gi_default = d,
     gi_frame = ALL_FRAMES, gi_doc = doc\<rparr>"

definition AP_GROUPINFO_FRAME ::
  "string \<Rightarrow> nat \<Rightarrow> param_field \<Rightarrow> float \<Rightarrow> param_frame \<Rightarrow> param_doc \<Rightarrow> group_info" where
  "AP_GROUPINFO_FRAME n i f d fr doc = \<lparr>gi_name = n, gi_idx = i, gi_field = f, gi_default = d,
     gi_frame = fr, gi_doc = doc\<rparr>"

text \<open>Indices once used by parameters since removed (comments in the table).\<close>

definition var_info_retired :: "nat list" where
  "var_info_retired = [0, 1, 2, 3, 5, 7, 13, 14, 38]"

definition var_info_head :: "group_info list" where
  "var_info_head = [
     AP_GROUPINFO ''YAW_HEADROOM'' 6 F_yaw_headroom 200 (Doc_range 0 500),
     AP_GROUPINFO ''THST_EXPO'' 8 F_curve_expo 0.65 (Doc_range (-1) 1),
     AP_GROUPINFO ''SPIN_MAX'' 9 F_spin_max 0.95 (Doc_values [0.9, 0.95, 1]),
     AP_GROUPINFO ''BAT_VOLT_MAX'' 10 F_batt_voltage_max 0 (Doc_range 6 53),
     AP_GROUPINFO ''BAT_VOLT_MIN'' 11 F_batt_voltage_min 0 (Doc_range 6 42),
     AP_GROUPINFO ''BAT_CURR_MAX'' 12 F_batt_current_max 0 (Doc_range 0 200),
     AP_GROUPINFO ''PWM_TYPE'' 15 F_pwm_type 0 (Doc_values [0, 1, 2, 3, 4, 5, 6, 7, 8, 9]),
     AP_GROUPINFO ''PWM_MIN'' 16 F_pwm_min 1000 (Doc_range 0 2000),
     AP_GROUPINFO ''PWM_MAX'' 17 F_pwm_max 2000 (Doc_range 0 2000),
     AP_GROUPINFO ''SPIN_MIN'' 18 F_spin_min 0.15 (Doc_values [0, 0.15, 0.25]),
     AP_GROUPINFO ''SPIN_ARM'' 19 F_spin_arm 0.1 (Doc_values [0, 0.1, 0.2]),
     AP_GROUPINFO ''BAT_CURR_TC'' 20 F_batt_current_time_constant 5 (Doc_range 0 10),
     AP_GROUPINFO ''THST_HOVER'' 21 F_throttle_hover 0.35 (Doc_range 0.125 0.6875),
     AP_GROUPINFO ''HOVER_LEARN'' 22 F_throttle_hover_learn 2 (Doc_values [0, 1, 2]),
     AP_GROUPINFO ''SAFE_DISARM'' 23 F_disarm_disable_pwm 0 (Doc_values [0, 1]),
     AP_GROUPINFO_FRAME ''YAW_SV_ANGLE'' 35 F_yaw_servo_angle_max_deg 30 FRAME_TRICOPTER
       (Doc_range 5 80)]"

definition var_info_tail :: "group_info list" where
  "var_info_tail = [
     AP_GROUPINFO ''SPOOL_TIME'' 36 F_spool_up_time 0.5 (Doc_range 0.05 2),
     AP_GROUPINFO ''BOOST_SCALE'' 37 F_boost_scale 0 (Doc_range 0 5),
     AP_GROUPINFO ''BAT_IDX'' 39 F_batt_idx 0 (Doc_values [0, 1]),
     AP_GROUPINFO ''SLEW_UP_TIME'' 40 F_slew_up_time 0 (Doc_range 0 0.5),
     AP_GROUPINFO ''SLEW_DN_TIME'' 41 F_slew_dn_time 0 (Doc_range 0 0.5),
     AP_GROUPINFO ''SAFE_TIME'' 42 F_safe_time 1 (Doc_range 0 5),
     AP_GROUPINFO ''OPTIONS'' 43 F_options 0 (Doc_bitmask 1),
     AP_GROUPINFO ''SPOOL_TIM_DN'' 44 F_spool_down_time 0 (Doc_range 0 2)]"

definition var_info :: "group_info list" where
  "var_info = var_info_head @ var_info_tail"

text \<open>
  The value a parameter holds, as the float \<open>AP_Param\<close> stores: enumerations
  by their numbers in the \<open>@Values\<close> lists, flags as 0 or 1.
\<close>

primrec pwm_type_num :: "pwm_type \<Rightarrow> float" where
  "pwm_type_num NORMAL = 0" | "pwm_type_num ONESHOT = 1" | "pwm_type_num ONESHOT125 = 2"
| "pwm_type_num BRUSHED = 3" | "pwm_type_num DSHOT150 = 4" | "pwm_type_num DSHOT300 = 5"
| "pwm_type_num DSHOT600 = 6" | "pwm_type_num DSHOT1200 = 7" | "pwm_type_num PWM_RANGE = 8"
| "pwm_type_num PWM_ANGLE = 9"

primrec hover_learn_num :: "hover_learn \<Rightarrow> float" where
  "hover_learn_num HOVER_LEARN_DISABLED = 0" | "hover_learn_num HOVER_LEARN_ONLY = 1"
| "hover_learn_num HOVER_LEARN_AND_SAVE = 2"

primrec param_value :: "motor_params \<Rightarrow> thr_lin_params \<Rightarrow> param_field \<Rightarrow> float" where
  "param_value p t F_yaw_headroom = of_int (yaw_headroom p)"
| "param_value p t F_curve_expo = curve_expo t"
| "param_value p t F_spin_max = spin_max t"
| "param_value p t F_batt_voltage_max = batt_voltage_max t"
| "param_value p t F_batt_voltage_min = batt_voltage_min t"
| "param_value p t F_batt_current_max = batt_current_max p"
| "param_value p t F_pwm_type = pwm_type_num (pwm_type p)"
| "param_value p t F_pwm_min = of_int (pwm_min p)"
| "param_value p t F_pwm_max = of_int (pwm_max p)"
| "param_value p t F_spin_min = spin_min t"
| "param_value p t F_spin_arm = spin_arm p"
| "param_value p t F_batt_current_time_constant = batt_current_time_constant p"
| "param_value p t F_throttle_hover = throttle_hover p"
| "param_value p t F_throttle_hover_learn = hover_learn_num (throttle_hover_learn p)"
| "param_value p t F_disarm_disable_pwm = (if disarm_disable_pwm p then 1 else 0)"
| "param_value p t F_yaw_servo_angle_max_deg = of_int (yaw_servo_angle_max_deg p)"
| "param_value p t F_spool_up_time = spool_up_time p"
| "param_value p t F_boost_scale = boost_scale p"
| "param_value p t F_batt_idx = of_nat (batt_idx t)"
| "param_value p t F_slew_up_time = slew_up_time p"
| "param_value p t F_slew_dn_time = slew_dn_time p"
| "param_value p t F_safe_time = safe_time p"
| "param_value p t F_options = of_int (options p)"
| "param_value p t F_spool_down_time = spool_down_time p"

text \<open>
  Storing a float into a member, as \<open>AP_Param\<close> does when it loads a default:
  \<open>AP_Float\<close> members take it as it is, \<open>AP_Int8\<close>/\<open>AP_Int16\<close> members
  truncate it, flags are set when the integer is non-zero. A number that names no
  value of an enumeration (or a negative battery index) is not representable in
  the model and gives \<open>None\<close>.
\<close>

type_synonym param_store = "motor_params \<times> thr_lin_params"

definition pwm_type_of_int :: "int \<Rightarrow> pwm_type option" where
  "pwm_type_of_int n = find (\<lambda>k. pwm_type_num k = of_int n)
     [NORMAL, ONESHOT, ONESHOT125, BRUSHED, DSHOT150, DSHOT300, DSHOT600, DSHOT1200, PWM_RANGE,
      PWM_ANGLE]"

definition hover_learn_of_int :: "int \<Rightarrow> hover_learn option" where
  "hover_learn_of_int n = find (\<lambda>k. hover_learn_num k = of_int n)
     [HOVER_LEARN_DISABLED, HOVER_LEARN_ONLY, HOVER_LEARN_AND_SAVE]"

primrec param_set :: "param_field \<Rightarrow> float \<Rightarrow> param_store \<Rightarrow> param_store option" where
  "param_set F_yaw_headroom v pt = Some ((fst pt)\<lparr>yaw_headroom := float_to_int v\<rparr>, snd pt)"
| "param_set F_curve_expo v pt = Some (fst pt, (snd pt)\<lparr>curve_expo := v\<rparr>)"
| "param_set F_spin_max v pt = Some (fst pt, (snd pt)\<lparr>spin_max := v\<rparr>)"
| "param_set F_batt_voltage_max v pt = Some (fst pt, (snd pt)\<lparr>batt_voltage_max := v\<rparr>)"
| "param_set F_batt_voltage_min v pt = Some (fst pt, (snd pt)\<lparr>batt_voltage_min := v\<rparr>)"
| "param_set F_batt_current_max v pt = Some ((fst pt)\<lparr>batt_current_max := v\<rparr>, snd pt)"
| "param_set F_pwm_type v pt =
     map_option (\<lambda>k. ((fst pt)\<lparr>pwm_type := k\<rparr>, snd pt)) (pwm_type_of_int (float_to_int v))"
| "param_set F_pwm_min v pt = Some ((fst pt)\<lparr>pwm_min := float_to_int v\<rparr>, snd pt)"
| "param_set F_pwm_max v pt = Some ((fst pt)\<lparr>pwm_max := float_to_int v\<rparr>, snd pt)"
| "param_set F_spin_min v pt = Some (fst pt, (snd pt)\<lparr>spin_min := v\<rparr>)"
| "param_set F_spin_arm v pt = Some ((fst pt)\<lparr>spin_arm := v\<rparr>, snd pt)"
| "param_set F_batt_current_time_constant v pt =
     Some ((fst pt)\<lparr>batt_current_time_constant := v\<rparr>, snd pt)"
| "param_set F_throttle_hover v pt = Some ((fst pt)\<lparr>throttle_hover := v\<rparr>, snd pt)"
| "param_set F_throttle_hover_learn v pt =
     map_option (\<lambda>k. ((fst pt)\<lparr>throttle_hover_learn := k\<rparr>, snd pt))
       (hover_learn_of_int (float_to_int v))"
| "param_set F_disarm_disable_pwm v pt =
     Some ((fst pt)\<lparr>disarm_disable_pwm := (float_to_int v \<noteq> 0)\<rparr>, snd pt)"
| "param_set F_yaw_servo_angle_max_deg v pt =
     Some ((fst pt)\<lparr>yaw_servo_angle_max_deg := float_to_int v\<rparr>, snd pt)"
| "param_set F_spool_up_time v pt = Some ((fst pt)\<lparr>spool_up_time := v\<rparr>, snd pt)"
| "param_set F_boost_scale v pt = Some ((fst pt)\<lparr>boost_scale := v\<rparr>, snd pt)"
| "param_set F_batt_idx v pt =
     (if float_to_int v < 0 then None
      else Some (fst pt, (snd pt)\<lparr>batt_idx := nat (float_to_int v)\<rparr>))"
| "param_set F_slew_up_time v pt = Some ((fst pt)\<lparr>slew_up_time := v\<rparr>, snd pt)"
| "param_set F_slew_dn_time v pt = Some ((fst pt)\<lparr>slew_dn_time := v\<rparr>, snd pt)"
| "param_set F_safe_time v pt = Some ((fst pt)\<lparr>safe_time := v\<rparr>, snd pt)"
| "param_set F_options v pt = Some ((fst pt)\<lparr>options := float_to_int v\<rparr>, snd pt)"
| "param_set F_spool_down_time v pt = Some ((fst pt)\<lparr>spool_down_time := v\<rparr>, snd pt)"

text \<open>
  \<open>AP_Param::setup_object_defaults(this, var_info)\<close>, called by the
  constructor: every entry of the table stores its default into its member, in
  table order.
\<close>

fun setup_object_defaults :: "group_info list \<Rightarrow> param_store \<Rightarrow> param_store option" where
  "setup_object_defaults [] pt = Some pt"
| "setup_object_defaults (e # es) pt =
     (case param_set (gi_field e) (gi_default e) pt of
        None \<Rightarrow> None
      | Some pt' \<Rightarrow> setup_object_defaults es pt')"

fun doc_admits :: "param_doc \<Rightarrow> float \<Rightarrow> bool" where
  "doc_admits (Doc_range lo hi) v = (lo \<le> v \<and> v \<le> hi)"
| "doc_admits (Doc_values vs) v = (v \<in> set vs)"
| "doc_admits (Doc_bitmask n) v = (v \<in> set (map of_nat [0..<2 ^ n]))"
| "doc_admits Doc_none v = True"

definition all_param_fields :: "param_field list" where
  "all_param_fields = [F_yaw_headroom, F_curve_expo, F_spin_max, F_batt_voltage_max,
     F_batt_voltage_min, F_batt_current_max, F_pwm_type, F_pwm_min, F_pwm_max, F_spin_min,
     F_spin_arm, F_batt_current_time_constant, F_throttle_hover, F_throttle_hover_learn,
     F_disarm_disable_pwm, F_yaw_servo_angle_max_deg, F_spool_up_time, F_boost_scale,
     F_batt_idx, F_slew_up_time, F_slew_dn_time, F_safe_time, F_options, F_spool_down_time]"

text \<open>
  What \<open>AP_Param\<close> needs of a group table: distinct indices below 64 (the
  group element index is six bits), none of them a retired one, distinct names
  that fit \<open>AP_MAX_NAME_SIZE\<close> with either build prefix, one entry per member.
\<close>

definition var_info_wf :: "group_info list \<Rightarrow> bool" where
  "var_info_wf t =
     (distinct (map gi_idx t) \<and> distinct (map gi_name t) \<and> distinct (map gi_field t)
      \<and> list_all (\<lambda>e. gi_idx e < 64 \<and> gi_idx e \<notin> set var_info_retired) t
      \<and> list_all (\<lambda>e. length (AP_MOTORS_PARAM_PREFIX True @ gi_name e) \<le> AP_MAX_NAME_SIZE
                   \<and> length (AP_MOTORS_PARAM_PREFIX False @ gi_name e) \<le> AP_MAX_NAME_SIZE) t)"

lemma all_param_fields_UNIV: "set all_param_fields = UNIV"
proof -
  have "f \<in> set all_param_fields" for f
    by (cases f) (simp_all add: all_param_fields_def)
  then show ?thesis by blast
qed

lemma var_info_fields: "set (map gi_field var_info) = UNIV"
  unfolding all_param_fields_UNIV [symmetric]
  by (simp add: var_info_def var_info_head_def var_info_tail_def all_param_fields_def
      AP_GROUPINFO_def AP_GROUPINFO_FRAME_def)

text \<open>
  C7. The parameter table is well formed for \<open>AP_Param\<close>: its group indices
  are distinct, below 64 and none of the retired ones, its names are distinct and
  fit \<open>AP_MAX_NAME_SIZE\<close> with the \<open>MOT_\<close> and the \<open>Q_M_\<close> prefix, and
  every member is stored by exactly one entry.
\<close>
theorem var_info_well_formed:
  "var_info_wf var_info \<and> set (map gi_field var_info) = UNIV"
  using var_info_fields
  by (simp add: var_info_wf_def var_info_def var_info_head_def var_info_tail_def
      AP_GROUPINFO_def AP_GROUPINFO_FRAME_def var_info_retired_def AP_MOTORS_PARAM_PREFIX_def
      AP_MAX_NAME_SIZE_def)

lemma var_info_defaults_outside_doc:
  "map gi_name (filter (\<lambda>e. \<not> doc_admits (gi_doc e) (gi_default e)) var_info)
     = [''BAT_VOLT_MAX'', ''BAT_VOLT_MIN'']"
  by (simp add: var_info_def var_info_head_def var_info_tail_def AP_GROUPINFO_def
      AP_GROUPINFO_FRAME_def)

lemma pwm_type_of_int_num: "pwm_type_of_int (float_to_int (pwm_type_num k)) = Some k"
  by (cases k) (simp_all add: pwm_type_of_int_def)

lemma hover_learn_of_int_num: "hover_learn_of_int (float_to_int (hover_learn_num k)) = Some k"
  by (cases k) (simp_all add: hover_learn_of_int_def)

lemma param_set_value: "param_set f (param_value p t f) (p, t) = Some (p, t)"
  by (cases f) (simp_all add: pwm_type_of_int_num hover_learn_of_int_num)

lemma setup_var_info:
  "setup_object_defaults var_info (p, t) =
     Some (default_params\<lparr>pwm_min_configured := pwm_min_configured p,
                          pwm_max_configured := pwm_max_configured p\<rparr>,
           default_thr_lin\<lparr>lift_max := lift_max t, batt_voltage_filt := batt_voltage_filt t\<rparr>)"
  by (simp add: var_info_def var_info_head_def var_info_tail_def AP_GROUPINFO_def
      AP_GROUPINFO_FRAME_def default_params_def default_thr_lin_def float_to_int_def
      pwm_type_of_int_def hover_learn_of_int_def)


end
