(* ===== verification/Output_Pipeline.thy ===== *)
theory Output_Pipeline
  imports Spool_Behaviour Thrust_Linearizer Actuator_Output Arming_Checks Param_Table
begin

unbundle bit_operations_syntax

text \<open>
  The per-tick pipeline \<open>AP_MotorsMulticopter::output()\<close> (named
  \<open>motors_output\<close>, since \<open>output\<close> is a keyword of Isabelle) and its
  neighbours: \<open>output_boost_throttle\<close>, \<open>output_rpyt\<close>,
  \<open>update_external_limits\<close> (with \<open>AP_SCRIPTING_ENABLED\<close>), \<open>output_min\<close>,
  \<open>get_motor_mask\<close> and \<open>Log_Write\<close>. The frame-specific stages
  (\<open>output_armed_stabilizing\<close>, \<open>thrust_compensation\<close>,
  \<open>output_to_motors\<close>) are the fields of a \<open>frame_interface\<close>; what a tick
  reads from its environment (battery monitor, clock, the derivative filter's
  slope, the voltage filter's time constant) is a \<open>tick_inputs\<close> record.
  \<open>frame_ok\<close> is the contract a frame mixer must meet for the pipeline's
  properties: it leaves the spool machine's state, the parameters and the
  throttle filter, its samples and the slew-rate filter alone and never clears a
  limit flag. The reachable states \<open>motors_reachable\<close> include writes of single
  parameters through the parameter table's \<open>param_set\<close>.
\<close>

record frame_interface =
  output_armed_stabilizing :: "motors_state \<Rightarrow> motors_state"
  thrust_compensation :: "motors_state \<Rightarrow> motors_state"
  output_to_motors :: "motors_state \<Rightarrow> motors_state"

record tick_inputs =
  tick_battery :: battery_monitor
  tick_time_us :: nat
  tick_slew_slope :: "(float \<times> nat) list \<Rightarrow> float"
  tick_volt_tc :: float

definition or_limits :: "limit_flags \<Rightarrow> limit_flags \<Rightarrow> limit_flags" where
  "or_limits a b = \<lparr>roll = roll a \<or> roll b, pitch = pitch a \<or> pitch b, yaw = yaw a \<or> yaw b,
     throttle_lower = throttle_lower a \<or> throttle_lower b,
     throttle_upper = throttle_upper a \<or> throttle_upper b\<rparr>"

definition update_external_limits :: "motors_state \<Rightarrow> motors_state" where
  "update_external_limits s = s\<lparr>limit := or_limits (limit s) (external_limits s)\<rparr>"

definition output_boost_throttle :: "motors_state \<Rightarrow> motors_state" where
  "output_boost_throttle s =
     (if boost_scale (params s) > 0 then
        emit (Set_output_scaled K_boost_throttle
                (constrain_float (get_throttle s * boost_scale (params s)) 0 1 * 1000)) s
      else emit (Set_output_scaled K_boost_throttle 0) s)"

definition output_rpyt :: "motors_state \<Rightarrow> motors_state" where
  "output_rpyt s =
     s\<lparr>outputs := outputs s @ [Set_output_scaled K_roll_out (roll_in_ff s * 4500),
                              Set_output_scaled K_pitch_out (pitch_in_ff s * 4500),
                              Set_output_scaled K_yaw_out (yaw_in_ff s * 4500),
                              Set_output_scaled K_thrust_out (get_throttle s * 1000)]\<rparr>"

definition motors_output :: "frame_interface \<Rightarrow> tick_inputs \<Rightarrow> motors_state \<Rightarrow> motors_state" where
  "motors_output fi ti s =
     (let s1 = update_throttle_filter (tick_slew_slope ti) (tick_time_us ti) s;
          s2 = update_lift_max_from_batt_voltage (tick_battery ti) (tick_volt_tc ti) s1;
          s3 = output_logic (tick_battery ti) s2;
          s4 = output_armed_stabilizing fi s3;
          s5 = thrust_compensation fi s4;
          s6 = output_to_motors fi s5;
          s7 = output_boost_throttle s6;
          s8 = output_rpyt s7;
          s9 = update_external_limits s8
      in s9\<lparr>motor_mask_override := 0\<rparr>)"

definition output_min :: "frame_interface \<Rightarrow> tick_inputs \<Rightarrow> motors_state \<Rightarrow> motors_state" where
  "output_min fi ti s =
     motors_output fi ti ((set_desired_spool_state DESIRED_SHUT_DOWN s)\<lparr>spool_state := SHUT_DOWN\<rparr>)"

definition get_motor_mask :: "(srv_function \<Rightarrow> 32 word) \<Rightarrow> 32 word" where
  "get_motor_mask output_channel_mask = output_channel_mask K_boost_throttle"

definition mot_fail_flags :: "motors_state \<Rightarrow> 8 word" where
  "mot_fail_flags s = of_bool (thrust_boost s) OR push_bit 1 (of_bool (thrust_balanced s))"

definition Log_Write :: "nat \<Rightarrow> motors_state \<Rightarrow> motors_state" where
  "Log_Write time_us s =
     emit (Log_motbatt time_us (lift_max (thr_lin s)) (batt_voltage_filt (thr_lin s)) (throttle_limit s)
            (throttle_avg_max s) (throttle_out s) (mot_fail_flags s)) s"

definition get_throttle_avg_max :: "motors_state \<Rightarrow> float" where
  "get_throttle_avg_max s = throttle_avg_max s"

definition get_yaw_headroom :: "motors_state \<Rightarrow> int" where
  "get_yaw_headroom s = yaw_headroom (params s)"

definition limits_kept :: "limit_flags \<Rightarrow> limit_flags \<Rightarrow> bool" where
  "limits_kept a b \<longleftrightarrow> (roll a \<longrightarrow> roll b) \<and> (pitch a \<longrightarrow> pitch b) \<and> (yaw a \<longrightarrow> yaw b) \<and>
     (throttle_lower a \<longrightarrow> throttle_lower b) \<and> (throttle_upper a \<longrightarrow> throttle_upper b)"

definition frame_hook_ok :: "(motors_state \<Rightarrow> motors_state) \<Rightarrow> bool" where
  "frame_hook_ok f \<longleftrightarrow> (\<forall>s.
     spool_state (f s) = spool_state s \<and> spool_desired (f s) = spool_desired s \<and>
     spin_up_ratio (f s) = spin_up_ratio s \<and> throttle_thrust_max (f s) = throttle_thrust_max s \<and>
     thrust_boost_ratio (f s) = thrust_boost_ratio s \<and> throttle_limit (f s) = throttle_limit s \<and>
     throttle_filter (f s) = throttle_filter s \<and> throttle_slew (f s) = throttle_slew s \<and>
     params (f s) = params s \<and> thr_lin (f s) = thr_lin s \<and>
     dt_s (f s) = dt_s s \<and> armed (f s) = armed s \<and> interlock (f s) = interlock s \<and>
     spoolup_block (f s) = spoolup_block s \<and> disarm_safe_timer (f s) = disarm_safe_timer s \<and>
     external_limits (f s) = external_limits s \<and> limits_kept (limit s) (limit (f s)) \<and>
     throttle_slew_rate (f s) = throttle_slew_rate s \<and> throttle_slew_filter (f s) = throttle_slew_filter s \<and>
     throttle_slew_filter_tc (f s) = throttle_slew_filter_tc s)"

definition frame_ok :: "frame_interface \<Rightarrow> bool" where
  "frame_ok fi \<longleftrightarrow> frame_hook_ok (output_armed_stabilizing fi) \<and> frame_hook_ok (thrust_compensation fi) \<and>
     frame_hook_ok (output_to_motors fi)"

definition idle_frame :: frame_interface where
  "idle_frame = \<lparr>output_armed_stabilizing = id, thrust_compensation = id, output_to_motors = id\<rparr>"

definition idle_tick :: tick_inputs where
  "idle_tick = \<lparr>tick_battery = witness_battery, tick_time_us = 0, tick_slew_slope = (\<lambda>_. 0),
     tick_volt_tc = 1\<rparr>"

text \<open>
  \<open>logic_frame_view\<close> collects the fields the spool logic never writes, and
  \<open>spool_view\<close> the fields the spool invariant \<open>spool_inv\<close> reads.
  \<open>motors_reachable\<close> is the set of states reachable from \<open>motors_init\<close> by
  any interleaving of the library's entry points and the vehicle's setters.
\<close>

definition logic_frame_view ::
  "motors_state \<Rightarrow> float \<times> (float \<times> nat) list \<times> bool \<times> bool \<times> thr_lin_params \<times> limit_flags \<times> output_event list \<times>
     float \<times> bool \<times> float \<times> float \<times> (nat \<Rightarrow> float) \<times> (nat \<Rightarrow> bool) \<times> float \<times> float \<times> float" where
  "logic_frame_view s = (throttle_filter s, throttle_slew s, armed s, interlock s, thr_lin s, external_limits s, outputs s,
     dt_s s, spoolup_block s, spin_arm (params s), boost_scale (params s), actuator s, motor_enabled s,
     throttle_slew_rate s, throttle_slew_filter s, throttle_slew_filter_tc s)"

definition spool_view ::
  "motors_state \<Rightarrow> float \<times> float \<times> float \<times> float \<times> float \<times> float \<times> float \<times> spool_state" where
  "spool_view s = (dt_s s, spin_min (thr_lin s), spin_arm (params s), spin_up_ratio s, throttle_thrust_max s,
     thrust_boost_ratio s, throttle_limit s, spool_state s)"

definition progress_view ::
  "motors_state \<Rightarrow> (float \<times> float \<times> float \<times> float \<times> float \<times> float \<times> float \<times> spool_state) \<times>
     bool \<times> bool \<times> desired_spool_state \<times> bool \<times> motor_params" where
  "progress_view s = (spool_view s, armed s, interlock s, spool_desired s, spoolup_block s, params s)"

definition motors_wf :: "motors_state \<Rightarrow> bool" where
  "motors_wf s \<longleftrightarrow> 0 \<le> throttle_filter s \<and> throttle_filter s \<le> 1 \<and> length (throttle_slew s) \<le> 7 \<and>
     0 \<le> dt_s s \<and> 0 \<le> throttle_slew_filter_tc s \<and> 0 \<le> throttle_slew_filter s \<and>
     throttle_slew_rate s = throttle_slew_filter s"

inductive motors_reachable :: "motors_state \<Rightarrow> bool" where
  init: "motors_reachable (motors_init speed_hz)"
| tick: "motors_reachable s \<Longrightarrow> frame_ok fi \<Longrightarrow> motors_reachable (motors_output fi ti s)"
| tick_min: "motors_reachable s \<Longrightarrow> frame_ok fi \<Longrightarrow> motors_reachable (output_min fi ti s)"
| arm: "motors_reachable s \<Longrightarrow> motors_reachable (s\<lparr>armed := b\<rparr>)"
| interlock: "motors_reachable s \<Longrightarrow> motors_reachable (s\<lparr>interlock := b\<rparr>)"
| desired: "motors_reachable s \<Longrightarrow> motors_reachable (set_desired_spool_state d s)"
| pilot: "motors_reachable s \<Longrightarrow>
    motors_reachable (s\<lparr>throttle_in := t, roll_in_ff := r, pitch_in_ff := p, yaw_in_ff := y\<rparr>)"
| flags: "motors_reachable s \<Longrightarrow>
    motors_reachable (s\<lparr>spoolup_block := blk, thrust_boost := boost, thrust_balanced := bal,
      external_limits := ext, motor_enabled := en\<rparr>)"
| set_params: "motors_reachable s \<Longrightarrow> spin_config_ok (s\<lparr>params := p\<rparr>) \<Longrightarrow>
    motors_reachable (s\<lparr>params := p\<rparr>)"
| param_write: "motors_reachable s \<Longrightarrow> param_set f v (params s, thr_lin s) = Some (p, t) \<Longrightarrow>
    spin_config_ok (s\<lparr>params := p, thr_lin := t\<rparr>) \<Longrightarrow> motors_reachable (s\<lparr>params := p, thr_lin := t\<rparr>)"
| mask: "motors_reachable s \<Longrightarrow> motors_reachable (output_motor_mask rf thrust m rudder_dt s)"
| esc: "motors_reachable s \<Longrightarrow> motors_reachable (set_throttle_passthrough_for_esc_calibration thr s)"
| hover: "motors_reachable s \<Longrightarrow> motors_reachable (update_throttle_hover dt s)"
| save: "motors_reachable s \<Longrightarrow> motors_reachable (save_params_on_disarm s)"
| range: "motors_reachable s \<Longrightarrow> motors_reachable (update_throttle_range dig s)"
| convert: "motors_reachable s \<Longrightarrow> motors_reachable (convert_pwm_min_max_param lo hi s)"
| log: "motors_reachable s \<Longrightarrow> motors_reachable (Log_Write t s)"

subsection \<open>Frame lemmas for the stages of a tick\<close>

lemma spool_shut_down_frame: "logic_frame_view (spool_shut_down s) = logic_frame_view s"
  by (simp add: spool_shut_down_def Let_def logic_frame_view_def)

lemma spool_ground_idle_frame: "logic_frame_view (spool_ground_idle s) = logic_frame_view s"
  by (simp add: spool_ground_idle_def Let_def logic_frame_view_def split: desired_spool_state.splits)

lemma spool_spooling_up_frame: "logic_frame_view (spool_spooling_up bm s) = logic_frame_view s"
  unfolding spool_spooling_up_def Let_def
  by (auto simp: logic_frame_view_def split: prod.splits dest!: get_current_limit_max_throttle_result)

lemma spool_throttle_unlimited_frame: "logic_frame_view (spool_throttle_unlimited bm s) = logic_frame_view s"
  unfolding spool_throttle_unlimited_def Let_def
  by (auto simp: logic_frame_view_def split: prod.splits dest!: get_current_limit_max_throttle_result)

lemma spool_spooling_down_frame: "logic_frame_view (spool_spooling_down bm s) = logic_frame_view s"
  unfolding spool_spooling_down_def Let_def
  by (auto simp: logic_frame_view_def split: prod.splits dest!: get_current_limit_max_throttle_result)

lemma output_logic_prologue_frame: "logic_frame_view (output_logic_prologue s) = logic_frame_view s"
  by (simp add: output_logic_prologue_def constrain_spool_up_time_def force_shutdown_def
      update_disarm_safe_timer_def logic_frame_view_def)

lemma output_logic_frame: "logic_frame_view (output_logic bm s) = logic_frame_view s"
  using output_logic_prologue_frame [of s]
  by (cases "spool_state (output_logic_prologue s)")
    (simp_all add: output_logic_def spool_shut_down_frame spool_ground_idle_frame spool_spooling_up_frame
      spool_throttle_unlimited_frame spool_spooling_down_frame)


lemma spool_inv_view: "spool_view s' = spool_view s \<Longrightarrow> spool_inv s' = spool_inv s"
  by (simp add: spool_view_def spool_inv_defs)

lemma frame_hook_fields:
  assumes "frame_hook_ok f"
  shows "spool_state (f s) = spool_state s \<and> spool_desired (f s) = spool_desired s \<and>
     spin_up_ratio (f s) = spin_up_ratio s \<and> throttle_thrust_max (f s) = throttle_thrust_max s \<and>
     thrust_boost_ratio (f s) = thrust_boost_ratio s \<and> throttle_limit (f s) = throttle_limit s \<and>
     throttle_filter (f s) = throttle_filter s \<and> throttle_slew (f s) = throttle_slew s \<and>
     params (f s) = params s \<and> thr_lin (f s) = thr_lin s \<and>
     dt_s (f s) = dt_s s \<and> armed (f s) = armed s \<and> interlock (f s) = interlock s \<and>
     spoolup_block (f s) = spoolup_block s \<and> disarm_safe_timer (f s) = disarm_safe_timer s \<and>
     external_limits (f s) = external_limits s \<and> limits_kept (limit s) (limit (f s)) \<and>
     throttle_slew_rate (f s) = throttle_slew_rate s \<and> throttle_slew_filter (f s) = throttle_slew_filter s \<and>
     throttle_slew_filter_tc (f s) = throttle_slew_filter_tc s"
  using assms by (simp add: frame_hook_ok_def)

lemma frame_hook_spool_view: "frame_hook_ok f \<Longrightarrow> spool_view (f s) = spool_view s"
  using frame_hook_fields [of f s] by (simp add: spool_view_def)

lemma pre_logic_fields:
  "spool_view (update_lift_max_from_batt_voltage bm tau (update_throttle_filter slope t s)) = spool_view s \<and>
   spool_desired (update_lift_max_from_batt_voltage bm tau (update_throttle_filter slope t s)) = spool_desired s \<and>
   armed (update_lift_max_from_batt_voltage bm tau (update_throttle_filter slope t s)) = armed s \<and>
   interlock (update_lift_max_from_batt_voltage bm tau (update_throttle_filter slope t s)) = interlock s \<and>
   external_limits (update_lift_max_from_batt_voltage bm tau (update_throttle_filter slope t s)) = external_limits s \<and>
   throttle_filter (update_lift_max_from_batt_voltage bm tau (update_throttle_filter slope t s)) =
     throttle_filter (update_throttle_filter slope t s)"
  by (simp add: update_lift_max_from_batt_voltage_def update_throttle_filter_def Let_def spool_view_def)

lemma post_stage_fields:
  "spool_view (update_external_limits (output_rpyt (output_boost_throttle s))\<lparr>motor_mask_override := 0\<rparr>) = spool_view s \<and>
   spool_desired (update_external_limits (output_rpyt (output_boost_throttle s))\<lparr>motor_mask_override := 0\<rparr>) = spool_desired s \<and>
   throttle_filter (update_external_limits (output_rpyt (output_boost_throttle s))\<lparr>motor_mask_override := 0\<rparr>) = throttle_filter s \<and>
   limit (update_external_limits (output_rpyt (output_boost_throttle s))\<lparr>motor_mask_override := 0\<rparr>) =
     or_limits (limit s) (external_limits s)"
  by (simp add: update_external_limits_def output_rpyt_def output_boost_throttle_def emit_def spool_view_def)

lemma motors_output_unfold:
  "motors_output fi ti s =
     (update_external_limits (output_rpyt (output_boost_throttle
        (output_to_motors fi (thrust_compensation fi (output_armed_stabilizing fi
          (output_logic (tick_battery ti)
            (update_lift_max_from_batt_voltage (tick_battery ti) (tick_volt_tc ti)
              (update_throttle_filter (tick_slew_slope ti) (tick_time_us ti) s)))))))))\<lparr>motor_mask_override := 0\<rparr>"
  by (simp add: motors_output_def Let_def)

lemma frame_ok_view:
  assumes "frame_ok fi"
  shows "spool_view (output_to_motors fi (thrust_compensation fi (output_armed_stabilizing fi s))) = spool_view s"
  using assms by (simp add: frame_ok_def frame_hook_spool_view)

lemma motors_output_stage_inv:
  assumes "frame_ok fi"
    and "spool_inv (output_logic (tick_battery ti) (update_lift_max_from_batt_voltage (tick_battery ti)
           (tick_volt_tc ti) (update_throttle_filter (tick_slew_slope ti) (tick_time_us ti) s)))"
  shows "spool_inv (motors_output fi ti s)"
  unfolding motors_output_unfold
  using assms(2) spool_inv_view post_stage_fields frame_ok_view [OF assms(1)] by metis

lemma motors_output_inv:
  assumes "frame_ok fi" "spool_inv s"
  shows "spool_inv (motors_output fi ti s)"
proof (rule motors_output_stage_inv [OF assms(1)])
  show "spool_inv (output_logic (tick_battery ti) (update_lift_max_from_batt_voltage (tick_battery ti)
           (tick_volt_tc ti) (update_throttle_filter (tick_slew_slope ti) (tick_time_us ti) s)))"
    using assms(2) pre_logic_fields spool_inv_view output_logic_inv by metis
qed

lemma output_logic_shut_down_inv:
  assumes "spool_bounds s" "spool_state s = SHUT_DOWN" "spool_desired s = DESIRED_SHUT_DOWN"
  shows "spool_inv (output_logic bm s)"
proof -
  have st: "spool_state (output_logic_prologue s) = SHUT_DOWN"
    and d: "spool_desired (output_logic_prologue s) = DESIRED_SHUT_DOWN"
    using assms(2,3) output_logic_prologue_spool [of s] by auto
  have "spool_bounds (output_logic_prologue s)"
    using assms(1) by (rule output_logic_prologue_bounds)
  then show ?thesis
    using st d by (simp add: output_logic_def spool_shut_down_forced spool_inv_defs)
qed

subsection \<open>The spool invariant on every reachable state\<close>

lemma output_motor_mask_spool_view: "spool_view (output_motor_mask rf thrust m r s) = spool_view s"
  unfolding output_motor_mask_def
  by (subst foldl_invariant_view) (simp_all add: output_motor_mask_step_def Let_def spool_view_def)

lemma side_ops_spool_view:
  "spool_view (set_throttle_passthrough_for_esc_calibration thr s) = spool_view s"
  "spool_view (update_throttle_hover dt s) = spool_view s"
  "spool_view (save_params_on_disarm s) = spool_view s"
  "spool_view (update_throttle_range dig s) = spool_view s"
  "spool_view (convert_pwm_min_max_param lo hi s) = spool_view s"
  "spool_view (Log_Write t s) = spool_view s"
  by (simp_all add: set_throttle_passthrough_for_esc_calibration_def update_throttle_hover_def
      save_params_on_disarm_def update_throttle_range_def convert_pwm_min_max_param_def Log_Write_def
      emit_def spool_view_def Let_def)

lemma motors_init_inv: "spool_inv (motors_init speed_hz)"
  by (simp add: motors_init_def spool_inv_defs default_params_def default_thr_lin_def)

lemma spool_bounds_view: "spool_view s' = spool_view s \<Longrightarrow> spool_bounds s' = spool_bounds s"
  by (simp add: spool_view_def spool_bounds_def spin_config_ok_def)

lemma pre_logic_spool_state:
  "spool_state (update_lift_max_from_batt_voltage bm tau (update_throttle_filter slope t s)) = spool_state s"
  using pre_logic_fields [of bm tau slope t s] by (simp add: spool_view_def)

lemma output_min_inv:
  assumes "frame_ok fi" "spool_inv s"
  shows "spool_inv (output_min fi ti s)"
  unfolding output_min_def
proof (rule motors_output_stage_inv [OF assms(1)], rule output_logic_shut_down_inv)
  have "spool_bounds ((set_desired_spool_state DESIRED_SHUT_DOWN s)\<lparr>spool_state := SHUT_DOWN\<rparr>)"
    using assms(2) by (simp add: spool_inv_def spool_bounds_def spin_config_ok_def set_desired_spool_state_def)
  then show "spool_bounds (update_lift_max_from_batt_voltage (tick_battery ti) (tick_volt_tc ti)
          (update_throttle_filter (tick_slew_slope ti) (tick_time_us ti)
            ((set_desired_spool_state DESIRED_SHUT_DOWN s)\<lparr>spool_state := SHUT_DOWN\<rparr>)))"
    using pre_logic_fields spool_bounds_view by blast
qed (simp_all only: pre_logic_spool_state pre_logic_fields, simp_all add: set_desired_spool_state_def)

lemma input_ops_spool_view:
  "spool_view (s\<lparr>armed := b\<rparr>) = spool_view s"
  "spool_view (s\<lparr>interlock := b\<rparr>) = spool_view s"
  "spool_view (set_desired_spool_state d s) = spool_view s"
  "spool_view (s\<lparr>throttle_in := t, roll_in_ff := r, pitch_in_ff := p, yaw_in_ff := y\<rparr>) = spool_view s"
  "spool_view (s\<lparr>spoolup_block := blk, thrust_boost := boost, thrust_balanced := bal,
      external_limits := ext, motor_enabled := en\<rparr>) = spool_view s"
  by (simp_all add: spool_view_def set_desired_spool_state_def)

lemma motors_reachable_inv: "motors_reachable s \<Longrightarrow> spool_inv s"
proof (induction rule: motors_reachable.induct)
  case (init speed_hz)
  then show ?case by (rule motors_init_inv)
next
  case (tick s fi ti)
  then show ?case by (simp add: motors_output_inv)
next
  case (tick_min s fi ti)
  then show ?case by (simp add: output_min_inv)
next
  case (set_params s p)
  then show ?case by (simp add: spool_inv_defs)
next
  case (param_write s f v p t)
  then show ?case by (simp add: spool_inv_defs)
next
  case (mask s rf thrust m rudder_dt)
  then show ?case using spool_inv_view output_motor_mask_spool_view by metis
qed (simp_all add: spool_inv_view [OF input_ops_spool_view(1)] spool_inv_view [OF input_ops_spool_view(2)]
    spool_inv_view [OF input_ops_spool_view(3)] spool_inv_view [OF input_ops_spool_view(4)]
    spool_inv_view [OF input_ops_spool_view(5)] spool_inv_view [OF side_ops_spool_view(1)]
    spool_inv_view [OF side_ops_spool_view(2)] spool_inv_view [OF side_ops_spool_view(3)]
    spool_inv_view [OF side_ops_spool_view(4)] spool_inv_view [OF side_ops_spool_view(5)]
    spool_inv_view [OF side_ops_spool_view(6)])

subsection \<open>End-to-end properties of a tick\<close>

lemma frame_hook_ok_comp: "frame_hook_ok f \<Longrightarrow> frame_hook_ok g \<Longrightarrow> frame_hook_ok (g \<circ> f)"
  by (simp add: frame_hook_ok_def limits_kept_def)

lemma frame_ok_hooks:
  "frame_ok fi \<Longrightarrow>
   frame_hook_ok (output_to_motors fi \<circ> thrust_compensation fi \<circ> output_armed_stabilizing fi)"
  by (simp add: frame_ok_def frame_hook_ok_comp)

lemma limits_kept_all_true: "limits_kept (all_limits True) b \<longleftrightarrow> b = all_limits True"
  by (cases b) (auto simp: limits_kept_def all_limits_def)

lemma or_limits_all_true [simp]: "or_limits (all_limits True) b = all_limits True"
  by (simp add: or_limits_def all_limits_def)

lemma motors_output_hooks:
  "motors_output fi ti s =
     (update_external_limits (output_rpyt (output_boost_throttle
        ((output_to_motors fi \<circ> thrust_compensation fi \<circ> output_armed_stabilizing fi)
          (output_logic (tick_battery ti)
            (update_lift_max_from_batt_voltage (tick_battery ti) (tick_volt_tc ti)
              (update_throttle_filter (tick_slew_slope ti) (tick_time_us ti) s)))))))\<lparr>motor_mask_override := 0\<rparr>"
  by (simp add: motors_output_unfold)

lemma post_stage_outputs:
  "outputs (update_external_limits (output_rpyt (output_boost_throttle s))\<lparr>motor_mask_override := 0\<rparr>) =
     outputs s @ [Set_output_scaled K_boost_throttle
                    (if boost_scale (params s) > 0
                     then constrain_float (get_throttle s * boost_scale (params s)) 0 1 * 1000 else 0),
                  Set_output_scaled K_roll_out (roll_in_ff s * 4500),
                  Set_output_scaled K_pitch_out (pitch_in_ff s * 4500),
                  Set_output_scaled K_yaw_out (yaw_in_ff s * 4500),
                  Set_output_scaled K_thrust_out (get_throttle s * 1000)]"
  by (simp add: update_external_limits_def output_rpyt_def output_boost_throttle_def emit_def get_throttle_def)

lemma post_stage_inputs:
  "get_throttle (update_external_limits (output_rpyt (output_boost_throttle s))\<lparr>motor_mask_override := 0\<rparr>) =
     get_throttle s"
  "params (update_external_limits (output_rpyt (output_boost_throttle s))\<lparr>motor_mask_override := 0\<rparr>) = params s"
  "roll_in_ff (update_external_limits (output_rpyt (output_boost_throttle s))\<lparr>motor_mask_override := 0\<rparr>) = roll_in_ff s"
  "pitch_in_ff (update_external_limits (output_rpyt (output_boost_throttle s))\<lparr>motor_mask_override := 0\<rparr>) = pitch_in_ff s"
  "yaw_in_ff (update_external_limits (output_rpyt (output_boost_throttle s))\<lparr>motor_mask_override := 0\<rparr>) = yaw_in_ff s"
  by (simp_all add: update_external_limits_def output_rpyt_def output_boost_throttle_def emit_def get_throttle_def)

lemma post_stage_armed:
  "armed (update_external_limits (output_rpyt (output_boost_throttle s))\<lparr>motor_mask_override := 0\<rparr>) = armed s"
  by (simp add: update_external_limits_def output_rpyt_def output_boost_throttle_def emit_def)

text \<open>
  C19. One tick of \<open>output()\<close> while disarmed shuts the motors down end to end,
  whatever frame mixer is plugged in (as long as it meets \<open>frame_ok\<close>): the spool
  state is \<open>SHUT_DOWN\<close> with zero spin-up ratio and thrust ceiling, the throttle
  filter is reset to zero, every limit flag is raised, the motor-mask override
  is cleared, and \<open>output_to_pwm\<close> then sends every motor \<open>MOT_PWM_MIN\<close>, or 0
  when \<open>MOT_SAFE_DISARM\<close> disables PWM while disarmed (scenario S2 of the
  specification).
\<close>

theorem motors_output_disarmed:
  assumes "frame_ok fi" "\<not> armed s"
  shows "spool_state (motors_output fi ti s) = SHUT_DOWN \<and>
         spin_up_ratio (motors_output fi ti s) = 0 \<and> throttle_thrust_max (motors_output fi ti s) = 0 \<and>
         throttle_filter (motors_output fi ti s) = 0 \<and>
         limit (motors_output fi ti s) = all_limits True \<and>
         motor_mask_override (motors_output fi ti s) = 0 \<and>
         (\<forall>a. output_to_pwm (motors_output fi ti s) a =
                (if disarm_disable_pwm (params s) then 0 else pwm_min (params s)))"
proof -
  let ?h = "output_to_motors fi \<circ> thrust_compensation fi \<circ> output_armed_stabilizing fi"
  let ?s1 = "update_throttle_filter (tick_slew_slope ti) (tick_time_us ti) s"
  let ?s2 = "update_lift_max_from_batt_voltage (tick_battery ti) (tick_volt_tc ti) ?s1"
  let ?s3 = "output_logic (tick_battery ti) ?s2"
  have a2: "\<not> armed ?s2" using assms(2) pre_logic_fields [of "tick_battery ti"] by simp
  have f2: "throttle_filter ?s2 = 0"
    using assms(2) pre_logic_fields [of "tick_battery ti"] update_throttle_filter_value by simp
  have s3: "?s3 = spool_shut_down (output_logic_prologue ?s2)"
    using a2 by (simp add: output_logic_forced)
  have d3: "spool_desired (output_logic_prologue ?s2) = DESIRED_SHUT_DOWN"
    and st3: "spool_state (output_logic_prologue ?s2) = SHUT_DOWN"
    using a2 output_logic_prologue_spool [of ?s2] by auto
  have p2: "pwm_min (params ?s2) = pwm_min (params s) \<and> disarm_disable_pwm (params ?s2) = disarm_disable_pwm (params s)"
    by (simp add: update_lift_max_from_batt_voltage_def update_throttle_filter_def Let_def)
  have v3: "spool_state ?s3 = SHUT_DOWN \<and> spin_up_ratio ?s3 = 0 \<and> throttle_thrust_max ?s3 = 0 \<and>
            throttle_filter ?s3 = 0 \<and> limit ?s3 = all_limits True \<and> \<not> armed ?s3 \<and>
            pwm_min (params ?s3) = pwm_min (params s) \<and> disarm_disable_pwm (params ?s3) = disarm_disable_pwm (params s)"
    unfolding s3 using d3 st3 f2 a2 p2 output_logic_prologue_fields [of ?s2]
    by (simp add: spool_shut_down_forced output_logic_prologue_def constrain_spool_up_time_def force_shutdown_def
        update_disarm_safe_timer_def)
  have h: "frame_hook_ok ?h" using assms(1) by (rule frame_ok_hooks)
  have v4: "spool_state (?h ?s3) = SHUT_DOWN \<and> spin_up_ratio (?h ?s3) = 0 \<and>
            throttle_thrust_max (?h ?s3) = 0 \<and> throttle_filter (?h ?s3) = 0 \<and>
            limit (?h ?s3) = all_limits True \<and> \<not> armed (?h ?s3) \<and>
            pwm_min (params (?h ?s3)) = pwm_min (params s) \<and>
            disarm_disable_pwm (params (?h ?s3)) = disarm_disable_pwm (params s)"
    using frame_hook_fields [OF h, of ?s3] v3 limits_kept_all_true by simp
  have fin: "spool_state (motors_output fi ti s) = SHUT_DOWN \<and> spin_up_ratio (motors_output fi ti s) = 0 \<and>
      throttle_thrust_max (motors_output fi ti s) = 0 \<and> throttle_filter (motors_output fi ti s) = 0 \<and>
      limit (motors_output fi ti s) = all_limits True \<and> motor_mask_override (motors_output fi ti s) = 0 \<and>
      \<not> armed (motors_output fi ti s) \<and> pwm_min (params (motors_output fi ti s)) = pwm_min (params s) \<and>
      disarm_disable_pwm (params (motors_output fi ti s)) = disarm_disable_pwm (params s)"
    unfolding motors_output_hooks
    using post_stage_fields [of "?h ?s3"] post_stage_inputs(2) [of "?h ?s3"] post_stage_armed [of "?h ?s3"] v4
    by (simp add: spool_view_def)
  then show ?thesis by (simp add: output_to_pwm_def get_pwm_output_min_def float_to_int_def)
qed

theorem motors_output_disarmed_witness:
  "frame_ok idle_frame \<and> \<not> armed (motors_init 400) \<and>
   spool_state (motors_output idle_frame idle_tick (motors_init 400)) = SHUT_DOWN \<and>
   limit (motors_output idle_frame idle_tick (motors_init 400)) = all_limits True"
proof -
  have f: "frame_ok idle_frame"
    by (simp add: frame_ok_def frame_hook_ok_def idle_frame_def limits_kept_def)
  have a: "\<not> armed (motors_init 400)" by (simp add: motors_init_def)
  show ?thesis using motors_output_disarmed [OF f a, of idle_tick] f a by simp
qed

text \<open>
  C20. Every tick of \<open>output()\<close> ends its output with exactly the five scaled
  servo writes of \<open>output_boost_throttle\<close> and \<open>output_rpyt\<close>, in the
  code's order: the boost throttle (within [0, 1000], zero when
  \<open>MOT_BOOST_SCALE\<close> is not positive), then roll, pitch and yaw (times 4500) and
  the throttle (within [0, 1000]), all read from the state the tick returns.
\<close>

theorem motors_output_event_order:
  "\<exists>evs b. outputs (motors_output fi ti s) =
       evs @ [Set_output_scaled K_boost_throttle b,
              Set_output_scaled K_roll_out (roll_in_ff (motors_output fi ti s) * 4500),
              Set_output_scaled K_pitch_out (pitch_in_ff (motors_output fi ti s) * 4500),
              Set_output_scaled K_yaw_out (yaw_in_ff (motors_output fi ti s) * 4500),
              Set_output_scaled K_thrust_out (get_throttle (motors_output fi ti s) * 1000)] \<and>
     0 \<le> b \<and> b \<le> 1000 \<and> (boost_scale (params (motors_output fi ti s)) \<le> 0 \<longrightarrow> b = 0) \<and>
     0 \<le> get_throttle (motors_output fi ti s) * 1000 \<and> get_throttle (motors_output fi ti s) * 1000 \<le> 1000"
proof -
  obtain s6 where s6: "motors_output fi ti s =
      update_external_limits (output_rpyt (output_boost_throttle s6))\<lparr>motor_mask_override := 0\<rparr>"
    using motors_output_hooks by blast
  have c: "0 \<le> constrain_float x 0 1 * 1000 \<and> constrain_float x 0 1 * 1000 \<le> (1000::real)" for x
    using constrain_float_ge_low [of 0 1 x] constrain_float_le_high [of 0 1 x] by simp
  show ?thesis
    unfolding s6 post_stage_outputs post_stage_inputs
    using c get_throttle_bounds [of s6] by (simp del: constrain_float_def)
qed

theorem motors_output_event_order_witness:
  "\<exists>evs. outputs (motors_output idle_frame idle_tick (motors_init 400)) =
     evs @ [Set_output_scaled K_boost_throttle 0,
            Set_output_scaled K_roll_out (roll_in_ff (motors_output idle_frame idle_tick (motors_init 400)) * 4500),
            Set_output_scaled K_pitch_out (pitch_in_ff (motors_output idle_frame idle_tick (motors_init 400)) * 4500),
            Set_output_scaled K_yaw_out (yaw_in_ff (motors_output idle_frame idle_tick (motors_init 400)) * 4500),
            Set_output_scaled K_thrust_out (get_throttle (motors_output idle_frame idle_tick (motors_init 400)) * 1000)]"
proof -
  have "boost_scale (params (motors_output idle_frame idle_tick (motors_init 400))) = 0"
    using output_logic_frame [of witness_battery] pre_logic_fields [of witness_battery]
    by (simp add: motors_output_hooks post_stage_inputs idle_frame_def idle_tick_def logic_frame_view_def
        update_lift_max_from_batt_voltage_def update_throttle_filter_def Let_def motors_init_def default_params_def)
  then show ?thesis
    using motors_output_event_order [of idle_frame idle_tick "motors_init 400"] by auto
qed



text \<open>
  C22. The limits that scripting sets through \<open>set_external_limits\<close> are always
  reported: after a tick of \<open>output()\<close> every external limit flag that is set is
  also set in \<open>limit\<close>, whatever the spool logic and the frame mixer decided.
\<close>

theorem motors_output_external_limits:
  assumes "frame_ok fi"
  shows "limits_kept (external_limits s) (limit (motors_output fi ti s))"
proof -
  let ?h = "output_to_motors fi \<circ> thrust_compensation fi \<circ> output_armed_stabilizing fi"
  let ?s3 = "output_logic (tick_battery ti) (update_lift_max_from_batt_voltage (tick_battery ti)
               (tick_volt_tc ti) (update_throttle_filter (tick_slew_slope ti) (tick_time_us ti) s))"
  have "external_limits (?h ?s3) = external_limits s"
    using frame_hook_fields [OF frame_ok_hooks [OF assms], of ?s3] output_logic_frame [of "tick_battery ti"]
      pre_logic_fields [of "tick_battery ti"]
    by (simp add: logic_frame_view_def)
  then show ?thesis
    unfolding motors_output_hooks using post_stage_fields [of "?h ?s3"]
    by (simp add: limits_kept_def or_limits_def)
qed

theorem motors_output_external_limits_witness:
  "frame_ok idle_frame \<and>
   limits_kept (all_limits True) (limit (motors_output idle_frame idle_tick
     ((motors_init 400)\<lparr>external_limits := all_limits True\<rparr>)))"
proof -
  have f: "frame_ok idle_frame"
    by (simp add: frame_ok_def frame_hook_ok_def idle_frame_def limits_kept_def)
  show ?thesis
    using motors_output_external_limits [OF f, of "(motors_init 400)\<lparr>external_limits := all_limits True\<rparr>" idle_tick] f
    by simp
qed

text \<open>
  C23. \<open>output_min()\<close> always shuts the motors down in one tick, armed or not:
  it leaves the spool machine in \<open>SHUT_DOWN\<close> with \<open>DESIRED_SHUT_DOWN\<close>, zero
  spin-up ratio and thrust ceiling, and every limit flag raised.
\<close>

theorem output_min_shuts_down:
  assumes "frame_ok fi"
  shows "spool_state (output_min fi ti s) = SHUT_DOWN \<and> spool_desired (output_min fi ti s) = DESIRED_SHUT_DOWN \<and>
         spin_up_ratio (output_min fi ti s) = 0 \<and> throttle_thrust_max (output_min fi ti s) = 0 \<and>
         limit (output_min fi ti s) = all_limits True"
proof -
  let ?h = "output_to_motors fi \<circ> thrust_compensation fi \<circ> output_armed_stabilizing fi"
  let ?s0 = "(set_desired_spool_state DESIRED_SHUT_DOWN s)\<lparr>spool_state := SHUT_DOWN\<rparr>"
  let ?s2 = "update_lift_max_from_batt_voltage (tick_battery ti) (tick_volt_tc ti)
               (update_throttle_filter (tick_slew_slope ti) (tick_time_us ti) ?s0)"
  let ?s3 = "output_logic (tick_battery ti) ?s2"
  have st: "spool_state ?s2 = SHUT_DOWN" and d: "spool_desired ?s2 = DESIRED_SHUT_DOWN"
    using pre_logic_spool_state pre_logic_fields by (simp_all add: set_desired_spool_state_def)
  have p: "spool_state (output_logic_prologue ?s2) = SHUT_DOWN \<and>
           spool_desired (output_logic_prologue ?s2) = DESIRED_SHUT_DOWN"
    using st d output_logic_prologue_spool [of ?s2] by auto
  then have v3: "spool_state ?s3 = SHUT_DOWN \<and> spool_desired ?s3 = DESIRED_SHUT_DOWN \<and>
      spin_up_ratio ?s3 = 0 \<and> throttle_thrust_max ?s3 = 0 \<and> thrust_boost ?s3 = False \<and>
      thrust_boost_ratio ?s3 = 0 \<and> limit ?s3 = all_limits True"
    by (simp add: output_logic_def spool_shut_down_forced)
  have h: "frame_hook_ok ?h" using assms by (rule frame_ok_hooks)
  have v4: "spool_state (?h ?s3) = SHUT_DOWN \<and> spool_desired (?h ?s3) = DESIRED_SHUT_DOWN \<and>
      spin_up_ratio (?h ?s3) = 0 \<and> throttle_thrust_max (?h ?s3) = 0 \<and> limit (?h ?s3) = all_limits True"
    using frame_hook_fields [OF h, of ?s3] v3 limits_kept_all_true by simp
  show ?thesis
    unfolding output_min_def motors_output_hooks using post_stage_fields [of "?h ?s3"] v4
    by (simp add: spool_view_def)
qed

theorem output_min_shuts_down_witness:
  "frame_ok idle_frame \<and>
   spool_state (output_min idle_frame idle_tick ((motors_init 400)\<lparr>armed := True, interlock := True,
     spool_state := THROTTLE_UNLIMITED, spin_up_ratio := 1\<rparr>)) = SHUT_DOWN"
proof -
  have f: "frame_ok idle_frame"
    by (simp add: frame_ok_def frame_hook_ok_def idle_frame_def limits_kept_def)
  show ?thesis
    using output_min_shuts_down [OF f, of idle_tick "(motors_init 400)\<lparr>armed := True, interlock := True,
      spool_state := THROTTLE_UNLIMITED, spin_up_ratio := 1\<rparr>"] f by simp
qed

lemma mot_fail_flags_bits:
  "bit (mot_fail_flags s) 0 = thrust_boost s \<and> bit (mot_fail_flags s) 1 = thrust_balanced s \<and>
   unat (mot_fail_flags s) < 4"
proof -
  have "unat (mot_fail_flags s) = of_bool (thrust_boost s) + 2 * of_bool (thrust_balanced s)"
    by (cases "thrust_boost s"; cases "thrust_balanced s") (simp_all add: mot_fail_flags_def)
  then show ?thesis
    by (cases "thrust_boost s"; cases "thrust_balanced s") (simp_all add: mot_fail_flags_def bit_simps)
qed

text \<open>
  C24. \<open>Log_Write()\<close> appends exactly one MOTB record, stamped with the given
  time, and its \<open>failure_flags\<close> byte round-trips: bit 0 reads back
  \<open>_thrust_boost\<close>, bit 1 reads back \<open>_thrust_balanced\<close>, and no other bit is set.
\<close>

theorem Log_Write_failure_flags:
  "\<exists>lm v lim avg out f. outputs (Log_Write t s) = outputs s @ [Log_motbatt t lm v lim avg out f] \<and>
     bit f 0 = thrust_boost s \<and> bit f 1 = thrust_balanced s \<and> unat f < 4"
  using mot_fail_flags_bits [of s] by (simp add: Log_Write_def emit_def)

subsection \<open>Well-formed states\<close>

lemma update_throttle_filter_wf:
  "motors_wf s \<Longrightarrow> motors_wf (update_throttle_filter slope t s)"
  using update_throttle_filter_slew_rate [of s slope t]
  by (simp add: motors_wf_def update_throttle_filter_def Let_def)

lemma wf_preserving_ops:
  "motors_wf (update_lift_max_from_batt_voltage bm tau s) = motors_wf s"
  "motors_wf (update_external_limits (output_rpyt (output_boost_throttle s))\<lparr>motor_mask_override := 0\<rparr>) =
     motors_wf s"
  "motors_wf (s\<lparr>armed := b\<rparr>) = motors_wf s"
  "motors_wf (s\<lparr>interlock := b\<rparr>) = motors_wf s"
  "motors_wf (set_desired_spool_state d s) = motors_wf s"
  "motors_wf (s\<lparr>throttle_in := thr, roll_in_ff := r, pitch_in_ff := p, yaw_in_ff := y\<rparr>) = motors_wf s"
  "motors_wf (s\<lparr>spoolup_block := blk, thrust_boost := boost, thrust_balanced := bal,
      external_limits := ext, motor_enabled := en\<rparr>) = motors_wf s"
  "motors_wf (s\<lparr>params := pr\<rparr>) = motors_wf s"
  "motors_wf (s\<lparr>params := pr, thr_lin := tlin\<rparr>) = motors_wf s"
  "motors_wf (set_throttle_passthrough_for_esc_calibration thr s) = motors_wf s"
  "motors_wf (update_throttle_hover dt s) = motors_wf s"
  "motors_wf (save_params_on_disarm s) = motors_wf s"
  "motors_wf (update_throttle_range dig s) = motors_wf s"
  "motors_wf (convert_pwm_min_max_param lo hi s) = motors_wf s"
  "motors_wf (Log_Write t s) = motors_wf s"
  by (simp_all add: motors_wf_def update_lift_max_from_batt_voltage_def update_external_limits_def
      output_rpyt_def output_boost_throttle_def emit_def set_desired_spool_state_def
      set_throttle_passthrough_for_esc_calibration_def update_throttle_hover_def save_params_on_disarm_def
      update_throttle_range_def convert_pwm_min_max_param_def Log_Write_def Let_def)

lemma output_motor_mask_wf: "motors_wf (output_motor_mask rf thrust m r s) = motors_wf s"
proof -
  let ?g = "\<lambda>s. (throttle_filter s, throttle_slew s, dt_s s, throttle_slew_filter_tc s,
    throttle_slew_filter s, throttle_slew_rate s)"
  have "?g (output_motor_mask rf thrust m r s) = ?g s"
    unfolding output_motor_mask_def
    by (subst foldl_invariant_view) (simp_all add: output_motor_mask_step_def Let_def)
  then show ?thesis by (simp add: motors_wf_def)
qed

lemma logic_and_hooks_wf:
  assumes "frame_ok fi"
  shows "motors_wf ((output_to_motors fi \<circ> thrust_compensation fi \<circ> output_armed_stabilizing fi)
            (output_logic bm s)) = motors_wf s"
  using frame_hook_fields [OF frame_ok_hooks [OF assms], of "output_logic bm s"] output_logic_frame [of bm s]
  by (simp add: motors_wf_def logic_frame_view_def)

lemma motors_output_wf:
  assumes "frame_ok fi" "motors_wf s"
  shows "motors_wf (motors_output fi ti s)"
proof -
  have "motors_wf (update_throttle_filter (tick_slew_slope ti) (tick_time_us ti) s)"
    by (rule update_throttle_filter_wf [OF assms(2)])
  then show ?thesis
    unfolding motors_output_hooks wf_preserving_ops(2) logic_and_hooks_wf [OF assms(1)] wf_preserving_ops(1) .
qed

lemma motors_init_wf: "motors_wf (motors_init speed_hz)"
  by (simp add: motors_wf_def motors_init_def)

text \<open>
  C35. Every reachable state is well formed in the sense of the C types and the
  derivative filter's buffer: the filtered throttle \<open>_throttle_filter\<close> is a
  fraction in [0, 1], whatever throttle the pilot demands, the sample buffer of
  \<open>_throttle_slew\<close> never holds more than its seven samples, and the slew-rate
  telemetry \<open>_throttle_slew_rate\<close> is never negative, whatever slopes the
  derivative filter returns.
\<close>

theorem motors_reachable_well_formed:
  assumes "motors_reachable s"
  shows "0 \<le> throttle_filter s \<and> throttle_filter s \<le> 1 \<and> length (throttle_slew s) \<le> 7 \<and>
         0 \<le> throttle_slew_rate s"
proof -
  have "motors_wf s"
    using assms
  proof (induction rule: motors_reachable.induct)
    case (tick s fi ti)
    show ?case by (rule motors_output_wf [OF tick.hyps(2) tick.IH])
  next
    case (tick_min s fi ti)
    then show ?case
      unfolding output_min_def
      by (intro motors_output_wf) (simp_all add: motors_wf_def set_desired_spool_state_def)
  qed (simp_all add: motors_init_wf wf_preserving_ops output_motor_mask_wf)
  then show ?thesis by (simp add: motors_wf_def)
qed

theorem motors_reachable_well_formed_witness:
  "0 \<le> throttle_filter (motors_init 400) \<and> length (throttle_slew (motors_init 400)) \<le> 7"
  using motors_reachable_well_formed [OF motors_reachable.init [of 400]] by simp

subsection \<open>Liveness of spool-up through the whole tick\<close>

lemma spool_up_progress_view:
  "progress_view s1 = progress_view s \<Longrightarrow> progress_view t1 = progress_view t \<Longrightarrow>
   spool_up_progress s1 t1 = spool_up_progress s t"
  by (simp add: progress_view_def spool_view_def spool_up_progress_def spool_up_ready_def spool_up_step_def
      spool_inv_defs)

lemma spool_up_ready_inv_view:
  "progress_view s1 = progress_view s \<Longrightarrow> spool_up_ready s1 = spool_up_ready s \<and> spool_inv s1 = spool_inv s"
  by (simp add: progress_view_def spool_view_def spool_up_ready_def spool_inv_defs)

lemma stages_progress_view:
  "progress_view (update_lift_max_from_batt_voltage bm tau (update_throttle_filter slope t s)) = progress_view s"
  "progress_view (update_external_limits (output_rpyt (output_boost_throttle s))\<lparr>motor_mask_override := 0\<rparr>) =
     progress_view s"
  by (simp_all add: progress_view_def spool_view_def update_lift_max_from_batt_voltage_def
      update_throttle_filter_def update_external_limits_def output_rpyt_def output_boost_throttle_def
      emit_def Let_def)

lemma hooks_progress_view:
  "frame_ok fi \<Longrightarrow>
   progress_view ((output_to_motors fi \<circ> thrust_compensation fi \<circ> output_armed_stabilizing fi) s) = progress_view s"
  using frame_hook_fields [OF frame_ok_hooks, of fi s] frame_hook_spool_view [OF frame_ok_hooks, of fi s]
  by (simp add: progress_view_def)

lemma motors_output_progress:
  assumes "frame_ok fi" "spool_up_ready s" "spool_inv s"
  shows "spool_up_progress s (motors_output fi ti s)"
proof -
  let ?h = "output_to_motors fi \<circ> thrust_compensation fi \<circ> output_armed_stabilizing fi"
  let ?s2 = "update_lift_max_from_batt_voltage (tick_battery ti) (tick_volt_tc ti)
               (update_throttle_filter (tick_slew_slope ti) (tick_time_us ti) s)"
  have v2: "progress_view ?s2 = progress_view s" by (rule stages_progress_view(1))
  then have "spool_up_ready ?s2" "spool_inv ?s2"
    using assms(2,3) spool_up_ready_inv_view by blast+
  then have p: "spool_up_progress ?s2 (output_logic (tick_battery ti) ?s2)"
    by (rule output_logic_progress)
  have "progress_view (motors_output fi ti s) = progress_view (output_logic (tick_battery ti) ?s2)"
    unfolding motors_output_hooks stages_progress_view(2) hooks_progress_view [OF assms(1)] ..
  then show ?thesis
    using p spool_up_progress_view [OF v2] by blast
qed

lemma motors_output_progress_ticks:
  "frame_ok fi \<Longrightarrow> progress_ticks (\<lambda>k. motors_output fi (tis k))"
  by (simp add: progress_ticks_def motors_output_progress)

text \<open>
  C36. Scenario S1 of the specification end to end: on a vehicle that is armed,
  interlocked and asked for \<open>THROTTLE_UNLIMITED\<close>, with spool-up not blocked,
  PWM not disabled on disarm, a positive loop period and a spool-up time of at
  least the code's 0.05 s floor, successive calls of \<open>output()\<close>, with any
  frame mixer meeting \<open>frame_ok\<close> and any sequence of tick inputs (battery
  readings, clock, filter slopes), reach \<open>THROTTLE_UNLIMITED\<close> from every state
  satisfying the spool invariant within \<open>2 \<lceil>spool_up_time / dt\<rceil> + 3\<close>
  ticks.
\<close>

theorem motors_output_reaches_throttle_unlimited:
  assumes "frame_ok fi" "spool_up_ready s" "spool_inv s"
  shows "\<exists>n \<le> 2 * nat \<lceil>spool_up_time (params s) / dt_s s\<rceil> + 3.
           spool_state (tick_run (\<lambda>k. motors_output fi (tis k)) n s) = THROTTLE_UNLIMITED"
proof -
  have "spool_up_time (params s) / dt_s s = 1 / spool_up_step s"
    by (simp add: spool_up_step_def)
  then show ?thesis
    using tick_run_reaches_throttle_unlimited [OF motors_output_progress_ticks [OF assms(1)] assms(2,3)]
    by simp
qed

theorem motors_output_reaches_throttle_unlimited_witness:
  "\<exists>n \<le> 403. spool_state (tick_run (\<lambda>k. motors_output idle_frame idle_tick) n
     ((motors_init 400)\<lparr>armed := True, interlock := True, spool_desired := DESIRED_THROTTLE_UNLIMITED,
        throttle_in := 0.5\<rparr>)) = THROTTLE_UNLIMITED"
proof -
  have f: "frame_ok idle_frame"
    by (simp add: frame_ok_def frame_hook_ok_def idle_frame_def limits_kept_def)
  have r: "spool_up_ready ((motors_init 400)\<lparr>armed := True, interlock := True,
      spool_desired := DESIRED_THROTTLE_UNLIMITED, throttle_in := 0.5\<rparr>)"
    by (simp add: spool_up_ready_def motors_init_def default_params_def minimum_spool_time_def)
  have i: "spool_inv ((motors_init 400)\<lparr>armed := True, interlock := True,
      spool_desired := DESIRED_THROTTLE_UNLIMITED, throttle_in := 0.5\<rparr>)"
    by (simp add: spool_inv_defs motors_init_def default_params_def default_thr_lin_def)
  show ?thesis
    using motors_output_reaches_throttle_unlimited [OF f r i, of "\<lambda>_. idle_tick"]
    by (simp add: motors_init_def default_params_def)
qed

end
