(* ===== verification/Spec2Isabelle.thy ===== *)
theory Spec2Isabelle
  imports Output_Pipeline Spool_Behaviour Param_Table
begin

text \<open>
  \<^bold>\<open>A verification model of the multicopter motor-output stage\<close>
  (\<open>src/libraries/AP_Motors/AP_MotorsMulticopter.cpp\<close>).

  \<^bold>\<open>The program.\<close> Each control tick \<open>AP_MotorsMulticopter::output()\<close> runs a
  fixed pipeline: the throttle low-pass filter (\<open>update_throttle_filter\<close>), the
  battery-voltage compensation of the thrust linearizer, the spool state machine
  (\<open>output_logic\<close>), the three stages of the frame-specific mixer
  (\<open>output_armed_stabilizing\<close>, \<open>thrust_compensation\<close>,
  \<open>output_to_motors\<close>, virtual and implemented by the frame classes), the
  booster and roll/pitch/yaw/thrust scaled outputs, the external limit flags, and
  the reset of the motor-mask override. Around it sit the current limiter
  (\<open>get_current_limit_max_throttle\<close>, called by the spool logic), the
  conversion of actuator values to PWM (\<open>output_to_pwm\<close>,
  \<open>set_actuator_with_slew\<close>, used by the frame mixers), the hover-throttle
  learner, the arming checks, the PWM-range parameter handling, ESC calibration,
  the tilt-rotor motor-mask output and the MOTB log record.

  \<^bold>\<open>Theories and what they model.\<close>
  \<^item> \<open>Motors_Prelude\<close>: \<open>float\<close> as exact \<^typ>\<open>real\<close>; the AP_Math helpers
    \<open>constrain_float\<close>, \<open>is_zero\<close>, \<open>is_positive\<close>, \<open>is_equal\<close> with their
    \<open>FLT_EPSILON\<close> thresholds; the first-order low-pass filter
    \<open>lowpass_apply\<close>; the C conversion of a float to an integer
    (\<open>float_to_int\<close>, truncation); the clamp lemmas the components share
    (collection \<open>clamp_rules\<close>).
  \<^item> \<open>Motors_State\<close>: the enumerations (\<open>spool_state\<close>,
    \<open>desired_spool_state\<close>, \<open>pwm_type\<close>, \<open>hover_learn\<close>), the
    parameters as records with the defaults \<open>var_info\<close> declares
    (\<open>default_params\<close>, \<open>default_thr_lin\<close>), the object's members as the
    record \<open>motors_state\<close>, the constructor (\<open>motors_init\<close>) and the getters. Calls to the servo
    driver, the logger and the parameter store are \<open>output_event\<close>s appended to
    the \<open>outputs\<close> list of the state in the order the code makes them.
  \<^item> \<open>Param_Table\<close>: the table \<open>var_info\<close> itself, one
    \<open>group_info\<close> per \<open>AP_GROUPINFO\<close> line (name, index, member, default,
    frame flag, documented \<open>@Range\<close>/\<open>@Values\<close>/\<open>@Bitmask\<close>), the
    build-dependent prefix \<open>AP_MOTORS_PARAM_PREFIX\<close> and the retired indices;
    and the constructor's call \<open>AP_Param::setup_object_defaults(this, var_info)\<close>
    as \<open>setup_object_defaults\<close>, which stores each default into its member
    (\<open>param_set\<close>: floats as they are, integer members truncated, enumerations
    by their \<open>@Values\<close> numbers). \<open>GroupInfo\<close>, \<open>AP_GROUPINFO\<close> and
    \<open>AP_MAX_NAME_SIZE\<close> are \<open>AP_Param\<close>'s and are given their meaning here.
  \<^item> \<open>Throttle_Filter\<close>: \<open>update_throttle_filter\<close>, \<open>update_throttle_hover\<close>,
    \<open>save_params_on_disarm\<close>; the derivative filter's \<open>slope()\<close> is a parameter
    of each tick, with the specification's two-sample estimator
    \<open>derivative_slope\<close> as an instance, and the slew-rate telemetry is its
    absolute value, scaled to seconds and low-passed.
  \<^item> \<open>Current_Limiter\<close>: \<open>get_current_limit_max_throttle\<close>, returning the
    ceiling together with the state, since every call steps \<open>_throttle_limit\<close>;
    the battery monitor is a function from instance to reading.
  \<^item> \<open>Spool_Logic\<close>: \<open>output_logic\<close>, one definition per case of its switch
    plus its prologue (safety timer, forced shutdown, spool-up-time floor); the
    abstract machine \<open>spool_trans\<close> of the specification (section 4.4) that it
    refines; the invariant \<open>spool_inv\<close> (ramps in range, agreeing with the
    spool state) kept by every tick.
  \<^item> \<open>Spool_Behaviour\<close>: liveness of spool-up over many ticks, proved once
    for any run \<open>tick_run F\<close> whose ticks make progress
    (\<open>progress_ticks\<close>) and applied to \<open>output_logic\<close> here and to the whole
    \<open>output()\<close> in \<open>Output_Pipeline\<close>; and the runs that leave the specified
    ranges.
  \<^item> \<open>Actuator_Output\<close>: slew limiting, \<open>output_to_pwm\<close> (float to
    \<open>int16_t\<close> by truncation), ESC calibration, \<open>get_raw_motor_throttle\<close>,
    \<open>output_motor_mask\<close> as a fold over the 32 motors with the mask a 32-bit word
    and its PWM arithmetic wrapped to 16 bits (\<open>to_int16\<close>); the frame's
    \<open>get_roll_factor\<close> is a parameter. The two \<open>for\<close> loops are also
    modelled as the code writes them, with \<open>uint8_t\<close> and \<open>uint16_t\<close>
    counters (\<open>output_motor_mask_loop\<close>, \<open>esc_calibration_rc_loop\<close>).
  \<^item> \<open>Arming_Checks\<close>: \<open>arming_checks\<close> with its failures as an
    \<open>arming_error\<close> in a sum result, \<open>check_mot_pwm_params\<close>,
    \<open>update_throttle_range\<close>, \<open>convert_pwm_min_max_param\<close>.
  \<^item> \<open>Thrust_Linearizer\<close>: the thrust curve and battery compensation of
    \<open>Thrust_Linearization\<close> (not under \<open>src/\<close>, modelled from the
    specification) and \<open>get_thrust\<close> on top of it.
  \<^item> \<open>Output_Pipeline\<close>: \<open>output()\<close> as \<open>motors_output\<close>, composed of
    the definitions above and a \<open>frame_interface\<close> for the mixer whose contract
    \<open>frame_ok\<close> says what a frame may not touch; \<open>output_min\<close>,
    \<open>output_boost_throttle\<close>, \<open>output_rpyt\<close>, \<open>update_external_limits\<close>,
    \<open>Log_Write\<close>; the reachable states \<open>motors_reachable\<close>, an inductive set
    closed under every entry point and setter and under single-parameter writes
    through \<open>param_set\<close> that respect the spin configuration.

  \<^bold>\<open>What is proved.\<close> The spool machine: refinement of the specification's
  transition relation by every tick (C1), zero ramps in \<open>SHUT_DOWN\<close> (C2),
  immediate shutdown on disarm or interlock loss (C3), the invariant on every
  reachable state of the whole object (C21) and liveness of spool-up within
  \<open>2 \<lceil>spool_up_time / dt\<rceil> + 3\<close> ticks (C25). The actuator stage: slew
  rate and range (C4), PWM range (C5), ESC calibration (C6), the motor-mask
  fold (C8). The parameter table: well formed for \<open>AP_Param\<close> (C7), the
  constructor's defaults are exactly what loading it stores (C15), reading and
  writing a parameter round-trip (\<open>param_set_value\<close>), and every default lies
  in its documented range except the 0 (disabled) of \<open>BAT_VOLT_MAX\<close> and
  \<open>BAT_VOLT_MIN\<close> (\<open>var_info_defaults_outside_doc\<close>). The current
  limiter's monotonicity in the current (C9), its reversal below the compensation
  minimum voltage (C10) and its settling under sustained over-current (C28). Throttle filter
  and hover learner ranges and convergence (C11 to C13). Arming checks as an exact
  characterisation with their error messages (C14), PWM range handling (C16,
  C17), the thrust round trip of \<open>get_thrust\<close> (C18). The pipeline: end-to-end
  shutdown when disarmed (C19), the order and range of the scaled outputs (C20),
  external limits always reported (C22), \<open>output_min\<close> (C23), the MOTB failure
  flags round trip (C24), well-formed reachable states, slew-rate telemetry
  included (C35), and liveness of spool-up through the whole tick with any conforming frame mixer (C36). The
  ranges the code actually keeps, where they are wider than the specified ones:
  in \<open>GROUND_IDLE\<close> the spin-up ratio tracks \<open>spin_arm / spin_min\<close>, above 1
  when \<open>spin_arm > spin_min\<close> (C26), and the safety timer stays within
  [0, \<open>safe_time + dt\<close>], above \<open>safe_time\<close> on the crossing tick (C27).
  Across components: passing the arming checks establishes the spool
  invariant's parameter condition when \<open>spin_arm \<ge> 0\<close> (C29), but the checks
  accept a negative \<open>spin_arm\<close> that drives the ratio below 0 (C30); the
  ground-idle actuator clamps such ratios (C31). The slew sample buffer stays
  bounded (C32). The machine-word loops terminate without wrapping and agree
  with the fold and list models (C33, C34). The slew limiter agrees with the
  specification's formulation (C38). The current limiter inside the spool
  logic: the spool-up transition steps it twice (C37), and without current
  telemetry it never limits (C39). \<open>output_motor_mask\<close> drives the masked
  motors with their clamped thrust in every spool state, \<open>SHUT_DOWN\<close> included
  (C40).

  \<^bold>\<open>Bounds and fuel.\<close> No definition needs fuel: every loop of the code runs
  over the 32 motor slots (a fold, a list comprehension or a search); the
  counter-based loops terminate by the measure \<open>32 - i\<close>, which decreases
  because 32 fits both \<open>uint8_t\<close> and \<open>uint16_t\<close>
  (\<open>unat_inc_below\<close>); the defaults loop runs over the finite table. The
  liveness bound counts ticks: each ramp rises by
  \<open>dt / spool_up_time\<close> per tick and must cover at most 1, so
  \<open>\<lceil>spool_up_time / dt\<rceil> + 1\<close> ticks per ramp suffice, since the
  threshold \<open>min (get_throttle, current ceiling)\<close> is at most 1. The witnesses
  run at 400 Hz with the parameter defaults of \<open>var_info\<close>.

  \<^bold>\<open>Not modelled.\<close> Floating-point rounding and IEEE infinities and NaN (the
  model is exact real arithmetic; a division by zero is 0 in HOL); the frame
  mixers beyond their contract; the HAL drivers, logger transport and parameter
  storage beyond the events they receive; the Filter library's derivative
  filter beyond its sample buffer and the specification's estimator (the
  differentiator the library implements is not under \<open>src/\<close>); the
  wrap-around of the 32-bit microsecond clock; \<open>AP_Param\<close>'s storage, of
  which only the loading of defaults and single-parameter writes are modelled.
\<close>

section \<open>Properties across components\<close>



text \<open>
  C30. The arming checks do not bound \<open>MOT_SPIN_ARM\<close> from below: lowering
  it never makes checks that passed fail, so every negative value passes with a
  valid configuration, and a \<open>GROUND_IDLE\<close> tick then drives the spin-up ratio
  from 0 below 0, outside the range [0, 1] the specification gives it (in the
  witness, \<open>spin_arm = -0.05\<close> with the other defaults at 400 Hz).
\<close>

theorem arming_accepts_negative_spin_arm:
  assumes "arming_checks base_ok h s = Inr ()" "x \<le> spin_arm (params s)"
  shows "arming_checks base_ok h (s\<lparr>params := (params s)\<lparr>spin_arm := x\<rparr>\<rparr>) = Inr () \<and>
    (x < 0 \<and> 0 < spin_min (thr_lin s) \<and> 0 < dt_s s \<longrightarrow>
       spin_up_ratio (output_logic bm (s\<lparr>armed := True, interlock := True,
         params := (params s)\<lparr>spin_arm := x\<rparr>, spool_state := GROUND_IDLE,
         spool_desired := DESIRED_GROUND_IDLE, spin_up_ratio := 0\<rparr>)) < 0)"
proof
  show "arming_checks base_ok h (s\<lparr>params := (params s)\<lparr>spin_arm := x\<rparr>\<rparr>) = Inr ()"
    using assms
    by (auto simp: arming_checks_def check_mot_pwm_params_def split: if_splits option.splits)
next
  let ?s = "s\<lparr>armed := True, interlock := True, params := (params s)\<lparr>spin_arm := x\<rparr>,
    spool_state := GROUND_IDLE, spool_desired := DESIRED_GROUND_IDLE, spin_up_ratio := 0\<rparr>"
  let ?p = "output_logic_prologue ?s"
  show "x < 0 \<and> 0 < spin_min (thr_lin s) \<and> 0 < dt_s s \<longrightarrow> spin_up_ratio (output_logic bm ?s) < 0"
  proof
    assume h: "x < 0 \<and> 0 < spin_min (thr_lin s) \<and> 0 < dt_s s"
    have up: "minimum_spool_time \<le> spool_up_time (params ?p)"
      by (rule output_logic_prologue_spool_up_time)
    have d: "0 < dt_s ?s / spool_down_time_eff (params ?p)"
      using spool_down_time_eff_pos [OF up] h by simp
    have u: "0 \<le> dt_s ?s / spool_up_time (params ?p)"
      using up h by (simp add: minimum_spool_time_def)
    have t: "ground_idle_target ?s < 0"
      using h by (simp add: ground_idle_target_def divide_neg_pos)
    show "spin_up_ratio (output_logic bm ?s) < 0"
      using output_logic_ground_idle_ratio [of ?s bm] d u t
      by (simp add: constrain_float_def)
  qed
qed

theorem arming_accepts_negative_spin_arm_witness:
  "arming_checks True (\<lambda>_. True) ((motors_init 400)\<lparr>params := default_params\<lparr>spin_arm := - 0.05\<rparr>\<rparr>) = Inr () \<and>
   spin_up_ratio (output_logic witness_battery ((motors_init 400)\<lparr>armed := True, interlock := True,
       params := default_params\<lparr>spin_arm := - 0.05\<rparr>, spool_state := GROUND_IDLE,
       spool_desired := DESIRED_GROUND_IDLE, spin_up_ratio := 0\<rparr>)) < 0"
proof -
  have a: "arming_checks True (\<lambda>_. True) (motors_init 400) = Inr ()"
    by (simp add: arming_checks_def motors_init_def default_params_def default_thr_lin_def
        check_mot_pwm_params_def AP_MOTORS_MAX_NUM_MOTORS_def find_None_iff)
  have x: "- 0.05 \<le> spin_arm (params (motors_init 400))"
    by (simp add: motors_init_def default_params_def)
  have c: "- 0.05 < (0::real) \<and> 0 < spin_min (thr_lin (motors_init 400)) \<and> 0 < dt_s (motors_init 400)"
    by (simp add: motors_init_def default_thr_lin_def)
  show ?thesis
    using arming_accepts_negative_spin_arm [OF a x, of witness_battery] c
    by (simp add: motors_init_def)
qed

text \<open>
  C31. \<open>actuator_spin_up_to_ground_idle\<close> never commands more than the
  ground-idle spin: it lies in [0, \<open>spin_min\<close>] whatever the spin-up ratio
  (it clamps the ratio, which protects the motors from the ratios of C26 and
  C30), and once the ratio has settled at \<open>spin_arm / spin_min\<close> in
  \<open>GROUND_IDLE\<close> it is exactly \<open>MOT_SPIN_ARM\<close>.
\<close>

theorem actuator_spin_up_to_ground_idle_range:
  assumes "0 \<le> spin_min (thr_lin s)"
  shows "0 \<le> actuator_spin_up_to_ground_idle s \<and> actuator_spin_up_to_ground_idle s \<le> spin_min (thr_lin s) \<and>
         (0 < spin_min (thr_lin s) \<and> 0 \<le> spin_arm (params s) \<and> spin_arm (params s) \<le> spin_min (thr_lin s) \<and>
          spin_up_ratio s = ground_idle_target s \<longrightarrow> actuator_spin_up_to_ground_idle s = spin_arm (params s))"
proof -
  have c: "0 \<le> constrain_float (spin_up_ratio s) 0 1 \<and> constrain_float (spin_up_ratio s) 0 1 \<le> 1"
    by (simp add: clamp_rules)
  then have "0 \<le> actuator_spin_up_to_ground_idle s \<and> actuator_spin_up_to_ground_idle s \<le> spin_min (thr_lin s)"
    using assms mult_left_le_one_le [of "spin_min (thr_lin s)"]
    by (simp add: actuator_spin_up_to_ground_idle_def mult_le_cancel_right1)
  moreover have "actuator_spin_up_to_ground_idle s = spin_arm (params s)"
    if "0 < spin_min (thr_lin s)" "0 \<le> spin_arm (params s)" "spin_arm (params s) \<le> spin_min (thr_lin s)"
       "spin_up_ratio s = ground_idle_target s"
  proof -
    have e: "spin_up_ratio s = spin_arm (params s) / spin_min (thr_lin s)"
      using that(1,4) by (simp add: ground_idle_target_def)
    have r0: "0 \<le> spin_up_ratio s" using e that(1,2) by simp
    have r1: "spin_up_ratio s \<le> 1" using e that(1,3) by simp
    have "constrain_float (spin_up_ratio s) 0 1 = spin_up_ratio s" using r0 r1 by (rule constrain_float_id)
    then show ?thesis using e that(1) by (simp add: actuator_spin_up_to_ground_idle_def)
  qed
  ultimately show ?thesis by blast
qed

theorem actuator_spin_up_to_ground_idle_range_witness:
  "actuator_spin_up_to_ground_idle ((motors_init 400)\<lparr>spin_up_ratio := 2 / 3\<rparr>) = 0.1 \<and>
   actuator_spin_up_to_ground_idle ((motors_init 400)\<lparr>spin_up_ratio := 1.5\<rparr>) = 0.15"
proof -
  have a: "0 \<le> spin_min (thr_lin ((motors_init 400)\<lparr>spin_up_ratio := 2 / 3\<rparr>))"
       "0 \<le> spin_min (thr_lin ((motors_init 400)\<lparr>spin_up_ratio := 1.5\<rparr>))"
    by (simp_all add: motors_init_def default_thr_lin_def)
  have "actuator_spin_up_to_ground_idle ((motors_init 400)\<lparr>spin_up_ratio := 2 / 3\<rparr>) = 0.1"
    using actuator_spin_up_to_ground_idle_range [OF a(1)]
    by (simp add: motors_init_def default_thr_lin_def default_params_def ground_idle_target_def)
  moreover have "actuator_spin_up_to_ground_idle ((motors_init 400)\<lparr>spin_up_ratio := 1.5\<rparr>) \<le> 0.15"
    using actuator_spin_up_to_ground_idle_range [OF a(2)] by (simp add: motors_init_def default_thr_lin_def)
  moreover have "0.15 \<le> actuator_spin_up_to_ground_idle ((motors_init 400)\<lparr>spin_up_ratio := 1.5\<rparr>)"
    by (simp add: actuator_spin_up_to_ground_idle_def motors_init_def default_thr_lin_def constrain_float_def)
  ultimately show ?thesis by simp
qed

end
